theory Spec2Isabelle
  imports Complex_Main
begin

section \<open>Python values: strings, exceptions, results\<close>

text \<open>
  A Python \<open>str\<close> is a sequence of Unicode code points, so \<open>len\<close>, slicing and the
  character classes of \<open>re\<close> all work on code points. A string is modelled as the list of
  its code points.
\<close>

type_synonym ustring = "nat list"

text \<open>
  Exceptions carry their class and the text of \<open>str(e)\<close>. The source has handlers of two
  kinds: \<open>except Exception\<close> (and \<open>except ImportError\<close>), which let through what is a
  \<open>BaseException\<close> without being an \<open>Exception\<close> (\<open>KeyboardInterrupt\<close>, \<open>SystemExit\<close>,
  \<open>GeneratorExit\<close>), and one bare \<open>except:\<close>, which catches everything.
\<close>

datatype exn_class =
    ImportError
  | IndexError
  | ZeroDivisionError
  | UnboundLocalError
  | OtherException
  | BaseExceptionOnly

datatype py_exn = PyExn (cls: exn_class) (msg: ustring)

definition is_Exception :: "py_exn \<Rightarrow> bool" where
  "is_Exception e = (cls e \<noteq> BaseExceptionOnly)"

text \<open>
  The texts of the errors that the interpreter itself raises in this program: a division
  by zero, an index into an empty list, and the read of a local variable that was never
  assigned (in the wording of CPython 3.11 and later), here the variable \<open>result\<close> of
  \<open>play_audio\<close>.
\<close>

definition DIVISION_BY_ZERO :: ustring where
  "DIVISION_BY_ZERO =
     [0x64, 0x69, 0x76, 0x69, 0x73, 0x69, 0x6F, 0x6E, 0x20, 0x62, 0x79, 0x20, 0x7A, 0x65,
      0x72, 0x6F]"

definition LIST_INDEX_OUT_OF_RANGE :: ustring where
  "LIST_INDEX_OUT_OF_RANGE =
     [0x6C, 0x69, 0x73, 0x74, 0x20, 0x69, 0x6E, 0x64, 0x65, 0x78, 0x20, 0x6F, 0x75, 0x74,
      0x20, 0x6F, 0x66, 0x20, 0x72, 0x61, 0x6E, 0x67, 0x65]"

definition RESULT_UNBOUND :: ustring where
  "RESULT_UNBOUND =
     [0x63, 0x61, 0x6E, 0x6E, 0x6F, 0x74, 0x20, 0x61, 0x63, 0x63, 0x65, 0x73, 0x73, 0x20,
      0x6C, 0x6F, 0x63, 0x61, 0x6C, 0x20, 0x76, 0x61, 0x72, 0x69, 0x61, 0x62, 0x6C, 0x65,
      0x20, 0x27, 0x72, 0x65, 0x73, 0x75, 0x6C, 0x74, 0x27, 0x20, 0x77, 0x68, 0x65, 0x72,
      0x65, 0x20, 0x69, 0x74, 0x20, 0x69, 0x73, 0x20, 0x6E, 0x6F, 0x74, 0x20, 0x61, 0x73,
      0x73, 0x6F, 0x63, 0x69, 0x61, 0x74, 0x65, 0x64, 0x20, 0x77, 0x69, 0x74, 0x68, 0x20,
      0x61, 0x20, 0x76, 0x61, 0x6C, 0x75, 0x65]"

datatype 'a res = Return 'a | Raise py_exn

section \<open>The language detector\<close>

text \<open>
  The tables behind \<open>\s\<close>, \<open>\d\<close> and \<open>\w\<close> of Python's \<open>re\<close> (and behind \<open>str.strip\<close>,
  which removes the same white space) belong to the interpreter, not to the program: they
  are parameters of the model.
\<close>

record char_classes =
  is_space :: "nat \<Rightarrow> bool"
  is_digit :: "nat \<Rightarrow> bool"
  is_word :: "nat \<Rightarrow> bool"

definition strip :: "char_classes \<Rightarrow> ustring \<Rightarrow> ustring" where
  "strip cc text = rev (dropWhile (is_space cc) (rev (dropWhile (is_space cc) text)))"

text \<open>\<open>re.findall(r'[U+0400-U+04FF]', text)\<close>: one match per character of the range.\<close>

definition findall_cyrillic :: "ustring \<Rightarrow> nat list" where
  "findall_cyrillic text = filter (\<lambda>c. 0x400 \<le> c \<and> c \<le> 0x4FF) text"

text \<open>
  \<open>re.findall(r'[^\s\d\W]', text)\<close>: one match per character that is in none of \<open>\s\<close>,
  \<open>\d\<close>, \<open>\W\<close>, that is, a word character that is neither white space nor a digit.
\<close>

definition findall_letters :: "char_classes \<Rightarrow> ustring \<Rightarrow> nat list" where
  "findall_letters cc text =
     filter (\<lambda>c. \<not> is_space cc c \<and> \<not> is_digit cc c \<and> is_word cc c) text"

text \<open>
  Python's \<open>/\<close> on two \<open>int\<close>s raises \<open>ZeroDivisionError\<close> for a zero divisor. The quotient
  is a float in the source and a real number here; the two agree on the comparison with
  \<open>0.5\<close> for every divisor below \<open>2 ^ 53\<close>, far above the length of any string.
\<close>

definition truediv :: "nat \<Rightarrow> nat \<Rightarrow> real res" where
  "truediv a b =
     (if b = 0 then Raise (PyExn ZeroDivisionError DIVISION_BY_ZERO) else Return (real a / real b))"

definition is_russian_text :: "char_classes \<Rightarrow> ustring \<Rightarrow> bool res" where
  "is_russian_text cc text =
     (if text = [] \<or> strip cc text = [] then Return False
      else
        let russian_chars = findall_cyrillic text;
            total_letters = findall_letters cc text
        in if total_letters = [] then Return False
           else (case truediv (length russian_chars) (length total_letters) of
                   Raise e \<Rightarrow> Raise e
                 | Return q \<Rightarrow> Return (q > 0.5)))"

text \<open>The character classes on the code points below 128, enough for concrete runs.\<close>

definition ascii_classes :: char_classes where
  "ascii_classes =
     \<lparr> is_space = (\<lambda>c. c = 0x20 \<or> (0x09 \<le> c \<and> c \<le> 0x0D) \<or> (0x1C \<le> c \<and> c \<le> 0x1F)),
       is_digit = (\<lambda>c. 0x30 \<le> c \<and> c \<le> 0x39),
       is_word = (\<lambda>c. (0x30 \<le> c \<and> c \<le> 0x39) \<or> (0x41 \<le> c \<and> c \<le> 0x5A) \<or> c = 0x5F
                     \<or> (0x61 \<le> c \<and> c \<le> 0x7A) \<or> (0x400 \<le> c \<and> c \<le> 0x481)
                     \<or> (0x48A \<le> c \<and> c \<le> 0x4FF)) \<rparr>"

section \<open>String constants of the source\<close>

text \<open>The literal \<open>"..."\<close> appended to a truncated text.\<close>

definition ELLIPSIS :: ustring where
  "ELLIPSIS = [0x2E, 0x2E, 0x2E]"

text \<open>
  The failure sentinel of the per-word translation, the four characters U+7FFB U+8BD1
  U+5931 U+8D25 ("translation failed").
\<close>

definition TRANSLATION_FAILED :: ustring where
  "TRANSLATION_FAILED = [0x7FFB, 0x8BD1, 0x5931, 0x8D25]"

text \<open>The message of \<open>morphological_analysis\<close> for a text without Russian words.\<close>

definition NO_RUSSIAN_WORDS :: ustring where
  "NO_RUSSIAN_WORDS = [0x672A, 0x627E, 0x5230, 0x4FC4, 0x8BED, 0x5355, 0x8BCD]"

text \<open>The prefixes of the two error texts, each ending in a colon and a space.\<close>

definition MORPH_FAILED_PREFIX :: ustring where
  "MORPH_FAILED_PREFIX = [0x5F62, 0x6001, 0x5B66, 0x5206, 0x6790, 0x5931, 0x8D25, 0x3A, 0x20]"

definition PARSE_ERROR_PREFIX :: ustring where
  "PARSE_ERROR_PREFIX = [0x89E3, 0x6790, 0x9519, 0x8BEF, 0x3A, 0x20]"

text \<open>The separators of a report: the full-width comma, the line feed, and the two
  pieces of a report line around the tags.\<close>

definition WIDE_COMMA :: ustring where
  "WIDE_COMMA = [0xFF0C]"

definition NEWLINE :: ustring where
  "NEWLINE = [0xA]"

definition OPEN_PAREN :: ustring where
  "OPEN_PAREN = [0x28]"

definition ARROW_NORMAL_FORM :: ustring where
  "ARROW_NORMAL_FORM = [0x29, 0x20, 0x2192, 0x3010, 0x539F, 0x5F62, 0x3011, 0x20]"

text \<open>The table from grammeme codes to their Chinese labels, in the order of the source.\<close>

definition GRAM_MAP :: "(ustring \<times> ustring) list" where
  "GRAM_MAP =
     [
       ([0x4E, 0x4F, 0x55, 0x4E], [0x540D, 0x8BCD]),
       ([0x4E, 0x50, 0x52, 0x4F], [0x4EE3, 0x8BCD]),
       ([0x56, 0x45, 0x52, 0x42], [0x52A8, 0x8BCD]),
       ([0x49, 0x4E, 0x46, 0x4E], [0x4E0D, 0x5B9A, 0x5F0F]),
       ([0x41, 0x44, 0x4A, 0x46], [0x5F62, 0x5BB9, 0x8BCD, 0xFF08, 0x957F, 0x5F62, 0x5F0F, 0xFF09]),
       ([0x41, 0x44, 0x4A, 0x53], [0x5F62, 0x5BB9, 0x8BCD, 0xFF08, 0x77ED, 0x5F62, 0x5F0F, 0xFF09]),
       ([0x50, 0x52, 0x54, 0x46], [0x5206, 0x8BCD, 0xFF08, 0x957F, 0x5F62, 0x5F0F, 0xFF09]),
       ([0x50, 0x52, 0x54, 0x53], [0x5206, 0x8BCD, 0xFF08, 0x77ED, 0x5F62, 0x5F0F, 0xFF09]),
       ([0x47, 0x52, 0x4E, 0x44], [0x526F, 0x52A8, 0x8BCD]),
       ([0x41, 0x44, 0x56, 0x42], [0x526F, 0x8BCD]),
       ([0x4E, 0x55, 0x4D, 0x52], [0x6570, 0x8BCD]),
       ([0x50, 0x52, 0x45, 0x50], [0x4ECB, 0x8BCD]),
       ([0x43, 0x4F, 0x4E, 0x4A], [0x8FDE, 0x8BCD]),
       ([0x50, 0x52, 0x43, 0x4C], [0x8BED, 0x6C14, 0x8BCD]),
       ([0x49, 0x4E, 0x54, 0x4A], [0x611F, 0x53F9, 0x8BCD]),
       ([0x6D, 0x61, 0x73, 0x63], [0x9633, 0x6027]),
       ([0x66, 0x65, 0x6D, 0x6E], [0x9634, 0x6027]),
       ([0x6E, 0x65, 0x75, 0x74], [0x4E2D, 0x6027]),
       ([0x73, 0x69, 0x6E, 0x67], [0x5355, 0x6570]),
       ([0x70, 0x6C, 0x75, 0x72], [0x590D, 0x6570]),
       ([0x6E, 0x6F, 0x6D, 0x6E], [0x4E3B, 0x683C]),
       ([0x67, 0x65, 0x6E, 0x74], [0x5C5E, 0x683C]),
       ([0x64, 0x61, 0x74, 0x76], [0x4E0E, 0x683C]),
       ([0x61, 0x63, 0x63, 0x73], [0x5BBE, 0x683C]),
       ([0x61, 0x62, 0x6C, 0x74], [0x5DE5, 0x5177, 0x683C]),
       ([0x6C, 0x6F, 0x63, 0x74], [0x524D, 0x7F6E, 0x683C]),
       ([0x76, 0x6F, 0x63, 0x74], [0x547C, 0x683C]),
       ([0x70, 0x61, 0x73, 0x74], [0x8FC7, 0x53BB, 0x65F6]),
       ([0x70, 0x72, 0x65, 0x73], [0x73B0, 0x5728, 0x65F6]),
       ([0x66, 0x75, 0x74, 0x72], [0x5C06, 0x6765, 0x65F6]),
       ([0x70, 0x65, 0x72, 0x66], [0x5B8C, 0x6210, 0x4F53]),
       ([0x69, 0x6D, 0x70, 0x66], [0x672A, 0x5B8C, 0x6210, 0x4F53]),
       ([0x69, 0x6E, 0x64, 0x63], [0x9648, 0x8FF0, 0x5F0F]),
       ([0x69, 0x6D, 0x70, 0x72], [0x7948, 0x4F7F, 0x5F0F]),
       ([0x31, 0x70, 0x65, 0x72], [0x7B2C, 0x4E00, 0x4EBA, 0x79F0]),
       ([0x32, 0x70, 0x65, 0x72], [0x7B2C, 0x4E8C, 0x4EBA, 0x79F0]),
       ([0x33, 0x70, 0x65, 0x72], [0x7B2C, 0x4E09, 0x4EBA, 0x79F0]),
       ([0x74, 0x72, 0x61, 0x6E], [0x53CA, 0x7269]),
       ([0x69, 0x6E, 0x74, 0x72], [0x4E0D, 0x53CA, 0x7269]),
       ([0x61, 0x6E, 0x69, 0x6D], [0x6709, 0x751F]),
       ([0x69, 0x6E, 0x61, 0x6E], [0x65E0, 0x751F]),
       ([0x41, 0x6E, 0x70, 0x68], [0x56DE, 0x6307, 0x4EE3, 0x8BCD]),
       ([0x44, 0x65, 0x6D, 0x6E], [0x6307, 0x793A, 0x4EE3, 0x8BCD]),
       ([0x51, 0x75, 0x65, 0x73], [0x7591, 0x95EE, 0x4EE3, 0x8BCD]),
       ([0x52, 0x65, 0x6C], [0x5173, 0x7CFB, 0x4EE3, 0x8BCD]),
       ([0x50, 0x6F, 0x73, 0x73], [0x7269, 0x4E3B, 0x4EE3, 0x8BCD]),
       ([0x50, 0x65, 0x72, 0x73], [0x4EBA, 0x79F0, 0x4EE3, 0x8BCD])
     ]"

section \<open>String operations\<close>

text \<open>\<open>sep.join(parts)\<close>.\<close>

fun join :: "'a list \<Rightarrow> 'a list list \<Rightarrow> 'a list" where
  "join sep [] = []"
| "join sep [x] = x"
| "join sep (x # y # ys) = x @ sep @ join sep (y # ys)"

text \<open>\<open>g.split(' ')\<close>: the pieces between the separators, empty pieces included.\<close>

fun split_acc :: "'a \<Rightarrow> 'a list \<Rightarrow> 'a list \<Rightarrow> 'a list list" where
  "split_acc sep cur [] = [cur]"
| "split_acc sep cur (c # cs) =
     (if c = sep then cur # split_acc sep [] cs else split_acc sep (cur @ [c]) cs)"

definition split :: "'a \<Rightarrow> 'a list \<Rightarrow> 'a list list" where
  "split sep g = split_acc sep [] g"

text \<open>
  \<open>re.findall\<close> of a pattern \<open>[...]+\<close>: the maximal runs of characters of the class, from
  left to right.
\<close>

fun runs_acc :: "('a \<Rightarrow> bool) \<Rightarrow> 'a list \<Rightarrow> 'a list \<Rightarrow> 'a list list" where
  "runs_acc p cur [] = (if cur = [] then [] else [cur])"
| "runs_acc p cur (c # cs) =
     (if p c then runs_acc p (cur @ [c]) cs
      else (if cur = [] then [] else [cur]) @ runs_acc p [] cs)"

text \<open>The class of \<open>[U+0410-U+042F U+0430-U+044F U+0401 U+0451]\<close>, the Russian alphabet.\<close>

definition is_russian_letter :: "nat \<Rightarrow> bool" where
  "is_russian_letter c =
     ((0x410 \<le> c \<and> c \<le> 0x42F) \<or> (0x430 \<le> c \<and> c \<le> 0x44F) \<or> c = 0x401 \<or> c = 0x451)"

definition findall_russian_words :: "ustring \<Rightarrow> ustring list" where
  "findall_russian_words text = runs_acc is_russian_letter [] text"

section \<open>Signals, files and the state of the worker\<close>

datatype level = Info | Warning | Error | Success

datatype status = Monitoring | Stopped

text \<open>
  The notifications of the worker and of the window. Each constructor is one message
  template of the source with the values it interpolates; the rendered text (its emoji
  and wording) is not modelled.
\<close>

datatype log_msg =
    NormalizerLoaded
  | NormalizerMissing
  | NormalizerInitFailed py_exn
  | TranslatorLoaded
  | TranslatorMissing
  | TranslatorInitFailed py_exn
  | MorphLoaded
  | MorphInitFailed py_exn
  | MorphMissing
  | ParametersUpdated int real
  | StressFailed py_exn
  | TranslationFailed py_exn
  | MorphologyFailed ustring
  | WordTranslation ustring ustring ustring
  | WordTranslationFailed ustring py_exn
  | EnhanceFallback py_exn
  | SynthesisFailed py_exn
  | PlayStart int int real
  | PlayDone int real
  | PlayFailed ustring
  | PlayError py_exn
  | MonitorStarted
  | Detected ustring
  | PlaybackFailed "ustring option"
  | SynthesisSkipped
  | UnexpectedError py_exn
  | MonitorStopped
  | HistoryLoaded nat
  | HistoryFileMissing
  | HistoryLoadFailed py_exn
  | HistorySaved
  | HistorySaveFailed py_exn

datatype signal =
    log_signal log_msg level
  | status_signal status
  | processed_count_signal int
  | result_signal ustring ustring ustring ustring
  | word_analysis_signal "(ustring \<times> ustring) list"

text \<open>
  The two audio files of the worker, \<open>AUDIO_FILE_PATH\<close> and the \<open>temp_path\<close> derived from
  it, and what a file holds: the speech synthesised for a text, possibly with a gain
  applied and normalised.
\<close>

datatype path = AUDIO_FILE_PATH | TEMP_PATH

datatype audio = Speech ustring | Gained audio int | Normalized audio

text \<open>
  A parse of pymorphy3: its normal form and what \<open>tag.grammemes\<close> gives. The dictionary
  built for each word has the keys \<open>original\<close>, \<open>normal_form\<close> and \<open>tag_cn\<close>.
\<close>

type_synonym tag = "ustring list res"

record parse =
  parsed_normal_form :: ustring
  parsed_tag :: tag

record word_info =
  original :: ustring
  normal_form :: ustring
  tag_cn :: ustring

text \<open>
  The attributes of \<open>WorkerThread\<close>, followed by the part of the world the thread writes:
  the audio files and the signals emitted so far. The three tools are objects of
  libraries outside the program; each is modelled by what a call of it returns or raises.
\<close>

record worker =
  is_running :: bool
  is_processing :: bool
  play_times :: int
  play_interval :: real
  check_interval :: real
  process_cooldown :: real
  audio_gain_db :: int
  stress_mark_enabled :: bool
  translation_enabled :: bool
  morphology_enabled :: bool
  normalizer :: "(ustring \<Rightarrow> ustring res) option"
  translator :: "(ustring \<Rightarrow> ustring res) option"
  morph_analyzer :: "(ustring \<Rightarrow> parse list res) option"
  last_content :: ustring
  last_process_time :: real
  processed_count :: int
  word_analysis_results :: "word_info list"
  files :: "path \<Rightarrow> audio option"
  emitted :: "signal list"

text \<open>
  What the outside gives during one iteration of the monitoring loop: the clipboard, the
  clock, and for every call of the speech, audio and player libraries whether it raises
  (\<open>None\<close>: it does not). \<open>subprocess_run i\<close> is the outcome of the player process of
  repetition \<open>i\<close>, counted from 0: its return code and its standard error. Times and
  intervals are floats in the source and real numbers here.
\<close>

record env =
  classes :: char_classes
  clipboard :: "ustring res"
  now :: real
  gtts_error :: "ustring \<Rightarrow> path \<Rightarrow> py_exn option"
  from_file_error :: "path \<Rightarrow> py_exn option"
  gain_error :: "audio \<Rightarrow> int \<Rightarrow> py_exn option"
  normalize_error :: "audio \<Rightarrow> py_exn option"
  export_error :: "audio \<Rightarrow> path \<Rightarrow> py_exn option"
  remove_error :: "path \<Rightarrow> py_exn option"
  subprocess_run :: "nat \<Rightarrow> (int \<times> ustring) res"

section \<open>Statements that change the state and may raise\<close>

text \<open>
  A method takes the state of its object and gives what it returns or raises together
  with the state it leaves: what was assigned, written or emitted before an exception
  stays.
\<close>

type_synonym ('a, 's) stm = "'s \<Rightarrow> 'a res \<times> 's"

type_synonym 'a m = "('a, worker) stm"

definition return_m :: "'a \<Rightarrow> ('a, 's) stm" where
  "return_m x s = (Return x, s)"

definition lift :: "'a res \<Rightarrow> ('a, 's) stm" where
  "lift r s = (r, s)"

definition bind_m :: "('a, 's) stm \<Rightarrow> ('a \<Rightarrow> ('b, 's) stm) \<Rightarrow> ('b, 's) stm" where
  "bind_m f g s = (case f s of (Return x, s') \<Rightarrow> g x s' | (Raise e, s') \<Rightarrow> (Raise e, s'))"

text \<open>\<open>try: f except Exception as e: h e\<close>; what is not an \<open>Exception\<close> passes.\<close>

definition try_except_Exception ::
  "('a, 's) stm \<Rightarrow> (py_exn \<Rightarrow> ('a, 's) stm) \<Rightarrow> ('a, 's) stm" where
  "try_except_Exception f h s =
     (case f s of
        (Return x, s') \<Rightarrow> (Return x, s')
      | (Raise e, s') \<Rightarrow> (if is_Exception e then h e s' else (Raise e, s')))"

text \<open>\<open>try: f except: h\<close>; the bare clause catches everything.\<close>

definition try_except_all :: "('a, 's) stm \<Rightarrow> ('a, 's) stm \<Rightarrow> ('a, 's) stm" where
  "try_except_all f h s =
     (case f s of (Return x, s') \<Rightarrow> (Return x, s') | (Raise e, s') \<Rightarrow> h s')"

definition emit :: "signal \<Rightarrow> unit m" where
  "emit x s = (Return (), s\<lparr>emitted := emitted s @ [x]\<rparr>)"

section \<open>The enrichment stages\<close>

text \<open>\<open>add_stress_marks\<close>: the stress-marked text and whether stress was added.\<close>

definition add_stress_marks :: "ustring \<Rightarrow> (ustring \<times> bool) m" where
  "add_stress_marks text s =
     (if \<not> stress_mark_enabled s \<or> normalizer s = None then return_m (text, False) s
      else
        try_except_Exception
          (bind_m (lift (the (normalizer s) text)) (\<lambda>normalized_text.
           return_m (normalized_text, True)))
          (\<lambda>e. bind_m (emit (log_signal (StressFailed e) Warning)) (\<lambda>_.
           return_m (text, False)))
          s)"

text \<open>
  \<open>translate_russian\<close>: the translation and whether it succeeded. A text of more than
  5000 characters is cut to its first 5000, followed by \<open>"..."\<close>.
\<close>

definition translate_russian :: "ustring \<Rightarrow> (ustring \<times> bool) m" where
  "translate_russian text s =
     (if \<not> translation_enabled s \<or> translator s = None then return_m ([], False) s
      else
        try_except_Exception
          (let text_to_translate =
                 (if length text > 5000 then take 5000 text @ ELLIPSIS else text)
           in bind_m (lift (the (translator s) text_to_translate)) (\<lambda>translated_text.
              return_m (translated_text, True)))
          (\<lambda>e. bind_m (emit (log_signal (TranslationFailed e) Warning)) (\<lambda>_.
           return_m ([], False)))
          s)"

text \<open>\<open>GRAM_MAP.get(g, g)\<close>: the label of a code, or the code itself when it has none.\<close>

definition gram_get :: "ustring \<Rightarrow> ustring" where
  "gram_get g = (case map_of GRAM_MAP g of Some cn \<Rightarrow> cn | None \<Rightarrow> g)"

text \<open>
  \<open>tag_to_cn\<close>: the labels of the grammemes of a tag, joined by full-width commas. A
  grammeme with a space in it is split and each piece looked up.
\<close>

definition tag_to_cn :: "tag \<Rightarrow> ustring res" where
  "tag_to_cn tag =
     (case tag of
        Return grammemes \<Rightarrow>
          Return (join WIDE_COMMA
            (concat (map (\<lambda>g. if 0x20 \<in> set g then map gram_get (split 0x20 g)
                               else [gram_get g]) grammemes)))
      | Raise e \<Rightarrow>
          (if is_Exception e then Return (PARSE_ERROR_PREFIX @ msg e) else Raise e))"

text \<open>
  The body of the loop over the words: \<open>parse(word)[0]\<close> raises \<open>IndexError\<close> on an empty
  list of parses.
\<close>

definition analyse_word ::
  "(ustring \<Rightarrow> parse list res) \<Rightarrow> ustring \<Rightarrow> (ustring \<times> word_info) res" where
  "analyse_word analyzer word =
     (case analyzer word of
        Raise e \<Rightarrow> Raise e
      | Return [] \<Rightarrow> Raise (PyExn IndexError LIST_INDEX_OUT_OF_RANGE)
      | Return (parsed # _) \<Rightarrow>
          (case tag_to_cn (parsed_tag parsed) of
             Raise e \<Rightarrow> Raise e
           | Return cn \<Rightarrow>
               Return (word @ OPEN_PAREN @ cn @ ARROW_NORMAL_FORM @ parsed_normal_form parsed,
                       \<lparr> original = word, normal_form = parsed_normal_form parsed,
                         tag_cn = cn \<rparr>)))"

fun analyse_words ::
  "(ustring \<Rightarrow> parse list res) \<Rightarrow> ustring list \<Rightarrow> ustring list \<Rightarrow> word_info list
     \<Rightarrow> (ustring list \<times> word_info list) res" where
  "analyse_words analyzer [] result_lines word_analysis = Return (result_lines, word_analysis)"
| "analyse_words analyzer (word # words) result_lines word_analysis =
     (case analyse_word analyzer word of
        Raise e \<Rightarrow> Raise e
      | Return (line, info) \<Rightarrow>
          analyse_words analyzer words (result_lines @ [line]) (word_analysis @ [info]))"

text \<open>
  \<open>morphological_analysis\<close>: the report, whether the analysis succeeded, and the list
  of analysed words.
\<close>

definition morphological_analysis :: "ustring \<Rightarrow> (ustring \<times> bool \<times> word_info list) m" where
  "morphological_analysis text s =
     (if \<not> morphology_enabled s \<or> morph_analyzer s = None then return_m ([], False, []) s
      else
        try_except_Exception
          (let words = findall_russian_words text
           in if words = [] then return_m (NO_RUSSIAN_WORDS, False, [])
              else bind_m (lift (analyse_words (the (morph_analyzer s)) words [] []))
                     (\<lambda>(result_lines, word_analysis).
                        return_m (join NEWLINE result_lines, True, word_analysis)))
          (\<lambda>e. let error_msg = MORPH_FAILED_PREFIX @ msg e
                in bind_m (emit (log_signal (MorphologyFailed error_msg) Warning)) (\<lambda>_.
                   return_m (error_msg, False, [])))
          s)"

text \<open>
  The loop that translates the normal form of each analysed word: a word whose
  translation raises is paired with the failure sentinel.
\<close>

definition translate_word ::
  "(ustring \<Rightarrow> ustring res) \<Rightarrow> word_info \<Rightarrow> (ustring \<times> ustring) list
     \<Rightarrow> (ustring \<times> ustring) list m" where
  "translate_word tr w translated_words =
     try_except_Exception
       (bind_m (lift (tr (normal_form w))) (\<lambda>word_translation.
        bind_m (emit (log_signal (WordTranslation (original w) (normal_form w) word_translation)
                        Info)) (\<lambda>_.
        return_m (translated_words @ [(normal_form w, word_translation)]))))
       (\<lambda>e. bind_m (emit (log_signal (WordTranslationFailed (normal_form w) e) Warning)) (\<lambda>_.
        return_m (translated_words @ [(normal_form w, TRANSLATION_FAILED)])))"

fun translate_words ::
  "(ustring \<Rightarrow> ustring res) \<Rightarrow> word_info list \<Rightarrow> (ustring \<times> ustring) list
     \<Rightarrow> (ustring \<times> ustring) list m" where
  "translate_words tr [] translated_words s = (Return translated_words, s)"
| "translate_words tr (w # ws) translated_words s =
     (case translate_word tr w translated_words s of
        (Raise e, s') \<Rightarrow> (Raise e, s')
      | (Return translated_words', s') \<Rightarrow> translate_words tr ws translated_words' s')"

text \<open>
  The block of \<open>text_to_speech_russian\<close> that builds \<open>translated_words\<close>: the loop runs
  when the list of analysed words is not empty and a translator object exists.
\<close>

definition translate_analysed_words :: "word_info list \<Rightarrow> (ustring \<times> ustring) list m" where
  "translate_analysed_words word_analysis s =
     (if word_analysis \<noteq> [] \<and> translator s \<noteq> None
      then translate_words (the (translator s)) word_analysis [] s
      else return_m [] s)"

section \<open>Speech synthesis and audio enhancement\<close>

text \<open>\<open>gTTS(text=text, lang='ru', slow=False).save(p)\<close>.\<close>

definition gtts_save :: "env \<Rightarrow> ustring \<Rightarrow> path \<Rightarrow> unit m" where
  "gtts_save env text p s =
     (case gtts_error env text p of
        Some e \<Rightarrow> (Raise e, s)
      | None \<Rightarrow> (Return (), s\<lparr>files := (files s)(p \<mapsto> Speech text)\<rparr>))"

text \<open>\<open>AudioSegment.from_file(p, format="mp3")\<close>; a missing file is an error too.\<close>

definition from_file :: "env \<Rightarrow> path \<Rightarrow> audio m" where
  "from_file env p s =
     (case from_file_error env p of
        Some e \<Rightarrow> (Raise e, s)
      | None \<Rightarrow>
          (case files s p of
             None \<Rightarrow> (Raise (PyExn OtherException []), s)
           | Some a \<Rightarrow> (Return a, s)))"

text \<open>\<open>audio + gain\<close>, \<open>audio.normalize()\<close> and \<open>audio.export(p, format="mp3")\<close>.\<close>

definition apply_gain :: "env \<Rightarrow> audio \<Rightarrow> int \<Rightarrow> audio m" where
  "apply_gain env a g s =
     (case gain_error env a g of Some e \<Rightarrow> (Raise e, s) | None \<Rightarrow> (Return (Gained a g), s))"

definition normalize_audio :: "env \<Rightarrow> audio \<Rightarrow> audio m" where
  "normalize_audio env a s =
     (case normalize_error env a of Some e \<Rightarrow> (Raise e, s) | None \<Rightarrow> (Return (Normalized a), s))"

definition export_audio :: "env \<Rightarrow> audio \<Rightarrow> path \<Rightarrow> unit m" where
  "export_audio env a p s =
     (case export_error env a p of
        Some e \<Rightarrow> (Raise e, s)
      | None \<Rightarrow> (Return (), s\<lparr>files := (files s)(p \<mapsto> a)\<rparr>))"

text \<open>\<open>if os.path.exists(p): os.remove(p)\<close>.\<close>

definition remove_if_exists :: "env \<Rightarrow> path \<Rightarrow> unit m" where
  "remove_if_exists env p s =
     (if files s p \<noteq> None
      then (case remove_error env p of
              Some e \<Rightarrow> (Raise e, s)
            | None \<Rightarrow> (Return (), s\<lparr>files := (files s)(p := None)\<rparr>))
      else (Return (), s))"

text \<open>Steps 4 to 6 of \<open>text_to_speech_russian\<close>: synthesis to the temporary file,
  loading, gain, normalisation, export to the final path, removal of the temporary file.\<close>

definition synthesize_enhanced :: "env \<Rightarrow> ustring \<Rightarrow> unit m" where
  "synthesize_enhanced env text_with_stress =
     bind_m (gtts_save env text_with_stress TEMP_PATH) (\<lambda>_.
     bind_m (from_file env TEMP_PATH) (\<lambda>audio.
     bind_m (\<lambda>s. apply_gain env audio (audio_gain_db s) s) (\<lambda>louder_audio.
     bind_m (normalize_audio env louder_audio) (\<lambda>normalized_audio.
     bind_m (export_audio env normalized_audio AUDIO_FILE_PATH) (\<lambda>_.
     remove_if_exists env TEMP_PATH)))))"

text \<open>
  The body of the outer \<open>try\<close> of \<open>text_to_speech_russian\<close>, in two parts. The first is
  the enrichment: steps 1 to 3, the result signal, the per-word translation and its
  signal; it hands on the text to speak and whether stress was added.
\<close>

definition enrich :: "ustring \<Rightarrow> (ustring \<times> bool) m" where
  "enrich text =
     bind_m (add_stress_marks text) (\<lambda>(text_with_stress, stress_added).
     bind_m (translate_russian text) (\<lambda>(translated_text, translation_success).
     bind_m (morphological_analysis text) (\<lambda>(morphological_result, morph_success, word_analysis).
     bind_m (emit (result_signal text
                     (if stress_added then text_with_stress else [])
                     (if translation_success then translated_text else [])
                     (if morph_success then morphological_result else []))) (\<lambda>_.
     bind_m (\<lambda>s. (Return (), s\<lparr>word_analysis_results := word_analysis\<rparr>)) (\<lambda>_.
     bind_m (translate_analysed_words word_analysis) (\<lambda>translated_words.
     bind_m (emit (word_analysis_signal translated_words)) (\<lambda>_.
     return_m (text_with_stress, stress_added))))))))"

text \<open>The second part is the enhanced synthesis, steps 4 to 6, and the \<open>return\<close>.\<close>

definition enrich_and_synthesize :: "env \<Rightarrow> ustring \<Rightarrow> (bool \<times> bool) m" where
  "enrich_and_synthesize env text =
     bind_m (enrich text) (\<lambda>(text_with_stress, stress_added).
     bind_m (synthesize_enhanced env text_with_stress) (\<lambda>_.
     return_m (True, stress_added)))"

text \<open>
  \<open>text_to_speech_russian\<close>: whether an audio file was produced, and whether it speaks
  the stress-marked text. The error named in the last notification is the one that ended
  the enhanced attempt.
\<close>

definition text_to_speech_russian :: "env \<Rightarrow> ustring \<Rightarrow> (bool \<times> bool) m" where
  "text_to_speech_russian env text =
     try_except_Exception (enrich_and_synthesize env text)
       (\<lambda>e. try_except_all
               (bind_m (emit (log_signal (EnhanceFallback e) Warning)) (\<lambda>_.
                bind_m (gtts_save env text AUDIO_FILE_PATH) (\<lambda>_.
                return_m (True, False))))
               (bind_m (emit (log_signal (SynthesisFailed e) Error)) (\<lambda>_.
                return_m (False, False))))"

section \<open>Playback\<close>

text \<open>
  The loop of \<open>play_audio\<close>: \<open>n\<close> repetitions are left, \<open>i\<close> is the index of the next one
  and \<open>result\<close> the outcome of the last player process, if any has run. The pause between
  two repetitions changes nothing in the state.
\<close>

fun play_loop :: "env \<Rightarrow> nat \<Rightarrow> nat \<Rightarrow> (int \<times> ustring) option \<Rightarrow> (int \<times> ustring) option m" where
  "play_loop env 0 i result s = (Return result, s)"
| "play_loop env (Suc n) i result s =
     (case emit (log_signal (PlayStart (int i + 1) (play_times s) (play_interval s)) Info) s of
        (Raise e, s') \<Rightarrow> (Raise e, s')
      | (Return _, s') \<Rightarrow>
          (case subprocess_run env i of
             Raise e \<Rightarrow> (Raise e, s')
           | Return r \<Rightarrow> play_loop env n (Suc i) (Some r) s'))"

text \<open>
  \<open>play_audio\<close>: whether playback succeeded, and the error text if not. After the loop
  only the outcome of the last process is looked at; with no repetition at all the
  variable \<open>result\<close> is unbound, an \<open>UnboundLocalError\<close> that the handler catches.
\<close>

definition play_audio :: "env \<Rightarrow> (bool \<times> ustring option) m" where
  "play_audio env =
     try_except_Exception
       (bind_m (\<lambda>s. play_loop env (nat (play_times s)) 0 None s) (\<lambda>result.
        case result of
          None \<Rightarrow> lift (Raise (PyExn UnboundLocalError RESULT_UNBOUND))
        | Some (returncode, stderr) \<Rightarrow>
            (if returncode = 0
             then bind_m (\<lambda>s. emit (log_signal (PlayDone (play_times s) (play_interval s)) Info) s)
                    (\<lambda>_. return_m (True, None))
             else bind_m (emit (log_signal (PlayFailed stderr) Error))
                    (\<lambda>_. return_m (False, Some stderr)))))
       (\<lambda>e. bind_m (emit (log_signal (PlayError e) Error)) (\<lambda>_.
        return_m (False, Some (msg e))))"

section \<open>The monitoring loop\<close>

text \<open>The condition of the \<open>if\<close> in the loop of \<open>run\<close>, conjunct by conjunct.\<close>

definition should_process :: "env \<Rightarrow> ustring \<Rightarrow> real \<Rightarrow> worker \<Rightarrow> bool" where
  "should_process env current_content current_time s =
     (current_content \<noteq> []
      \<and> current_content \<noteq> last_content s
      \<and> strip (classes env) current_content \<noteq> []
      \<and> current_time - last_process_time s \<ge> process_cooldown s)"

text \<open>What is done with a Russian text: count it, announce it, synthesise, play.\<close>

definition process_russian :: "env \<Rightarrow> ustring \<Rightarrow> unit m" where
  "process_russian env current_content =
     bind_m (\<lambda>s. (Return (), s\<lparr>processed_count := processed_count s + 1\<rparr>)) (\<lambda>_.
     bind_m (\<lambda>s. emit (processed_count_signal (processed_count s)) s) (\<lambda>_.
     bind_m (emit (log_signal
                (Detected (take 100 current_content
                           @ (if length current_content > 100 then ELLIPSIS else []))) Info)) (\<lambda>_.
     bind_m (text_to_speech_russian env current_content) (\<lambda>(success, _).
     if success
     then bind_m (play_audio env) (\<lambda>(play_success, error_message).
            if \<not> play_success
            then emit (log_signal (PlaybackFailed error_message) Error)
            else return_m ())
     else emit (log_signal SynthesisSkipped Error)))))"

text \<open>
  The inner \<open>if\<close>: a Russian text is processed; any other text costs a pause of 0.2
  seconds and nothing else.
\<close>

definition handle_content :: "env \<Rightarrow> ustring \<Rightarrow> unit m" where
  "handle_content env current_content =
     bind_m (lift (is_russian_text (classes env) current_content)) (\<lambda>russian.
       if russian then process_russian env current_content else return_m ())"

text \<open>
  The body of the outer \<open>if\<close>: the flag and the two memories are set first; the flag is
  cleared by the last statement of the body.
\<close>

definition process_content :: "env \<Rightarrow> ustring \<Rightarrow> real \<Rightarrow> unit m" where
  "process_content env current_content current_time =
     bind_m (\<lambda>s. (Return (), s\<lparr>is_processing := True,
                               last_content := current_content,
                               last_process_time := current_time\<rparr>)) (\<lambda>_.
     bind_m (handle_content env current_content) (\<lambda>_.
     (\<lambda>s. (Return (), s\<lparr>is_processing := False\<rparr>))))"

text \<open>
  One iteration of the loop. While the flag is set the iteration only sleeps. The sleeps
  change nothing in the state: the clock is read from the outside at each iteration.
\<close>

definition run_tick :: "env \<Rightarrow> unit m" where
  "run_tick env s =
     (if is_processing s then (Return (), s)
      else
        (case clipboard env of
           Raise e \<Rightarrow> (Raise e, s)
         | Return current_content \<Rightarrow>
             (let current_time = now env
              in if should_process env current_content current_time s
                 then process_content env current_content current_time s
                 else (Return (), s))))"

text \<open>
  The iteration enters the body of the \<open>if\<close>: the flag is clear, the clipboard is read
  and the condition holds.
\<close>

definition tick_triggers :: "env \<Rightarrow> worker \<Rightarrow> bool" where
  "tick_triggers env s =
     (\<not> is_processing s
      \<and> (case clipboard env of
            Raise e \<Rightarrow> False
          | Return current_content \<Rightarrow> should_process env current_content (now env) s))"

text \<open>
  The loop \<open>while self.is_running\<close> over the iterations it performs: the list gives the
  outside of each iteration, and \<open>stop\<close> is called by the window during the last one, so
  the loop ends when the list does. An exception ends the loop at once.
\<close>

fun run_loop :: "env list \<Rightarrow> unit m" where
  "run_loop [] s = (Return (), s\<lparr>is_running := False\<rparr>)"
| "run_loop (env # envs) s =
     (if \<not> is_running s then (Return (), s)
      else (case run_tick env s of
              (Raise e, s') \<Rightarrow> (Raise e, s')
            | (Return _, s') \<Rightarrow> run_loop envs s'))"

text \<open>
  The states in which the loop starts its iterations, each with the outside of that
  iteration; iterations after an exception are not reached.
\<close>

fun run_history :: "env list \<Rightarrow> worker \<Rightarrow> (env \<times> worker) list" where
  "run_history [] s = []"
| "run_history (env # envs) s =
     (if \<not> is_running s then []
      else (env, s) # (case run_tick env s of
                         (Raise e, s') \<Rightarrow> []
                       | (Return _, s') \<Rightarrow> run_history envs s'))"

text \<open>
  \<open>run\<close>: the loop inside \<open>try\<close>, with the handler for an \<open>Exception\<close> and the \<open>finally\<close>
  block, which emits the status and a notification and assigns nothing.
\<close>

definition run_finally :: "unit m" where
  "run_finally =
     bind_m (emit (status_signal Stopped)) (\<lambda>_. emit (log_signal MonitorStopped Info))"

definition run :: "env list \<Rightarrow> unit m" where
  "run envs =
     bind_m (\<lambda>s. (Return (), s\<lparr>is_running := True\<rparr>)) (\<lambda>_.
     bind_m (emit (log_signal MonitorStarted Success)) (\<lambda>_.
     bind_m (emit (status_signal Monitoring)) (\<lambda>_.
     (\<lambda>s. case try_except_Exception (run_loop envs)
                  (\<lambda>e. emit (log_signal (UnexpectedError e) Error)) s of
             (Return x, s') \<Rightarrow> run_finally s'
           | (Raise e, s') \<Rightarrow> (case run_finally s' of
                                 (Return _, s'') \<Rightarrow> (Raise e, s'')
                               | (Raise e', s'') \<Rightarrow> (Raise e', s''))))))"

section \<open>Construction and configuration of the worker\<close>

text \<open>
  What loading each library gives: the tool, or the exception of the import or of the
  constructor. \<open>MORPH_AVAILABLE\<close> is the module-level flag set when pymorphy3 imports.
\<close>

record libs =
  load_normalizer :: "(ustring \<Rightarrow> ustring res) res"
  load_translator :: "(ustring \<Rightarrow> ustring res) res"
  MORPH_AVAILABLE :: bool
  load_morph_analyzer :: "(ustring \<Rightarrow> parse list res) res"

definition init_tools :: "libs \<Rightarrow> unit m" where
  "init_tools libs =
     bind_m (\<lambda>s. if stress_mark_enabled s
                  then try_except_Exception
                         (bind_m (lift (load_normalizer libs)) (\<lambda>n.
                          bind_m (\<lambda>s. (Return (), s\<lparr>normalizer := Some n\<rparr>)) (\<lambda>_.
                          emit (log_signal NormalizerLoaded Success))))
                         (\<lambda>e. if cls e = ImportError
                               then emit (log_signal NormalizerMissing Warning)
                               else emit (log_signal (NormalizerInitFailed e) Warning)) s
                  else return_m () s) (\<lambda>_.
     bind_m (\<lambda>s. if translation_enabled s
                  then try_except_Exception
                         (bind_m (lift (load_translator libs)) (\<lambda>t.
                          bind_m (\<lambda>s. (Return (), s\<lparr>translator := Some t\<rparr>)) (\<lambda>_.
                          emit (log_signal TranslatorLoaded Success))))
                         (\<lambda>e. if cls e = ImportError
                               then emit (log_signal TranslatorMissing Warning)
                               else emit (log_signal (TranslatorInitFailed e) Warning)) s
                  else return_m () s) (\<lambda>_.
     (\<lambda>s. if morphology_enabled s \<and> MORPH_AVAILABLE libs
           then try_except_Exception
                  (bind_m (lift (load_morph_analyzer libs)) (\<lambda>a.
                   bind_m (\<lambda>s. (Return (), s\<lparr>morph_analyzer := Some a\<rparr>)) (\<lambda>_.
                   emit (log_signal MorphLoaded Success))))
                  (\<lambda>e. emit (log_signal (MorphInitFailed e) Warning)) s
           else if morphology_enabled s \<and> \<not> MORPH_AVAILABLE libs
           then emit (log_signal MorphMissing Warning) s
           else return_m () s)))"

text \<open>\<open>WorkerThread.__init__\<close>, given the files present when the worker is created.\<close>

definition new_worker :: "(path \<Rightarrow> audio option) \<Rightarrow> worker" where
  "new_worker fs =
     \<lparr> is_running = False, is_processing = False,
       play_times = 3, play_interval = 0.3, check_interval = 0.5, process_cooldown = 1.0,
       audio_gain_db = 0,
       stress_mark_enabled = True, translation_enabled = True, morphology_enabled = True,
       normalizer = None, translator = None, morph_analyzer = None,
       last_content = [], last_process_time = 0, processed_count = 0,
       word_analysis_results = [],
       files = fs, emitted = [] \<rparr>"

definition init_worker :: "libs \<Rightarrow> (path \<Rightarrow> audio option) \<Rightarrow> unit res \<times> worker" where
  "init_worker libs fs = init_tools libs (new_worker fs)"

definition set_parameters ::
  "libs \<Rightarrow> int \<Rightarrow> real \<Rightarrow> real \<Rightarrow> real \<Rightarrow> int \<Rightarrow> bool \<Rightarrow> bool \<Rightarrow> bool \<Rightarrow> unit m" where
  "set_parameters libs play_times' play_interval' check_interval' process_cooldown'
       audio_gain_db' stress_enabled translation_enabled' morphology_enabled' =
     bind_m (\<lambda>s. (Return (), s\<lparr>play_times := play_times',
                               play_interval := play_interval',
                               check_interval := check_interval',
                               process_cooldown := process_cooldown',
                               audio_gain_db := audio_gain_db',
                               stress_mark_enabled := stress_enabled,
                               translation_enabled := translation_enabled',
                               morphology_enabled := morphology_enabled'\<rparr>)) (\<lambda>_.
     bind_m (init_tools libs) (\<lambda>_.
     emit (log_signal (ParametersUpdated play_times' play_interval') Info)))"

section \<open>The word history of the main window\<close>

text \<open>
  \<open>d[k] = v\<close> on an \<open>OrderedDict\<close>, kept as the list of its items in insertion order: the
  value of an existing key is replaced in place, a new key is appended.
\<close>

fun setitem :: "'k \<Rightarrow> 'v \<Rightarrow> ('k \<times> 'v) list \<Rightarrow> ('k \<times> 'v) list" where
  "setitem k v [] = [(k, v)]"
| "setitem k v ((k', v') # d) = (if k' = k then (k, v) # d else (k', v') # setitem k v d)"

text \<open>
  The attributes of \<open>MainWindow\<close> that the history uses, followed by the contents of the
  file at \<open>WORD_HISTORY_PATH\<close> (\<open>None\<close>: no such file). \<open>has_log_text\<close> says that \<open>init_ui\<close>
  has created the widgets (\<open>hasattr(self, 'log_text')\<close>).
\<close>

record 'b main_window =
  word_translations :: "(ustring \<times> ustring) list"
  word_history :: "(ustring \<times> ustring) list"
  log_messages :: "(log_msg \<times> level) list"
  has_log_text :: bool
  history_file :: "'b option"

text \<open>
  The outside of the history: \<open>pickle\<close> as a pair of functions on the bytes \<open>'b\<close> of a
  file, and whether opening or writing the file raises. A failed \<open>dump\<close> leaves in the
  file what had been written so far.
\<close>

record 'b io =
  pickle_dumps :: "(ustring \<times> ustring) list \<Rightarrow> 'b"
  pickle_loads :: "'b \<Rightarrow> (ustring \<times> ustring) list res"
  open_write_error :: "py_exn option"
  dump_error :: "(py_exn \<times> 'b) option"
  open_read_error :: "py_exn option"

text \<open>\<open>log_message\<close> appends to the widget \<open>log_text\<close>, which must exist.\<close>

definition log_message :: "log_msg \<Rightarrow> level \<Rightarrow> (unit, 'b main_window) stm" where
  "log_message m l w =
     (if has_log_text w then (Return (), w\<lparr>log_messages := log_messages w @ [(m, l)]\<rparr>)
      else (Raise (PyExn OtherException []), w))"

text \<open>\<open>with open(WORD_HISTORY_PATH, 'wb') as f: pickle.dump(self.word_history, f)\<close>.\<close>

definition write_history :: "'b io \<Rightarrow> (unit, 'b main_window) stm" where
  "write_history io w =
     (case open_write_error io of
        Some e \<Rightarrow> (Raise e, w)
      | None \<Rightarrow>
          (case dump_error io of
             Some (e, partial) \<Rightarrow> (Raise e, w\<lparr>history_file := Some partial\<rparr>)
           | None \<Rightarrow> (Return (), w\<lparr>history_file := Some (pickle_dumps io (word_history w))\<rparr>)))"

definition save_word_history :: "'b io \<Rightarrow> (unit, 'b main_window) stm" where
  "save_word_history io =
     try_except_Exception
       (bind_m (write_history io) (\<lambda>_ w.
          if has_log_text w then log_message HistorySaved Info w else return_m () w))
       (\<lambda>e w. if has_log_text w then log_message (HistorySaveFailed e) Warning w
               else return_m () w)"

text \<open>\<open>with open(WORD_HISTORY_PATH, 'rb') as f: self.word_history = pickle.load(f)\<close>.\<close>

definition read_history :: "'b io \<Rightarrow> 'b \<Rightarrow> (unit, 'b main_window) stm" where
  "read_history io bytes w =
     (case open_read_error io of
        Some e \<Rightarrow> (Raise e, w)
      | None \<Rightarrow>
          (case pickle_loads io bytes of
             Raise e \<Rightarrow> (Raise e, w)
           | Return d \<Rightarrow> (Return (), w\<lparr>word_history := d\<rparr>)))"

text \<open>\<open>self.word_count_label.setText(...)\<close>: the label must exist.\<close>

definition set_word_count_label :: "(unit, 'b main_window) stm" where
  "set_word_count_label w =
     (if has_log_text w then (Return (), w) else (Raise (PyExn OtherException []), w))"

definition load_word_history :: "'b io \<Rightarrow> (unit, 'b main_window) stm" where
  "load_word_history io =
     try_except_Exception
       (\<lambda>w. case history_file w of
               Some bytes \<Rightarrow>
                 bind_m (read_history io bytes) (\<lambda>_.
                 bind_m set_word_count_label (\<lambda>_ w.
                 log_message (HistoryLoaded (length (word_history w))) Success w)) w
             | None \<Rightarrow> log_message HistoryFileMissing Info w)
       (\<lambda>e. bind_m (log_message (HistoryLoadFailed e) Warning) (\<lambda>_ w.
             (Return (), w\<lparr>word_history := []\<rparr>)))"

definition add_word_to_history ::
  "'b io \<Rightarrow> ustring \<Rightarrow> ustring \<Rightarrow> (unit, 'b main_window) stm" where
  "add_word_to_history io word translation w =
     (if word \<noteq> [] \<and> translation \<noteq> [] \<and> translation \<noteq> TRANSLATION_FAILED
      then save_word_history io (w\<lparr>word_history := setitem word translation (word_history w)\<rparr>)
      else (Return (), w))"

section \<open>Notions used in the proofs\<close>

text \<open>
  The attributes that only \<open>run\<close>, \<open>set_parameters\<close> and \<open>init_tools\<close> assign: all but the
  processed count, the list of analysed words, the files and the signals.
\<close>

definition core ::
  "worker \<Rightarrow> (bool \<times> bool \<times> int \<times> real \<times> real \<times> real \<times> int) \<times> (bool \<times> bool \<times> bool)
     \<times> ((ustring \<Rightarrow> ustring res) option \<times> (ustring \<Rightarrow> ustring res) option
        \<times> (ustring \<Rightarrow> parse list res) option) \<times> ustring \<times> real" where
  "core s =
     ((is_running s, is_processing s, play_times s, play_interval s, check_interval s,
       process_cooldown s, audio_gain_db s),
      (stress_mark_enabled s, translation_enabled s, morphology_enabled s),
      (normalizer s, translator s, morph_analyzer s),
      last_content s, last_process_time s)"

text \<open>
  \<open>emits P f\<close>: \<open>f\<close> assigns none of these attributes, and the signals it emits all
  satisfy \<open>P\<close>. \<open>no_Exception f\<close>: whatever \<open>f\<close> raises is not an \<open>Exception\<close>.
\<close>

definition emits :: "(signal \<Rightarrow> bool) \<Rightarrow> 'a m \<Rightarrow> bool" where
  "emits P f =
     (\<forall>s r s'. f s = (r, s') \<longrightarrow>
        core s' = core s \<and> (\<exists>new. emitted s' = emitted s @ new \<and> list_all P new))"

definition no_Exception :: "('a, 's) stm \<Rightarrow> bool" where
  "no_Exception f = (\<forall>s e s'. f s = (Raise e, s') \<longrightarrow> \<not> is_Exception e)"

text \<open>A signal that is not an error-level notification.\<close>

definition not_error :: "signal \<Rightarrow> bool" where
  "not_error x = (case x of log_signal m l \<Rightarrow> l \<noteq> Error | _ \<Rightarrow> True)"

text \<open>The notice emitted before repetition \<open>i\<close> (counted from 0) of the playback.\<close>

definition play_start :: "worker \<Rightarrow> nat \<Rightarrow> signal" where
  "play_start s i = log_signal (PlayStart (int i + 1) (play_times s) (play_interval s)) Info"

text \<open>
  What the per-word loop records for a word: the pair of its normal form and the
  translation or the failure sentinel, and the notification.
\<close>

definition word_pair :: "(ustring \<Rightarrow> ustring res) \<Rightarrow> word_info \<Rightarrow> ustring \<times> ustring" where
  "word_pair tr w =
     (normal_form w, case tr (normal_form w) of Return t \<Rightarrow> t | Raise e \<Rightarrow> TRANSLATION_FAILED)"

definition word_log :: "(ustring \<Rightarrow> ustring res) \<Rightarrow> word_info \<Rightarrow> signal" where
  "word_log tr w =
     (case tr (normal_form w) of
        Return t \<Rightarrow> log_signal (WordTranslation (original w) (normal_form w) t) Info
      | Raise e \<Rightarrow> log_signal (WordTranslationFailed (normal_form w) e) Warning)"

section \<open>Concrete inputs\<close>

text \<open>
  An outside in which every library call succeeds and the player exits with status 0;
  the clipboard and the clock are set per iteration.
\<close>

definition quiet_env :: env where
  "quiet_env =
     \<lparr> classes = ascii_classes, clipboard = Return [], now = 0,
       gtts_error = (\<lambda>_ _. None), from_file_error = (\<lambda>_. None),
       gain_error = (\<lambda>_ _. None), normalize_error = (\<lambda>_. None),
       export_error = (\<lambda>_ _. None), remove_error = (\<lambda>_. None),
       subprocess_run = (\<lambda>_. Return (0, [])) \<rparr>"

definition tick :: "ustring \<Rightarrow> real \<Rightarrow> env" where
  "tick content t = quiet_env\<lparr>clipboard := Return content, now := t\<rparr>"

text \<open>
  A worker without tools (none of the three libraries is installed), set to no cooldown
  and one repetition, at the moment \<open>run\<close> enters its loop.
\<close>

definition plain_worker :: worker where
  "plain_worker =
     (new_worker Map.empty)\<lparr>is_running := True, process_cooldown := 0, play_times := 1\<rparr>"

text \<open>
  The same worker with a translator whose every call is ended by something that is not
  an \<open>Exception\<close>, as an exit of the interpreter is.
\<close>

definition exiting_translator :: "ustring \<Rightarrow> ustring res" where
  "exiting_translator text = Raise (PyExn BaseExceptionOnly [])"

definition doomed_worker :: worker where
  "doomed_worker = plain_worker\<lparr>translator := Some exiting_translator\<rparr>"

text \<open>
  A player whose first process exits with status 1 and the error text \<open>err\<close>, and whose
  later processes exit with status 0; the same outcomes as plain values.
\<close>

definition failing_then_playing :: "nat \<Rightarrow> (int \<times> ustring) res" where
  "failing_then_playing i = (if i = 0 then Return (1, [0x65, 0x72, 0x72]) else Return (0, []))"

definition failing_then_playing_out :: "nat \<Rightarrow> int \<times> ustring" where
  "failing_then_playing_out i = (if i = 0 then (1, [0x65, 0x72, 0x72]) else (0, []))"

text \<open>
  Tools for concrete runs: a stress annotator that appends a combining acute accent, a
  translator whose every call raises an \<open>Exception\<close> carrying its argument, and an analyser
  that parses every word as a noun whose normal form is the word itself.
\<close>

definition demo_normalizer :: "ustring \<Rightarrow> ustring res" where
  "demo_normalizer text = Return (text @ [0x301])"

definition translator_failure :: "ustring \<Rightarrow> py_exn" where
  "translator_failure text = PyExn OtherException text"

definition failing_translator :: "ustring \<Rightarrow> ustring res" where
  "failing_translator text = Raise (translator_failure text)"

definition demo_analyzer :: "ustring \<Rightarrow> parse list res" where
  "demo_analyzer word =
     Return [\<lparr> parsed_normal_form = word, parsed_tag = Return [[0x4E, 0x4F, 0x55, 0x4E]] \<rparr>]"

definition tooled_worker :: worker where
  "tooled_worker =
     plain_worker\<lparr>normalizer := Some demo_normalizer, translator := Some failing_translator,
                  morph_analyzer := Some demo_analyzer\<rparr>"

text \<open>
  Two outsides with a failing library call: in the first every loading of an audio file
  raises, in the second every synthesis does.
\<close>

definition load_failure :: py_exn where
  "load_failure = PyExn OtherException [0x62, 0x61, 0x64]"

definition unreadable_env :: env where
  "unreadable_env = quiet_env\<lparr>from_file_error := (\<lambda>_. Some load_failure)\<rparr>"

definition offline_env :: env where
  "offline_env = quiet_env\<lparr>gtts_error := (\<lambda>_ _. Some load_failure)\<rparr>"

text \<open>
  A translator that knows one word (U+0434 U+0430, translated as U+662F) and raises an
  \<open>Exception\<close> for any other; libraries that all load; and the worker as the window
  configures it with translation switched off.
\<close>

definition picky_translator :: "ustring \<Rightarrow> ustring res" where
  "picky_translator word =
     (if word = [0x434, 0x430] then Return [0x662F] else Raise (PyExn OtherException word))"

definition demo_libs :: libs where
  "demo_libs =
     \<lparr> load_normalizer = Return demo_normalizer, load_translator = Return picky_translator,
       MORPH_AVAILABLE = True, load_morph_analyzer = Return demo_analyzer \<rparr>"

definition configured_worker :: worker where
  "configured_worker =
     snd (set_parameters demo_libs 1 0.3 0.5 0 0 True False True
            (snd (init_worker demo_libs Map.empty)))"

text \<open>
  A serialisation that reverses the list of items and never fails, a window with an empty
  history and no history file, the word U+0441 U+043B U+043E U+0432 U+043E, and a
  window with two entries.
\<close>

definition toy_pickle :: "(ustring \<times> ustring) list io" where
  "toy_pickle =
     \<lparr> pickle_dumps = rev, pickle_loads = (\<lambda>b. Return (rev b)),
       open_write_error = None, dump_error = None, open_read_error = None \<rparr>"

definition empty_window :: "(ustring \<times> ustring) list main_window" where
  "empty_window =
     \<lparr> word_translations = [], word_history = [], log_messages = [], has_log_text = True,
       history_file = None \<rparr>"

definition slovo :: ustring where
  "slovo = [0x441, 0x43B, 0x43E, 0x432, 0x43E]"

definition small_window :: "(ustring \<times> ustring) list main_window" where
  "small_window =
     empty_window\<lparr>word_history := [(slovo, [0x77, 0x6F, 0x72, 0x64]), ([0x434, 0x430], [0x662F])]\<rparr>"

section \<open>Properties of the language detector\<close>

lemma strip_empty_all_space:
  assumes "strip cc text = []"
  shows "\<forall>c \<in> set text. is_space cc c"
proof -
  from assms have "dropWhile (is_space cc) (rev (dropWhile (is_space cc) text)) = []"
    by (simp add: strip_def)
  then have "\<forall>c \<in> set (rev (dropWhile (is_space cc) text)). is_space cc c"
    by (simp add: dropWhile_eq_Nil_conv)
  then have inner: "\<forall>c \<in> set (dropWhile (is_space cc) text). is_space cc c"
    by simp
  show ?thesis
  proof
    fix c assume "c \<in> set text"
    then have "c \<in> set (takeWhile (is_space cc) text) \<or> c \<in> set (dropWhile (is_space cc) text)"
      by (metis Un_iff set_append takeWhile_dropWhile_id)
    then show "is_space cc c"
      using inner by (auto dest: set_takeWhileD)
  qed
qed

lemma letters_nonempty_not_blank:
  assumes "findall_letters cc text \<noteq> []"
  shows "text \<noteq> [] \<and> strip cc text \<noteq> []"
proof -
  from assms obtain c where c: "c \<in> set text" "\<not> is_space cc c"
    by (auto simp: findall_letters_def filter_empty_conv)
  then have "text \<noteq> []" by auto
  moreover have "strip cc text \<noteq> []"
    using c strip_empty_all_space by blast
  ultimately show ?thesis by simp
qed

lemma ratio_above_half:
  assumes "0 < n"
  shows "(real r / real n > 0.5) = (n < 2 * r)"
proof -
  have "(real r / real n > 0.5) = (real n * 0.5 < real r)"
    using assms by (simp add: pos_less_divide_eq mult.commute)
  also have "\<dots> = (real n < 2 * real r)" by auto
  also have "\<dots> = (n < 2 * r)"
    by (metis of_nat_less_iff of_nat_mult of_nat_numeral)
  finally show ?thesis .
qed

text \<open>
  C5. The detector never raises. It returns false when the text has no letter-like
  character (the empty and the blank text among them); otherwise it returns true exactly
  when the Cyrillic characters divided by the letter-like characters exceed one half,
  that is, when twice the first count exceeds the second. So a text with no Cyrillic
  character is never Russian.
\<close>

theorem is_russian_text_ratio:
  "(findall_letters cc text = [] \<longrightarrow> is_russian_text cc text = Return False)
   \<and> (findall_letters cc text \<noteq> [] \<longrightarrow>
        is_russian_text cc text =
          Return (real (length (findall_cyrillic text)) / real (length (findall_letters cc text)) > 0.5)
        \<and> is_russian_text cc text =
          Return (length (findall_letters cc text) < 2 * length (findall_cyrillic text)))
   \<and> (findall_cyrillic text = [] \<longrightarrow> is_russian_text cc text = Return False)
   \<and> (\<exists>b. is_russian_text cc text = Return b)"
proof -
  have none: "findall_letters cc text = [] \<Longrightarrow> is_russian_text cc text = Return False"
    by (simp add: is_russian_text_def Let_def)
  have some: "is_russian_text cc text =
      Return (real (length (findall_cyrillic text)) / real (length (findall_letters cc text)) > 0.5)"
    if "findall_letters cc text \<noteq> []"
    using that letters_nonempty_not_blank [OF that]
    by (simp add: is_russian_text_def Let_def truediv_def)
  have some2: "is_russian_text cc text =
      Return (length (findall_letters cc text) < 2 * length (findall_cyrillic text))"
    if "findall_letters cc text \<noteq> []"
    using some [OF that] that ratio_above_half [of "length (findall_letters cc text)"]
    by simp
  have nocyr: "is_russian_text cc text = Return False" if "findall_cyrillic text = []"
  proof (cases "findall_letters cc text = []")
    case True
    then show ?thesis by (rule none)
  next
    case False
    then show ?thesis using some2 [OF False] that by simp
  qed
  have total: "\<exists>b. is_russian_text cc text = Return b"
    using none some by (cases "findall_letters cc text = []") auto
  show ?thesis using none some some2 nocyr total by blast
qed

theorem is_russian_text_ratio_witness:
  "findall_letters ascii_classes [0x41F, 0x440, 0x438, 0x20, 0x61] \<noteq> []
   \<and> is_russian_text ascii_classes [0x41F, 0x440, 0x438, 0x20, 0x61] = Return True
   \<and> findall_letters ascii_classes [0x20, 0x31] = []
   \<and> is_russian_text ascii_classes [0x20, 0x31] = Return False
   \<and> findall_cyrillic [0x61, 0x62] = []
   \<and> is_russian_text ascii_classes [0x61, 0x62] = Return False"
proof -
  have a: "findall_letters ascii_classes [0x41F, 0x440, 0x438, 0x20, 0x61] = [0x41F, 0x440, 0x438, 0x61]"
    by (simp add: findall_letters_def ascii_classes_def)
  have b: "findall_cyrillic [0x41F, 0x440, 0x438, 0x20, 0x61] = [0x41F, 0x440, 0x438]"
    by (simp add: findall_cyrillic_def)
  have c: "findall_letters ascii_classes [0x20, 0x31] = []"
    by (simp add: findall_letters_def ascii_classes_def)
  have d: "findall_cyrillic [0x61, 0x62] = []"
    by (simp add: findall_cyrillic_def)
  show ?thesis
    using is_russian_text_ratio [of ascii_classes "[0x41F, 0x440, 0x438, 0x20, 0x61]"]
      is_russian_text_ratio [of ascii_classes "[0x20, 0x31]"]
      is_russian_text_ratio [of ascii_classes "[0x61, 0x62]"]
      a b c d
    by simp
qed

section \<open>What the methods leave unchanged, emit and raise\<close>

lemma emitsI:
  assumes "\<And>s r s'. f s = (r, s') \<Longrightarrow> core s' = core s \<and> (\<exists>new. emitted s' = emitted s @ new \<and> list_all P new)"
  shows "emits P f"
  using assms unfolding emits_def by blast

lemma emitsD:
  assumes "emits P f" "f s = (r, s')"
  shows "core s' = core s" "\<exists>new. emitted s' = emitted s @ new \<and> list_all P new"
  using assms unfolding emits_def by blast+

lemma emits_pointwise:
  assumes "\<And>s. \<exists>g. emits P g \<and> f s = g s"
  shows "emits P f"
proof (rule emitsI)
  fix s r s' assume f: "f s = (r, s')"
  from assms obtain g where g: "emits P g" "f s = g s" by blast
  with f have "g s = (r, s')" by simp
  with g(1) show "core s' = core s \<and> (\<exists>new. emitted s' = emitted s @ new \<and> list_all P new)"
    unfolding emits_def by blast
qed

lemma emits_return [simp]: "emits P (return_m x)"
  by (rule emitsI) (auto simp: return_m_def)

lemma emits_lift [simp]: "emits P (lift r)"
  by (rule emitsI) (auto simp: lift_def)

lemma emits_emit: "P x \<Longrightarrow> emits P (emit x)"
  by (rule emitsI) (auto simp: emit_def core_def)

lemma emits_bind:
  assumes "emits P f" "\<And>x. emits P (g x)"
  shows "emits P (bind_m f g)"
proof (rule emitsI)
  fix s r s' assume b: "bind_m f g s = (r, s')"
  obtain r1 s1 where f: "f s = (r1, s1)" by (cases "f s")
  from emitsD [OF assms(1) f] obtain n1 where
    1: "core s1 = core s" "emitted s1 = emitted s @ n1" "list_all P n1" by blast
  show "core s' = core s \<and> (\<exists>new. emitted s' = emitted s @ new \<and> list_all P new)"
  proof (cases r1)
    case (Return x)
    with b f have "g x s1 = (r, s')" by (simp add: bind_m_def)
    from emitsD [OF assms(2) this] obtain n2 where
      "core s' = core s1" "emitted s' = emitted s1 @ n2" "list_all P n2" by blast
    with 1 show ?thesis by auto
  next
    case (Raise e)
    with b f have "s' = s1" by (simp add: bind_m_def)
    with 1 show ?thesis by auto
  qed
qed

lemma emits_try:
  assumes "emits P f" "\<And>e. emits P (h e)"
  shows "emits P (try_except_Exception f h)"
proof (rule emitsI)
  fix s r s' assume b: "try_except_Exception f h s = (r, s')"
  obtain r1 s1 where f: "f s = (r1, s1)" by (cases "f s")
  from emitsD [OF assms(1) f] obtain n1 where
    1: "core s1 = core s" "emitted s1 = emitted s @ n1" "list_all P n1" by blast
  show "core s' = core s \<and> (\<exists>new. emitted s' = emitted s @ new \<and> list_all P new)"
  proof (cases "\<exists>e. r1 = Raise e \<and> is_Exception e")
    case True
    then obtain e where e: "r1 = Raise e" "is_Exception e" by blast
    with b f have "h e s1 = (r, s')" by (simp add: try_except_Exception_def)
    from emitsD [OF assms(2) this] obtain n2 where
      "core s' = core s1" "emitted s' = emitted s1 @ n2" "list_all P n2" by blast
    with 1 show ?thesis by auto
  next
    case False
    with b f have "s' = s1" by (cases r1) (auto simp: try_except_Exception_def split: if_splits)
    with 1 show ?thesis by auto
  qed
qed

lemma emits_try_all:
  assumes "emits P f" "emits P h"
  shows "emits P (try_except_all f h)"
proof (rule emitsI)
  fix s r s' assume b: "try_except_all f h s = (r, s')"
  obtain r1 s1 where f: "f s = (r1, s1)" by (cases "f s")
  from emitsD [OF assms(1) f] obtain n1 where
    1: "core s1 = core s" "emitted s1 = emitted s @ n1" "list_all P n1" by blast
  show "core s' = core s \<and> (\<exists>new. emitted s' = emitted s @ new \<and> list_all P new)"
  proof (cases r1)
    case (Return x)
    with b f have "s' = s1" by (simp add: try_except_all_def)
    with 1 show ?thesis by auto
  next
    case (Raise e)
    with b f have "h s1 = (r, s')" by (simp add: try_except_all_def)
    from emitsD [OF assms(2) this] obtain n2 where
      "core s' = core s1" "emitted s' = emitted s1 @ n2" "list_all P n2" by blast
    with 1 show ?thesis by auto
  qed
qed

lemma emits_weaken: "emits P f \<Longrightarrow> (\<And>x. P x \<Longrightarrow> Q x) \<Longrightarrow> emits Q f"
  unfolding emits_def by (metis (mono_tags, lifting) list.pred_mono_strong)

lemma emits_branch:
  assumes "\<And>s. c s \<Longrightarrow> f s = g s" "\<And>s. \<not> c s \<Longrightarrow> f s = h s s"
    and "emits P g" "\<And>t. emits P (h t)"
  shows "emits P f"
proof (rule emits_pointwise)
  fix s
  show "\<exists>k. emits P k \<and> f s = k s"
  proof (cases "c s")
    case True
    with assms(1,3) show ?thesis by blast
  next
    case False
    with assms(2) have "f s = h s s" by simp
    with assms(4) show ?thesis by blast
  qed
qed

lemma emits_add_stress_marks: "emits not_error (add_stress_marks text)"
proof (rule emits_branch [where c = "\<lambda>s. \<not> stress_mark_enabled s \<or> normalizer s = None"
      and g = "return_m (text, False)"
      and h = "\<lambda>t. try_except_Exception
          (bind_m (lift (the (normalizer t) text)) (\<lambda>normalized_text.
           return_m (normalized_text, True)))
          (\<lambda>e. bind_m (emit (log_signal (StressFailed e) Warning)) (\<lambda>_.
           return_m (text, False)))"])
  fix t
  show "emits not_error (try_except_Exception
          (bind_m (lift (the (normalizer t) text)) (\<lambda>normalized_text.
           return_m (normalized_text, True)))
          (\<lambda>e. bind_m (emit (log_signal (StressFailed e) Warning)) (\<lambda>_.
           return_m (text, False))))"
    by (intro emits_try emits_bind emits_emit emits_return emits_lift) (simp add: not_error_def)
qed (auto simp: add_stress_marks_def)

lemma emits_translate_russian: "emits not_error (translate_russian text)"
proof (rule emits_branch [where c = "\<lambda>s. \<not> translation_enabled s \<or> translator s = None"
      and g = "return_m ([], False)"
      and h = "\<lambda>t. try_except_Exception
          (let text_to_translate =
                 (if length text > 5000 then take 5000 text @ ELLIPSIS else text)
           in bind_m (lift (the (translator t) text_to_translate)) (\<lambda>translated_text.
              return_m (translated_text, True)))
          (\<lambda>e. bind_m (emit (log_signal (TranslationFailed e) Warning)) (\<lambda>_.
           return_m ([], False)))"])
  fix t
  show "emits not_error (try_except_Exception
          (let text_to_translate =
                 (if length text > 5000 then take 5000 text @ ELLIPSIS else text)
           in bind_m (lift (the (translator t) text_to_translate)) (\<lambda>translated_text.
              return_m (translated_text, True)))
          (\<lambda>e. bind_m (emit (log_signal (TranslationFailed e) Warning)) (\<lambda>_.
           return_m ([], False))))"
    unfolding Let_def
    by (intro emits_try emits_bind emits_emit emits_return emits_lift) (simp add: not_error_def)
qed (auto simp: translate_russian_def)

lemma emits_morphological_analysis: "emits not_error (morphological_analysis text)"
proof (rule emits_branch [where c = "\<lambda>s. \<not> morphology_enabled s \<or> morph_analyzer s = None"
      and g = "return_m ([], False, [])"
      and h = "\<lambda>t. try_except_Exception
          (let words = findall_russian_words text
           in if words = [] then return_m (NO_RUSSIAN_WORDS, False, [])
              else bind_m (lift (analyse_words (the (morph_analyzer t)) words [] []))
                     (\<lambda>(result_lines, word_analysis).
                        return_m (join NEWLINE result_lines, True, word_analysis)))
          (\<lambda>e. let error_msg = MORPH_FAILED_PREFIX @ msg e
                in bind_m (emit (log_signal (MorphologyFailed error_msg) Warning)) (\<lambda>_.
                   return_m (error_msg, False, [])))"])
  fix t
  show "emits not_error (try_except_Exception
          (let words = findall_russian_words text
           in if words = [] then return_m (NO_RUSSIAN_WORDS, False, [])
              else bind_m (lift (analyse_words (the (morph_analyzer t)) words [] []))
                     (\<lambda>(result_lines, word_analysis).
                        return_m (join NEWLINE result_lines, True, word_analysis)))
          (\<lambda>e. let error_msg = MORPH_FAILED_PREFIX @ msg e
                in bind_m (emit (log_signal (MorphologyFailed error_msg) Warning)) (\<lambda>_.
                   return_m (error_msg, False, [])))) "
    unfolding Let_def
    by (cases "findall_russian_words text = []")
      (auto intro!: emits_try emits_bind emits_emit emits_return emits_lift simp: not_error_def)
qed (auto simp: morphological_analysis_def)

lemma emits_translate_word: "emits not_error (translate_word tr w acc)"
  unfolding translate_word_def
  by (intro emits_try emits_bind emits_emit emits_return emits_lift) (simp_all add: not_error_def)

lemma translate_words_Cons:
  "translate_words tr (w # ws) acc = bind_m (translate_word tr w acc) (translate_words tr ws)"
proof (rule ext)
  fix s
  obtain r s1 where 1: "translate_word tr w acc s = (r, s1)" by (cases "translate_word tr w acc s")
  show "translate_words tr (w # ws) acc s = bind_m (translate_word tr w acc) (translate_words tr ws) s"
    using 1 by (cases r) (simp_all add: bind_m_def)
qed

lemma emits_translate_words: "emits not_error (translate_words tr ws acc)"
proof (induction ws arbitrary: acc)
  case Nil
  show ?case by (rule emitsI) simp
next
  case (Cons w ws)
  show ?case unfolding translate_words_Cons
    by (rule emits_bind [OF emits_translate_word Cons])
qed

lemma emits_translate_analysed_words: "emits not_error (translate_analysed_words wa)"
proof (rule emits_branch [where c = "\<lambda>s. \<not> (wa \<noteq> [] \<and> translator s \<noteq> None)"
      and g = "return_m []" and h = "\<lambda>t. translate_words (the (translator t)) wa []"])
  show "emits not_error (translate_words (the (translator t)) wa [])" for t
    by (rule emits_translate_words)
qed (auto simp: translate_analysed_words_def)

lemma emits_gtts_save: "emits P (gtts_save env text p)"
  by (rule emitsI) (auto simp: gtts_save_def core_def split: option.splits)

lemma emits_from_file: "emits P (from_file env p)"
  by (rule emitsI) (auto simp: from_file_def core_def split: option.splits)

lemma emits_apply_gain: "emits P (\<lambda>s. apply_gain env a (audio_gain_db s) s)"
  by (rule emitsI) (auto simp: apply_gain_def core_def split: option.splits)

lemma emits_normalize_audio: "emits P (normalize_audio env a)"
  by (rule emitsI) (auto simp: normalize_audio_def core_def split: option.splits)

lemma emits_export_audio: "emits P (export_audio env a p)"
  by (rule emitsI) (auto simp: export_audio_def core_def split: option.splits)

lemma emits_remove_if_exists: "emits P (remove_if_exists env p)"
  by (rule emitsI) (auto simp: remove_if_exists_def core_def split: option.splits if_splits)

lemma emits_synthesize_enhanced: "emits P (synthesize_enhanced env text)"
  unfolding synthesize_enhanced_def
  by (intro emits_bind emits_gtts_save emits_from_file emits_apply_gain emits_normalize_audio
      emits_export_audio emits_remove_if_exists)

lemma emits_set_results:
  "emits P (\<lambda>s. (Return (), s\<lparr>word_analysis_results := wa\<rparr>))"
  by (rule emitsI) (auto simp: core_def)

lemma emits_case_prod:
  "(\<And>a b. emits P (f a b)) \<Longrightarrow> emits P (case x of (a, b) \<Rightarrow> f a b)"
  by (cases x) simp

lemma not_error_simps [simp]:
  "not_error (log_signal m l) = (l \<noteq> Error)"
  "not_error (status_signal st)"
  "not_error (processed_count_signal n)"
  "not_error (result_signal a b c d)"
  "not_error (word_analysis_signal ws)"
  by (simp_all add: not_error_def)

lemma emits_enrich: "emits not_error (enrich text)"
  unfolding enrich_def
  by (intro emits_bind emits_case_prod emits_add_stress_marks emits_translate_russian
      emits_morphological_analysis emits_translate_analysed_words
      emits_set_results emits_emit emits_return) simp_all

lemma emits_enrich_and_synthesize: "emits not_error (enrich_and_synthesize env text)"
  unfolding enrich_and_synthesize_def
  by (intro emits_bind emits_case_prod emits_enrich emits_synthesize_enhanced emits_return)

lemma emits_text_to_speech_russian: "emits (\<lambda>_. True) (text_to_speech_russian env text)"
  unfolding text_to_speech_russian_def
  by (intro emits_try emits_try_all emits_bind emits_emit emits_return emits_gtts_save
      emits_weaken [OF emits_enrich_and_synthesize]) simp_all

lemma play_loop_Suc:
  "play_loop env (Suc n) i result =
     bind_m (\<lambda>s. emit (log_signal (PlayStart (int i + 1) (play_times s) (play_interval s)) Info) s)
       (\<lambda>_. bind_m (lift (subprocess_run env i)) (\<lambda>r. play_loop env n (Suc i) (Some r)))"
proof (rule ext)
  fix s
  show "play_loop env (Suc n) i result s =
     bind_m (\<lambda>s. emit (log_signal (PlayStart (int i + 1) (play_times s) (play_interval s)) Info) s)
       (\<lambda>_. bind_m (lift (subprocess_run env i)) (\<lambda>r. play_loop env n (Suc i) (Some r))) s"
    by (cases "subprocess_run env i") (simp_all add: bind_m_def emit_def lift_def)
qed

lemma emits_emit_state: "(\<And>s. P (x s)) \<Longrightarrow> emits P (\<lambda>s. emit (x s) s)"
  by (rule emitsI) (auto simp: emit_def core_def)

lemma emits_play_loop: "emits (\<lambda>_. True) (play_loop env n i result)"
proof (induction n arbitrary: i result)
  case 0
  show ?case by (rule emitsI) simp
next
  case (Suc n)
  show ?case unfolding play_loop_Suc
    by (intro emits_bind emits_emit_state emits_lift Suc) simp
qed

lemma emits_play_audio: "emits (\<lambda>_. True) (play_audio env)"
proof -
  have body: "emits (\<lambda>_. True) (\<lambda>s. play_loop env (nat (play_times s)) 0 None s)"
    by (rule emits_pointwise) (use emits_play_loop in blast)
  show ?thesis unfolding play_audio_def
    by (intro emits_try emits_bind body)
      (auto intro!: emits_bind emits_case_prod emits_emit emits_emit_state emits_return emits_lift
        split: option.splits)
qed

lemma nxI:
  assumes "\<And>s e s'. f s = (Raise e, s') \<Longrightarrow> \<not> is_Exception e"
  shows "no_Exception f"
  using assms unfolding no_Exception_def by blast

lemma nxD: "no_Exception f \<Longrightarrow> f s = (Raise e, s') \<Longrightarrow> \<not> is_Exception e"
  unfolding no_Exception_def by blast

lemma nx_return [simp]: "no_Exception (return_m x)"
  by (rule nxI) (simp add: return_m_def)

lemma nx_emit [simp]: "no_Exception (emit x)"
  by (rule nxI) (simp add: emit_def)

lemma nx_emit_state: "no_Exception (\<lambda>s. emit (x s) s)"
  by (rule nxI) (simp add: emit_def)

lemma nx_assign: "no_Exception (\<lambda>s. (Return x, u s))"
  by (rule nxI) simp

lemma nx_lift_Return [simp]: "no_Exception (lift (Return x))"
  by (rule nxI) (simp add: lift_def)

lemma nx_bind:
  assumes "no_Exception f" "\<And>x. no_Exception (g x)"
  shows "no_Exception (bind_m f g)"
proof (rule nxI)
  fix s e s' assume b: "bind_m f g s = (Raise e, s')"
  obtain r1 s1 where f: "f s = (r1, s1)" by (cases "f s")
  show "\<not> is_Exception e"
  proof (cases r1)
    case (Return x)
    with b f have "g x s1 = (Raise e, s')" by (simp add: bind_m_def)
    then show ?thesis by (rule nxD [OF assms(2)])
  next
    case (Raise e1)
    with b f have "f s = (Raise e, s1)" by (simp add: bind_m_def)
    then show ?thesis by (rule nxD [OF assms(1)])
  qed
qed

lemma nx_try:
  assumes "\<And>e. no_Exception (h e)"
  shows "no_Exception (try_except_Exception f h)"
proof (rule nxI)
  fix s e s' assume b: "try_except_Exception f h s = (Raise e, s')"
  obtain r1 s1 where f: "f s = (r1, s1)" by (cases "f s")
  show "\<not> is_Exception e"
  proof (cases r1)
    case (Return x)
    with b f show ?thesis by (simp add: try_except_Exception_def)
  next
    case (Raise e1)
    show ?thesis
    proof (cases "is_Exception e1")
      case True
      with b f Raise have "h e1 s1 = (Raise e, s')" by (simp add: try_except_Exception_def)
      then show ?thesis by (rule nxD [OF assms])
    next
      case False
      with b f Raise show ?thesis by (simp add: try_except_Exception_def)
    qed
  qed
qed

lemma nx_try_all:
  assumes "no_Exception h"
  shows "no_Exception (try_except_all f h)"
proof (rule nxI)
  fix s e s' assume b: "try_except_all f h s = (Raise e, s')"
  obtain r1 s1 where f: "f s = (r1, s1)" by (cases "f s")
  show "\<not> is_Exception e"
  proof (cases r1)
    case (Return x)
    with b f show ?thesis by (simp add: try_except_all_def)
  next
    case (Raise e1)
    with b f have "h s1 = (Raise e, s')" by (simp add: try_except_all_def)
    then show ?thesis by (rule nxD [OF assms])
  qed
qed

lemma nx_case_prod:
  "(\<And>a b. no_Exception (f a b)) \<Longrightarrow> no_Exception (case x of (a, b) \<Rightarrow> f a b)"
  by (cases x) simp

lemma nx_text_to_speech_russian: "no_Exception (text_to_speech_russian env text)"
  unfolding text_to_speech_russian_def
  by (intro nx_try nx_try_all nx_bind nx_emit nx_return)

lemma nx_play_audio: "no_Exception (play_audio env)"
  unfolding play_audio_def
  by (intro nx_try nx_bind nx_emit nx_return)

lemma nx_after_speech:
  "no_Exception (if success
     then bind_m (play_audio env) (\<lambda>(play_success, error_message).
            if \<not> play_success
            then emit (log_signal (PlaybackFailed error_message) Error)
            else return_m ())
     else emit (log_signal SynthesisSkipped Error))"
proof (cases success)
  case True
  have "no_Exception (if \<not> a then emit (log_signal (PlaybackFailed b) Error) else return_m ())"
    for a b by simp
  then show ?thesis using True by (auto intro!: nx_bind nx_case_prod nx_play_audio)
next
  case False
  then show ?thesis by simp
qed

lemma nx_process_russian: "no_Exception (process_russian env c)"
  unfolding process_russian_def
  by (intro nx_bind nx_case_prod nx_assign nx_emit_state nx_emit nx_text_to_speech_russian
      nx_after_speech)

lemma emits_count:
  "emits P (\<lambda>s. (Return (), s\<lparr>processed_count := processed_count s + 1\<rparr>))"
  by (rule emitsI) (auto simp: core_def)

lemma emits_after_speech:
  "emits (\<lambda>_. True) (if success
     then bind_m (play_audio env) (\<lambda>(play_success, error_message).
            if \<not> play_success
            then emit (log_signal (PlaybackFailed error_message) Error)
            else return_m ())
     else emit (log_signal SynthesisSkipped Error))"
proof (cases success)
  case True
  have "emits (\<lambda>_. True) (if \<not> a then emit (log_signal (PlaybackFailed b) Error) else return_m ())"
    for a b by (simp add: emits_emit)
  then show ?thesis using True by (auto intro!: emits_bind emits_case_prod emits_play_audio)
next
  case False
  then show ?thesis by (simp add: emits_emit)
qed

lemma emits_process_russian: "emits (\<lambda>_. True) (process_russian env c)"
  unfolding process_russian_def
  by (intro emits_bind emits_case_prod emits_count emits_emit_state emits_emit
      emits_text_to_speech_russian emits_after_speech) simp_all

lemma is_russian_text_returns: "\<exists>b. is_russian_text cc text = Return b"
  by (auto simp: is_russian_text_def Let_def truediv_def)

lemma core_fields:
  assumes "core s' = core s"
  shows "is_running s' = is_running s" "is_processing s' = is_processing s"
    "process_cooldown s' = process_cooldown s" "last_content s' = last_content s"
    "last_process_time s' = last_process_time s" "translator s' = translator s"
    "normalizer s' = normalizer s" "morph_analyzer s' = morph_analyzer s"
    "translation_enabled s' = translation_enabled s"
    "stress_mark_enabled s' = stress_mark_enabled s"
    "morphology_enabled s' = morphology_enabled s"
    "play_times s' = play_times s" "audio_gain_db s' = audio_gain_db s"
  using assms by (simp_all add: core_def)

lemma emits_handle_content: "emits (\<lambda>_. True) (handle_content env c)"
  unfolding handle_content_def
  by (intro emits_bind emits_lift) (simp add: emits_process_russian)

lemma nx_handle_content: "no_Exception (handle_content env c)"
proof -
  obtain b where "is_russian_text (classes env) c = Return b"
    using is_russian_text_returns by blast
  then show ?thesis unfolding handle_content_def
    by (intro nx_bind) (simp_all add: nx_process_russian)
qed

lemma process_content_unfold:
  "process_content env c t s =
     (case handle_content env c (s\<lparr>is_processing := True, last_content := c, last_process_time := t\<rparr>) of
        (Return x, s') \<Rightarrow> (Return (), s'\<lparr>is_processing := False\<rparr>)
      | (Raise e, s') \<Rightarrow> (Raise e, s'))"
  by (simp add: process_content_def bind_m_def split: prod.splits res.splits)

lemma process_content_effect:
  assumes "process_content env c t s = (r, s')"
  shows "last_content s' = c \<and> last_process_time s' = t
         \<and> process_cooldown s' = process_cooldown s \<and> is_running s' = is_running s
         \<and> ((r = Return () \<and> \<not> is_processing s')
             \<or> (\<exists>e. r = Raise e \<and> \<not> is_Exception e \<and> is_processing s'))"
proof -
  let ?s1 = "s\<lparr>is_processing := True, last_content := c, last_process_time := t\<rparr>"
  obtain r1 s2 where h: "handle_content env c ?s1 = (r1, s2)"
    by (cases "handle_content env c ?s1")
  have c: "core s2 = core ?s1"
    by (rule emitsD(1) [OF emits_handle_content h])
  note f = core_fields [OF c]
  show ?thesis
  proof (cases r1)
    case (Return x)
    with assms h have "r = Return ()" "s' = s2\<lparr>is_processing := False\<rparr>"
      by (simp_all add: process_content_unfold)
    with f show ?thesis by simp
  next
    case (Raise e)
    with assms h have "r = Raise e" "s' = s2"
      by (simp_all add: process_content_unfold)
    moreover have "\<not> is_Exception e"
      using h Raise nxD [OF nx_handle_content] by blast
    ultimately show ?thesis using f by simp
  qed
qed

lemma tick_triggers_run_tick:
  assumes "tick_triggers env s" "clipboard env = Return c"
  shows "run_tick env s = process_content env c (now env) s"
  using assms by (simp add: tick_triggers_def run_tick_def)

lemma not_triggers_run_tick:
  assumes "\<not> tick_triggers env s" "clipboard env = Return c"
  shows "run_tick env s = (Return (), s)"
  using assms by (auto simp: tick_triggers_def run_tick_def)

lemma run_tick_keeps_idle:
  assumes "\<not> is_processing s" "run_tick env s = (Return x, s')"
  shows "\<not> is_processing s'"
proof (cases "clipboard env")
  case (Raise e)
  with assms show ?thesis by (simp add: run_tick_def)
next
  case (Return c)
  show ?thesis
  proof (cases "tick_triggers env s")
    case True
    with Return assms have "process_content env c (now env) s = (Return x, s')"
      by (simp add: tick_triggers_run_tick)
    from process_content_effect [OF this] show ?thesis by simp
  next
    case False
    with Return assms show ?thesis by (simp add: not_triggers_run_tick)
  qed
qed

lemma run_history_idle:
  assumes "\<not> is_processing s0" "(env, s) \<in> set (run_history envs s0)"
  shows "\<not> is_processing s"
  using assms
proof (induction envs arbitrary: s0)
  case Nil
  then show ?case by simp
next
  case (Cons a envs)
  show ?case
  proof (cases "(env, s) = (a, s0)")
    case True
    with Cons.prems show ?thesis by simp
  next
    case False
    obtain r s1 where t: "run_tick a s0 = (r, s1)" by (cases "run_tick a s0")
    with False Cons.prems(2) obtain x where
      r: "r = Return x" and m: "(env, s) \<in> set (run_history envs s1)"
      by (cases r) (auto split: if_splits)
    from run_tick_keeps_idle [OF Cons.prems(1)] t r have "\<not> is_processing s1" by simp
    from Cons.IH [OF this m] show ?thesis .
  qed
qed

lemma trigger_condition:
  assumes "\<not> is_processing s" "clipboard env = Return c"
  shows "tick_triggers env s \<longleftrightarrow>
           strip (classes env) c \<noteq> [] \<and> c \<noteq> last_content s
           \<and> now env - last_process_time s \<ge> process_cooldown s"
proof -
  have "strip (classes env) c \<noteq> [] \<Longrightarrow> c \<noteq> []"
    by (auto simp: strip_def)
  with assms show ?thesis
    by (auto simp: tick_triggers_def should_process_def)
qed

section \<open>Properties of the clipboard watcher\<close>

text \<open>The definitions unfolded to run the loop on a concrete input.\<close>

lemmas eval_defs =
  run_tick_def should_process_def strip_def process_content_def handle_content_def process_russian_def
  text_to_speech_russian_def enrich_and_synthesize_def enrich_def add_stress_marks_def
  translate_russian_def morphological_analysis_def translate_analysed_words_def
  synthesize_enhanced_def gtts_save_def from_file_def apply_gain_def normalize_audio_def
  export_audio_def remove_if_exists_def play_audio_def bind_m_def return_m_def lift_def
  try_except_Exception_def try_except_all_def emit_def is_russian_text_def
  findall_cyrillic_def findall_letters_def truediv_def ascii_classes_def
  quiet_env_def tick_def plain_worker_def new_worker_def tick_triggers_def Let_def
  doomed_worker_def exiting_translator_def translate_word_def is_Exception_def
  run_def run_finally_def

lemma count_flags: "length (filter P xs) = length (filter id (map P xs))"
  by (induction xs) simp_all

lemma three_ticks:
  assumes c: "clipboard e1 = Return [0x410]" "clipboard e2 = Return [0x410]"
      "clipboard e3 = Return [0x411]"
    and sp: "\<not> is_space (classes e1) 0x410" "\<not> is_space (classes e3) 0x411"
    and s0: "is_running s0" "\<not> is_processing s0" "last_content s0 = []"
      "process_cooldown s0 = 0"
    and t: "last_process_time s0 \<le> now e1" "now e1 \<le> now e3"
    and ok: "fst (run_loop [e1, e2, e3] s0) = Return ()"
  shows "map (\<lambda>(env, s). tick_triggers env s) (run_history [e1, e2, e3] s0) = [True, False, True]"
proof -
  have st1: "strip (classes e1) [0x410] \<noteq> []" using sp(1) by (simp add: strip_def)
  have st3: "strip (classes e3) [0x411] \<noteq> []" using sp(2) by (simp add: strip_def)
  have tr1: "tick_triggers e1 s0"
    using trigger_condition [OF s0(2) c(1)] st1 s0 t by simp
  obtain r1 s1 where p1: "process_content e1 [0x410] (now e1) s0 = (r1, s1)"
    by (cases "process_content e1 [0x410] (now e1) s0")
  have rt1: "run_tick e1 s0 = (r1, s1)"
    using tick_triggers_run_tick [OF tr1 c(1)] p1 by simp
  have r1: "r1 = Return ()"
  proof (cases r1)
    case (Return x)
    then show ?thesis by simp
  next
    case (Raise e)
    with ok rt1 s0(1) show ?thesis by simp
  qed
  from process_content_effect [OF p1] r1 have s1:
    "last_content s1 = [0x410]" "last_process_time s1 = now e1" "process_cooldown s1 = 0"
    "is_running s1" "\<not> is_processing s1"
    using s0 by auto
  have tr2: "\<not> tick_triggers e2 s1"
    using trigger_condition [OF s1(5) c(2)] s1 by simp
  have rt2: "run_tick e2 s1 = (Return (), s1)"
    using not_triggers_run_tick [OF tr2 c(2)] .
  have tr3: "tick_triggers e3 s1"
    using trigger_condition [OF s1(5) c(3)] st3 s1 t by simp
  show ?thesis
    using tr1 tr2 tr3 rt1 r1 rt2 s0(1) s1(4) by (simp split: prod.splits res.splits)
qed

text \<open>
  C1. In a run of the loop that starts with the busy flag clear, every iteration that
  reads a content \<open>c\<close> from the clipboard enters the processing branch if and only if \<open>c\<close>
  stripped of white space is not empty, \<open>c\<close> differs from the last content seen, and the
  time since the last processing is at least the cooldown; such an iteration runs
  \<open>process_content\<close>, which records the content and the time, and any other one leaves
  the state as it is. For the clipboard
  contents U+0410, U+0410, U+0411 with cooldown 0, a clock that does not run backwards
  and a loop that no exception ends, the three iterations trigger, do not trigger and
  trigger: exactly two triggers, whatever the times of the iterations.
\<close>

theorem trigger_iff_nonblank_changed_cooled:
  "(\<not> is_processing s0 \<longrightarrow>
      (\<forall>(env, s) \<in> set (run_history envs s0). \<forall>c. clipboard env = Return c \<longrightarrow>
         (tick_triggers env s \<longleftrightarrow>
            strip (classes env) c \<noteq> [] \<and> c \<noteq> last_content s
            \<and> process_cooldown s \<le> now env - last_process_time s)
         \<and> (tick_triggers env s \<longrightarrow>
              run_tick env s = process_content env c (now env) s
              \<and> last_content (snd (run_tick env s)) = c
              \<and> last_process_time (snd (run_tick env s)) = now env)
         \<and> (\<not> tick_triggers env s \<longrightarrow> run_tick env s = (Return (), s))))
   \<and> (clipboard e1 = Return [0x410] \<and> clipboard e2 = Return [0x410]
        \<and> clipboard e3 = Return [0x411]
        \<and> \<not> is_space (classes e1) 0x410 \<and> \<not> is_space (classes e3) 0x411
        \<and> is_running s0 \<and> \<not> is_processing s0 \<and> last_content s0 = []
        \<and> process_cooldown s0 = 0
        \<and> last_process_time s0 \<le> now e1 \<and> now e1 \<le> now e3
        \<and> fst (run_loop [e1, e2, e3] s0) = Return ()
      \<longrightarrow> map (\<lambda>(env, s). tick_triggers env s) (run_history [e1, e2, e3] s0)
            = [True, False, True]
          \<and> length (filter (\<lambda>(env, s). tick_triggers env s) (run_history [e1, e2, e3] s0)) = 2)"
proof (intro conjI impI)
  assume idle: "\<not> is_processing s0"
  show "\<forall>(env, s) \<in> set (run_history envs s0). \<forall>c. clipboard env = Return c \<longrightarrow>
         (tick_triggers env s \<longleftrightarrow>
            strip (classes env) c \<noteq> [] \<and> c \<noteq> last_content s
            \<and> process_cooldown s \<le> now env - last_process_time s)
         \<and> (tick_triggers env s \<longrightarrow>
              run_tick env s = process_content env c (now env) s
              \<and> last_content (snd (run_tick env s)) = c
              \<and> last_process_time (snd (run_tick env s)) = now env)
         \<and> (\<not> tick_triggers env s \<longrightarrow> run_tick env s = (Return (), s))"
  proof (intro ballI, clarify)
    fix env s c
    assume m: "(env, s) \<in> set (run_history envs s0)" and c: "clipboard env = Return c"
    have i: "\<not> is_processing s" by (rule run_history_idle [OF idle m])
    show "(tick_triggers env s \<longleftrightarrow>
            strip (classes env) c \<noteq> [] \<and> c \<noteq> last_content s
            \<and> process_cooldown s \<le> now env - last_process_time s)
         \<and> (tick_triggers env s \<longrightarrow>
              run_tick env s = process_content env c (now env) s
              \<and> last_content (snd (run_tick env s)) = c
              \<and> last_process_time (snd (run_tick env s)) = now env)
         \<and> (\<not> tick_triggers env s \<longrightarrow> run_tick env s = (Return (), s))"
    proof (intro conjI impI)
      show "tick_triggers env s \<longleftrightarrow>
            strip (classes env) c \<noteq> [] \<and> c \<noteq> last_content s
            \<and> process_cooldown s \<le> now env - last_process_time s"
        by (rule trigger_condition [OF i c])
    next
      assume t: "tick_triggers env s"
      show r: "run_tick env s = process_content env c (now env) s"
        by (rule tick_triggers_run_tick [OF t c])
      obtain r' s' where p: "process_content env c (now env) s = (r', s')"
        by (cases "process_content env c (now env) s")
      from process_content_effect [OF p] r p
      show "last_content (snd (run_tick env s)) = c"
        and "last_process_time (snd (run_tick env s)) = now env"
        by simp_all
    next
      assume "\<not> tick_triggers env s"
      then show "run_tick env s = (Return (), s)"
        by (rule not_triggers_run_tick [OF _ c])
    qed
  qed
next
  assume a: "clipboard e1 = Return [0x410] \<and> clipboard e2 = Return [0x410]
        \<and> clipboard e3 = Return [0x411]
        \<and> \<not> is_space (classes e1) 0x410 \<and> \<not> is_space (classes e3) 0x411
        \<and> is_running s0 \<and> \<not> is_processing s0 \<and> last_content s0 = []
        \<and> process_cooldown s0 = 0
        \<and> last_process_time s0 \<le> now e1 \<and> now e1 \<le> now e3
        \<and> fst (run_loop [e1, e2, e3] s0) = Return ()"
  then have m: "map (\<lambda>(env, s). tick_triggers env s) (run_history [e1, e2, e3] s0)
            = [True, False, True]"
    by (intro three_ticks) blast+
  show "map (\<lambda>(env, s). tick_triggers env s) (run_history [e1, e2, e3] s0)
            = [True, False, True]" by (rule m)
  have "length (filter (\<lambda>(env, s). tick_triggers env s) (run_history [e1, e2, e3] s0))
      = length (filter id (map (\<lambda>(env, s). tick_triggers env s) (run_history [e1, e2, e3] s0)))"
    by (rule count_flags)
  also have "\<dots> = 2" by (simp only: m) simp
  finally show "length (filter (\<lambda>(env, s). tick_triggers env s) (run_history [e1, e2, e3] s0)) = 2" .
qed

lemma plain_run_ok:
  "fst (run_loop [tick [0x410] 1, tick [0x410] 2, tick [0x411] 3] plain_worker) = Return ()"
  by (simp add: eval_defs)

theorem trigger_iff_nonblank_changed_cooled_witness:
  "map (\<lambda>(env, s). tick_triggers env s)
      (run_history [tick [0x410] 1, tick [0x410] 2, tick [0x411] 3] plain_worker)
     = [True, False, True]
   \<and> length (filter (\<lambda>(env, s). tick_triggers env s)
        (run_history [tick [0x410] 1, tick [0x410] 2, tick [0x411] 3] plain_worker)) = 2
   \<and> tick_triggers (tick [0x410] 1) plain_worker
   \<and> run_tick (tick [0x410] 1) plain_worker
       = process_content (tick [0x410] 1) [0x410] 1 plain_worker
   \<and> last_content (snd (run_tick (tick [0x410] 1) plain_worker)) = [0x410]
   \<and> last_process_time (snd (run_tick (tick [0x410] 1) plain_worker)) = 1"
proof -
  note T = trigger_iff_nonblank_changed_cooled [where ?s0.0 = plain_worker
      and envs = "[tick [0x410] 1, tick [0x410] 2, tick [0x411] 3]"
      and ?e1.0 = "tick [0x410] 1" and ?e2.0 = "tick [0x410] 2" and ?e3.0 = "tick [0x411] 3"]
  have idle: "\<not> is_processing plain_worker"
    by (simp add: plain_worker_def new_worker_def)
  have hyp: "clipboard (tick [0x410] 1) = Return [0x410]
      \<and> clipboard (tick [0x410] 2) = Return [0x410]
      \<and> clipboard (tick [0x411] 3) = Return [0x411]
      \<and> \<not> is_space (classes (tick [0x410] 1)) 0x410
      \<and> \<not> is_space (classes (tick [0x411] 3)) 0x411
      \<and> is_running plain_worker \<and> \<not> is_processing plain_worker
      \<and> last_content plain_worker = [] \<and> process_cooldown plain_worker = 0
      \<and> last_process_time plain_worker \<le> now (tick [0x410] 1)
      \<and> now (tick [0x410] 1) \<le> now (tick [0x411] 3)
      \<and> fst (run_loop [tick [0x410] 1, tick [0x410] 2, tick [0x411] 3] plain_worker) = Return ()"
    using plain_run_ok
    by (simp add: tick_def quiet_env_def ascii_classes_def plain_worker_def new_worker_def)
  have mem: "(tick [0x410] 1, plain_worker)
      \<in> set (run_history [tick [0x410] 1, tick [0x410] 2, tick [0x411] 3] plain_worker)"
    by (simp add: plain_worker_def new_worker_def)
  have clip: "clipboard (tick [0x410] 1) = Return [0x410]" "now (tick [0x410] 1) = 1"
    by (simp_all add: tick_def quiet_env_def)
  have cond: "strip (classes (tick [0x410] 1)) [0x410] \<noteq> []
      \<and> [0x410] \<noteq> last_content plain_worker
      \<and> process_cooldown plain_worker
          \<le> now (tick [0x410] 1) - last_process_time plain_worker"
    by (simp add: tick_def quiet_env_def ascii_classes_def plain_worker_def new_worker_def
        strip_def)
  from T idle mem clip(1) have gen:
    "(tick_triggers (tick [0x410] 1) plain_worker \<longleftrightarrow>
        strip (classes (tick [0x410] 1)) [0x410] \<noteq> [] \<and> [0x410] \<noteq> last_content plain_worker
        \<and> process_cooldown plain_worker
            \<le> now (tick [0x410] 1) - last_process_time plain_worker)
     \<and> (tick_triggers (tick [0x410] 1) plain_worker \<longrightarrow>
          run_tick (tick [0x410] 1) plain_worker
            = process_content (tick [0x410] 1) [0x410] (now (tick [0x410] 1)) plain_worker
          \<and> last_content (snd (run_tick (tick [0x410] 1) plain_worker)) = [0x410]
          \<and> last_process_time (snd (run_tick (tick [0x410] 1) plain_worker))
              = now (tick [0x410] 1))"
    by blast
  with cond have tt: "tick_triggers (tick [0x410] 1) plain_worker" by blast
  with gen have
    "run_tick (tick [0x410] 1) plain_worker
       = process_content (tick [0x410] 1) [0x410] (now (tick [0x410] 1)) plain_worker"
    "last_content (snd (run_tick (tick [0x410] 1) plain_worker)) = [0x410]"
    "last_process_time (snd (run_tick (tick [0x410] 1) plain_worker)) = now (tick [0x410] 1)"
    by blast+
  with tt have
    "tick_triggers (tick [0x410] 1) plain_worker
     \<and> run_tick (tick [0x410] 1) plain_worker
         = process_content (tick [0x410] 1) [0x410] 1 plain_worker
     \<and> last_content (snd (run_tick (tick [0x410] 1) plain_worker)) = [0x410]
     \<and> last_process_time (snd (run_tick (tick [0x410] 1) plain_worker)) = 1"
    unfolding clip(2) by blast
  moreover from T hyp have
    "map (\<lambda>(env, s). tick_triggers env s)
        (run_history [tick [0x410] 1, tick [0x410] 2, tick [0x411] 3] plain_worker)
       = [True, False, True]
     \<and> length (filter (\<lambda>(env, s). tick_triggers env s)
          (run_history [tick [0x410] 1, tick [0x410] 2, tick [0x411] 3] plain_worker)) = 2"
    by blast
  ultimately show ?thesis by blast
qed

text \<open>
  C2, as the code has it. An iteration that enters the processing branch either returns
  with the busy flag cleared, by the last statement of the branch, or is ended by an
  error that is not an \<open>Exception\<close> and then leaves the flag set: every \<open>Exception\<close> of a
  provider is caught inside \<open>text_to_speech_russian\<close> and \<open>play_audio\<close>, and nothing clears
  the flag on the way out.
\<close>

theorem busy_flag_cleared_when_processing_returns:
  "tick_triggers env s \<longrightarrow>
     (\<exists>s'. run_tick env s = (Return (), s') \<and> \<not> is_processing s')
     \<or> (\<exists>e s'. run_tick env s = (Raise e, s') \<and> \<not> is_Exception e \<and> is_processing s')"
proof
  assume t: "tick_triggers env s"
  then obtain c where c: "clipboard env = Return c"
    by (cases "clipboard env") (simp_all add: tick_triggers_def)
  obtain r s' where p: "process_content env c (now env) s = (r, s')"
    by (cases "process_content env c (now env) s")
  have "run_tick env s = (r, s')"
    using tick_triggers_run_tick [OF t c] p by simp
  with process_content_effect [OF p]
  show "(\<exists>s'. run_tick env s = (Return (), s') \<and> \<not> is_processing s')
     \<or> (\<exists>e s'. run_tick env s = (Raise e, s') \<and> \<not> is_Exception e \<and> is_processing s')"
    by auto
qed

theorem busy_flag_cleared_when_processing_returns_witness:
  "tick_triggers (tick [0x434, 0x430] 1) plain_worker
   \<and> fst (run_tick (tick [0x434, 0x430] 1) plain_worker) = Return ()
   \<and> \<not> is_processing (snd (run_tick (tick [0x434, 0x430] 1) plain_worker))"
proof -
  have t: "tick_triggers (tick [0x434, 0x430] 1) plain_worker"
    by (simp add: eval_defs)
  have r: "fst (run_tick (tick [0x434, 0x430] 1) plain_worker) = Return ()"
    by (simp add: eval_defs)
  from busy_flag_cleared_when_processing_returns [of "tick [0x434, 0x430] 1" plain_worker] t r
  have "\<not> is_processing (snd (run_tick (tick [0x434, 0x430] 1) plain_worker))"
    by auto
  with t r show ?thesis by simp
qed

text \<open>
  The claim C2 as stated fails: with a translator whose call ends the interpreter's
  work on the thread, the iteration that processes the Russian text U+0434 U+0430 is left
  with the busy flag set, and \<open>run\<close> as a whole, whose \<open>finally\<close> block only emits the
  stopped status and a notification, ends with the flag still set.
\<close>

theorem busy_flag_stays_set_after_escaping_error:
  "tick_triggers (tick [0x434, 0x430] 1) doomed_worker
   \<and> fst (run_tick (tick [0x434, 0x430] 1) doomed_worker) = Raise (PyExn BaseExceptionOnly [])
   \<and> is_processing (snd (run_tick (tick [0x434, 0x430] 1) doomed_worker))
   \<and> fst (run [tick [0x434, 0x430] 1] doomed_worker) = Raise (PyExn BaseExceptionOnly [])
   \<and> is_processing (snd (run [tick [0x434, 0x430] 1] doomed_worker))
   \<and> emitted (snd (run [tick [0x434, 0x430] 1] doomed_worker))
       = [log_signal MonitorStarted Success, status_signal Monitoring,
          processed_count_signal 1, log_signal (Detected [0x434, 0x430]) Info,
          status_signal Stopped, log_signal MonitorStopped Info]"
  by (simp add: eval_defs)

lemma idle_flag_reset: "\<not> is_processing s \<Longrightarrow> s\<lparr>is_processing := False\<rparr> = s"
  by simp

text \<open>
  C7, as the code has it. An iteration that enters the processing branch with a content
  that is not Russian runs nothing of the pipeline: it emits no signal and writes no
  file. It records the content and the time, so the same content does not trigger at the
  next iteration, whatever the clock; the processed count stays as it was.
\<close>

theorem other_text_consumes_slot_without_counting:
  "tick_triggers env s \<and> clipboard env = Return c
     \<and> is_russian_text (classes env) c = Return False \<longrightarrow>
   run_tick env s = (Return (), s\<lparr>last_content := c, last_process_time := now env\<rparr>)
   \<and> processed_count (snd (run_tick env s)) = processed_count s
   \<and> emitted (snd (run_tick env s)) = emitted s
   \<and> files (snd (run_tick env s)) = files s
   \<and> (\<forall>env'. clipboard env' = Return c \<longrightarrow> \<not> tick_triggers env' (snd (run_tick env s)))"
proof
  assume a: "tick_triggers env s \<and> clipboard env = Return c
     \<and> is_russian_text (classes env) c = Return False"
  then have idle: "\<not> is_processing s" by (simp add: tick_triggers_def)
  have "run_tick env s = process_content env c (now env) s"
    using a tick_triggers_run_tick by blast
  also have "\<dots> = (Return (), s\<lparr>is_processing := False, last_content := c,
      last_process_time := now env\<rparr>)"
    using a by (simp add: process_content_unfold handle_content_def bind_m_def lift_def return_m_def)
  also have "s\<lparr>is_processing := False, last_content := c, last_process_time := now env\<rparr>
      = s\<lparr>last_content := c, last_process_time := now env\<rparr>"
    using idle by simp
  finally have r: "run_tick env s = (Return (), s\<lparr>last_content := c, last_process_time := now env\<rparr>)" .
  have "\<not> tick_triggers env' (s\<lparr>last_content := c, last_process_time := now env\<rparr>)"
    if "clipboard env' = Return c" for env'
    using that by (simp add: tick_triggers_def should_process_def)
  with r show "run_tick env s = (Return (), s\<lparr>last_content := c, last_process_time := now env\<rparr>)
   \<and> processed_count (snd (run_tick env s)) = processed_count s
   \<and> emitted (snd (run_tick env s)) = emitted s
   \<and> files (snd (run_tick env s)) = files s
   \<and> (\<forall>env'. clipboard env' = Return c \<longrightarrow> \<not> tick_triggers env' (snd (run_tick env s)))"
    by simp
qed

theorem other_text_consumes_slot_without_counting_witness:
  "tick_triggers (tick [0x68, 0x69] 1) plain_worker
   \<and> is_russian_text (classes (tick [0x68, 0x69] 1)) [0x68, 0x69] = Return False
   \<and> run_tick (tick [0x68, 0x69] 1) plain_worker
       = (Return (), plain_worker\<lparr>last_content := [0x68, 0x69], last_process_time := 1\<rparr>)
   \<and> \<not> tick_triggers (tick [0x68, 0x69] 2) (snd (run_tick (tick [0x68, 0x69] 1) plain_worker))"
proof -
  have t: "tick_triggers (tick [0x68, 0x69] 1) plain_worker"
    by (simp add: eval_defs)
  have c: "clipboard (tick [0x68, 0x69] 1) = Return [0x68, 0x69]"
      "clipboard (tick [0x68, 0x69] 2) = Return [0x68, 0x69]" "now (tick [0x68, 0x69] 1) = 1"
    by (simp_all add: tick_def quiet_env_def)
  have r: "is_russian_text (classes (tick [0x68, 0x69] 1)) [0x68, 0x69] = Return False"
    by (simp add: eval_defs)
  from other_text_consumes_slot_without_counting
    [of "tick [0x68, 0x69] 1" plain_worker "[0x68, 0x69]"] t c(1) r
  have all: "run_tick (tick [0x68, 0x69] 1) plain_worker
      = (Return (), plain_worker\<lparr>last_content := [0x68, 0x69],
           last_process_time := now (tick [0x68, 0x69] 1)\<rparr>)"
    and next_tick: "\<forall>env'. clipboard env' = Return [0x68, 0x69] \<longrightarrow>
      \<not> tick_triggers env' (snd (run_tick (tick [0x68, 0x69] 1) plain_worker))"
    by blast+
  from next_tick c(2)
  have "\<not> tick_triggers (tick [0x68, 0x69] 2) (snd (run_tick (tick [0x68, 0x69] 1) plain_worker))"
    by blast
  with all c(3) t r show ?thesis by simp
qed

text \<open>
  The claim C7 as stated fails on the counter: the content \<open>hi\<close> triggers, is not
  Russian, and leaves \<open>processed_count\<close> at 0 with no \<open>processed_count_signal\<close> emitted,
  where the Russian content U+0434 U+0430 raises the count to 1.
\<close>

theorem other_text_is_not_counted:
  "tick_triggers (tick [0x68, 0x69] 1) plain_worker
   \<and> is_russian_text (classes (tick [0x68, 0x69] 1)) [0x68, 0x69] = Return False
   \<and> processed_count plain_worker = 0
   \<and> processed_count (snd (run_tick (tick [0x68, 0x69] 1) plain_worker)) = 0
   \<and> emitted (snd (run_tick (tick [0x68, 0x69] 1) plain_worker)) = []
   \<and> is_russian_text (classes (tick [0x434, 0x430] 1)) [0x434, 0x430] = Return True
   \<and> processed_count (snd (run_tick (tick [0x434, 0x430] 1) plain_worker)) = 1"
  by (simp add: eval_defs)

section \<open>Properties of the playback\<close>

lemma upt_shift: "map f [0..<Suc n] = f 0 # map (\<lambda>k. f (Suc k)) [0..<n]"
proof -
  have "[0..<Suc n] = 0 # map Suc [0..<n]"
    by (simp add: upt_conv_Cons map_Suc_upt del: upt_Suc)
  then show ?thesis by (simp add: comp_def del: upt_Suc)
qed

lemma play_loop_all_return:
  assumes "\<forall>k<n. subprocess_run env (i + k) = Return (rs (i + k))"
  shows "play_loop env n i result s =
           (Return (if n = 0 then result else Some (rs (i + n - 1))),
            s\<lparr>emitted := emitted s @ map (\<lambda>k. play_start s (i + k)) [0..<n]\<rparr>)"
  using assms
proof (induction n arbitrary: i result s)
  case 0
  then show ?case by simp
next
  case (Suc n)
  let ?s1 = "s\<lparr>emitted := emitted s @ [play_start s i]\<rparr>"
  from Suc.prems have first: "subprocess_run env i = Return (rs i)"
    by (metis add.right_neutral zero_less_Suc)
  from Suc.prems have rest: "\<forall>k<n. subprocess_run env (Suc i + k) = Return (rs (Suc i + k))"
    by (metis add_Suc_shift Suc_less_eq)
  have step: "play_loop env (Suc n) i result s = play_loop env n (Suc i) (Some (rs i)) ?s1"
    using first by (simp add: emit_def play_start_def)
  have ps: "play_start ?s1 = play_start s"
    by (rule ext) (simp add: play_start_def)
  show ?case
    unfolding step Suc.IH [OF rest] ps upt_shift [of _ n]
    by (cases n) (simp_all del: upt_Suc)
qed

lemma play_loop_raises:
  assumes "k < n" "subprocess_run env (i + k) = Raise e"
  shows "\<exists>e' s'. play_loop env n i result s = (Raise e', s')"
  using assms
proof (induction n arbitrary: i k result s)
  case 0
  then show ?case by simp
next
  case (Suc n)
  show ?case
  proof (cases "subprocess_run env i")
    case (Raise e0)
    then show ?thesis by (simp add: emit_def)
  next
    case (Return r)
    with Suc.prems have "k \<noteq> 0" by (cases k) auto
    then obtain k' where k: "k = Suc k'" by (cases k) auto
    with Suc.prems have "k' < n" "subprocess_run env (Suc i + k') = Raise e" by simp_all
    from Suc.IH [OF this] Return show ?thesis by (simp add: emit_def)
  qed
qed

lemma play_audio_all_return:
  assumes n: "1 \<le> N" "play_times s = int N"
    and rs: "\<forall>i<N. subprocess_run env i = Return (rs i)"
  shows "play_audio env s =
          (if fst (rs (N - 1)) = 0
           then (Return (True, None),
                 s\<lparr>emitted := emitted s @ map (play_start s) [0..<N]
                        @ [log_signal (PlayDone (play_times s) (play_interval s)) Info]\<rparr>)
           else (Return (False, Some (snd (rs (N - 1)))),
                 s\<lparr>emitted := emitted s @ map (play_start s) [0..<N]
                        @ [log_signal (PlayFailed (snd (rs (N - 1)))) Error]\<rparr>))"
proof -
  from rs have "\<forall>k<N. subprocess_run env (0 + k) = Return (rs (0 + k))" by simp
  from play_loop_all_return [OF this, of None s] n
  have loop: "play_loop env (nat (play_times s)) 0 None s =
      (Return (Some (rs (N - 1))), s\<lparr>emitted := emitted s @ map (play_start s) [0..<N]\<rparr>)"
    by simp
  obtain rc err where r: "rs (N - Suc 0) = (rc, err)" by (cases "rs (N - Suc 0)")
  show ?thesis
    by (simp add: play_audio_def try_except_Exception_def bind_m_def loop r emit_def return_m_def)
qed

lemma play_audio_some_raise:
  assumes n: "play_times s = int N" and k: "k < N" "subprocess_run env k = Raise e"
  shows "\<not> (\<exists>x. fst (play_audio env s) = Return (True, x))"
proof -
  from k have "subprocess_run env (0 + k) = Raise e" by simp
  from play_loop_raises [OF k(1) this, of None s] n obtain e' s' where
    loop: "play_loop env (nat (play_times s)) 0 None s = (Raise e', s')" by auto
  show ?thesis
    by (simp add: play_audio_def try_except_Exception_def bind_m_def loop emit_def return_m_def)
qed

text \<open>
  C10. With a repeat count \<open>N\<close> of at least 1, \<open>play_audio\<close> reports success if and only
  if all \<open>N\<close> player processes run and the last one exits with status 0. When all of
  them run, what is returned and the one notification emitted after the \<open>N\<close> start
  notices depend on the last process alone: the exit status and the error text of an
  earlier repetition appear nowhere.
\<close>

theorem playback_success_is_last_exit_status:
  "1 \<le> N \<and> play_times s = int N \<longrightarrow>
     ((\<exists>x. fst (play_audio env s) = Return (True, x)) \<longleftrightarrow>
        (\<forall>i<N. \<exists>r. subprocess_run env i = Return r)
        \<and> (\<exists>err. subprocess_run env (N - 1) = Return (0, err)))
     \<and> ((\<forall>i<N. subprocess_run env i = Return (rs i)) \<longrightarrow>
          play_audio env s =
            (if fst (rs (N - 1)) = 0
             then (Return (True, None),
                   s\<lparr>emitted := emitted s @ map (play_start s) [0..<N]
                          @ [log_signal (PlayDone (play_times s) (play_interval s)) Info]\<rparr>)
             else (Return (False, Some (snd (rs (N - 1)))),
                   s\<lparr>emitted := emitted s @ map (play_start s) [0..<N]
                          @ [log_signal (PlayFailed (snd (rs (N - 1)))) Error]\<rparr>)))"
proof (intro impI conjI)
  assume a: "1 \<le> N \<and> play_times s = int N"
  then have n: "1 \<le> N" "play_times s = int N" by simp_all
  show "(\<exists>x. fst (play_audio env s) = Return (True, x)) \<longleftrightarrow>
        (\<forall>i<N. \<exists>r. subprocess_run env i = Return r)
        \<and> (\<exists>err. subprocess_run env (N - 1) = Return (0, err))"
  proof (cases "\<forall>i<N. \<exists>r. subprocess_run env i = Return r")
    case True
    define out where "out i = (case subprocess_run env i of Return r \<Rightarrow> r)" for i
    have out: "\<forall>i<N. subprocess_run env i = Return (out i)"
      using True by (auto simp: out_def)
    have last: "subprocess_run env (N - 1) = Return (out (N - 1))"
      using out n(1) by simp
    have "(\<exists>x. fst (play_audio env s) = Return (True, x)) \<longleftrightarrow> fst (out (N - 1)) = 0"
      by (simp add: play_audio_all_return [OF n out])
    also have "\<dots> \<longleftrightarrow> (\<exists>err. subprocess_run env (N - 1) = Return (0, err))"
      using last by (cases "out (N - 1)") auto
    finally show ?thesis using True by simp
  next
    case False
    then obtain k where k: "k < N" "\<forall>r. subprocess_run env k \<noteq> Return r" by blast
    then obtain e where "subprocess_run env k = Raise e"
      by (cases "subprocess_run env k") auto
    from play_audio_some_raise [OF n(2) k(1) this] False show ?thesis by blast
  qed
next
  assume "1 \<le> N \<and> play_times s = int N" "\<forall>i<N. subprocess_run env i = Return (rs i)"
  then show "play_audio env s =
            (if fst (rs (N - 1)) = 0
             then (Return (True, None),
                   s\<lparr>emitted := emitted s @ map (play_start s) [0..<N]
                          @ [log_signal (PlayDone (play_times s) (play_interval s)) Info]\<rparr>)
             else (Return (False, Some (snd (rs (N - 1)))),
                   s\<lparr>emitted := emitted s @ map (play_start s) [0..<N]
                          @ [log_signal (PlayFailed (snd (rs (N - 1)))) Error]\<rparr>))"
    using play_audio_all_return by blast
qed

theorem playback_success_is_last_exit_status_witness:
  "play_audio (quiet_env\<lparr>subprocess_run := failing_then_playing\<rparr>) (plain_worker\<lparr>play_times := 2\<rparr>)
     = (Return (True, None),
        plain_worker\<lparr>play_times := 2,
          emitted := [log_signal (PlayStart 1 2 0.3) Info, log_signal (PlayStart 2 2 0.3) Info,
                      log_signal (PlayDone 2 0.3) Info]\<rparr>)"
proof -
  let ?env = "quiet_env\<lparr>subprocess_run := failing_then_playing\<rparr>"
  let ?s = "plain_worker\<lparr>play_times := 2\<rparr>"
  have n: "1 \<le> (2::nat) \<and> play_times ?s = int 2" by simp
  have rs: "\<forall>i<2. subprocess_run ?env i = Return (failing_then_playing_out i)"
    by (simp add: failing_then_playing_def failing_then_playing_out_def)
  have up: "[0..<2] = [0, Suc 0]" by (simp add: upt_conv_Cons)
  from playback_success_is_last_exit_status [of 2 ?s ?env failing_then_playing_out] n rs
  have "play_audio ?env ?s =
            (if fst (failing_then_playing_out (2 - 1)) = 0
             then (Return (True, None),
                   ?s\<lparr>emitted := emitted ?s @ map (play_start ?s) [0..<2]
                          @ [log_signal (PlayDone (play_times ?s) (play_interval ?s)) Info]\<rparr>)
             else (Return (False, Some (snd (failing_then_playing_out (2 - 1)))),
                   ?s\<lparr>emitted := emitted ?s @ map (play_start ?s) [0..<2]
                          @ [log_signal (PlayFailed (snd (failing_then_playing_out (2 - 1)))) Error]\<rparr>))"
    by blast
  then show ?thesis
    by (simp add: failing_then_playing_out_def play_start_def plain_worker_def new_worker_def up)
qed

section \<open>Properties of the enrichment\<close>

lemma translate_word_caught:
  assumes "\<forall>e. tr (normal_form w) = Raise e \<longrightarrow> is_Exception e"
  shows "translate_word tr w acc s =
           (Return (acc @ [word_pair tr w]), s\<lparr>emitted := emitted s @ [word_log tr w]\<rparr>)"
  using assms
  by (cases "tr (normal_form w)")
    (simp_all add: translate_word_def try_except_Exception_def bind_m_def lift_def emit_def
      return_m_def word_pair_def word_log_def)

lemma translate_words_caught:
  assumes "\<forall>w \<in> set ws. \<forall>e. tr (normal_form w) = Raise e \<longrightarrow> is_Exception e"
  shows "translate_words tr ws acc s =
           (Return (acc @ map (word_pair tr) ws),
            s\<lparr>emitted := emitted s @ map (word_log tr) ws\<rparr>)"
  using assms
proof (induction ws arbitrary: acc s)
  case Nil
  then show ?case by simp
next
  case (Cons w ws)
  from Cons.prems have w: "\<forall>e. tr (normal_form w) = Raise e \<longrightarrow> is_Exception e"
    and ws: "\<forall>w \<in> set ws. \<forall>e. tr (normal_form w) = Raise e \<longrightarrow> is_Exception e"
    by simp_all
  show ?case
    by (simp add: translate_word_caught [where tr = tr and w = w, OF w] Cons.IH [OF ws])
qed

lemma translate_analysed_words_caught:
  assumes "translator s = Some tr"
    and "\<forall>w \<in> set wa. \<forall>e. tr (normal_form w) = Raise e \<longrightarrow> is_Exception e"
  shows "translate_analysed_words wa s =
           (Return (map (word_pair tr) wa), s\<lparr>emitted := emitted s @ map (word_log tr) wa\<rparr>)"
proof (cases "wa = []")
  case True
  then show ?thesis by (simp add: translate_analysed_words_def return_m_def)
next
  case False
  with assms(1) have "translate_analysed_words wa s = translate_words tr wa [] s"
    by (simp add: translate_analysed_words_def)
  then show ?thesis using translate_words_caught [OF assms(2), of "[]" s] by simp
qed

lemma nx_pointwise:
  assumes "\<And>s. \<exists>g. no_Exception g \<and> f s = g s"
  shows "no_Exception f"
proof (rule nxI)
  fix s e s' assume f: "f s = (Raise e, s')"
  from assms obtain g where g: "no_Exception g" "f s = g s" by blast
  with f have "g s = (Raise e, s')" by simp
  then show "\<not> is_Exception e" by (rule nxD [OF g(1)])
qed

lemma nx_warn_and_return:
  "no_Exception (try_except_Exception f (\<lambda>e. bind_m (emit (x e)) (\<lambda>_. return_m (y e))))"
  by (intro nx_try nx_bind nx_emit nx_return)

lemma nx_guarded:
  assumes "\<And>s. f s = (if c s then return_m d s
                        else try_except_Exception (F s)
                               (\<lambda>e. bind_m (emit (x e)) (\<lambda>_. return_m (y e))) s)"
  shows "no_Exception f"
proof (rule nx_pointwise)
  fix s
  show "\<exists>g. no_Exception g \<and> f s = g s"
  proof (cases "c s")
    case True
    with assms have eq: "f s = return_m d s" by simp
    show ?thesis
    proof (intro exI conjI)
      show "no_Exception (return_m d :: ('a, 'b) stm)" by (rule nx_return)
      show "f s = return_m d s" by (rule eq)
    qed
  next
    case False
    with assms have eq: "f s = try_except_Exception (F s)
        (\<lambda>e. bind_m (emit (x e)) (\<lambda>_. return_m (y e))) s" by simp
    show ?thesis
    proof (intro exI conjI)
      show "no_Exception (try_except_Exception (F s)
        (\<lambda>e. bind_m (emit (x e)) (\<lambda>_. return_m (y e))))" by (rule nx_warn_and_return)
      show "f s = try_except_Exception (F s)
        (\<lambda>e. bind_m (emit (x e)) (\<lambda>_. return_m (y e))) s" by (rule eq)
    qed
  qed
qed

lemma nx_add_stress_marks: "no_Exception (add_stress_marks text)"
  by (rule nx_guarded) (rule add_stress_marks_def)

lemma nx_translate_russian: "no_Exception (translate_russian text)"
  by (rule nx_guarded) (rule translate_russian_def)

lemma nx_morphological_analysis: "no_Exception (morphological_analysis text)"
  by (rule nx_guarded) (rule morphological_analysis_def [unfolded Let_def])

lemma nx_translate_word: "no_Exception (translate_word tr w acc)"
  unfolding translate_word_def by (rule nx_warn_and_return)

lemma nx_translate_words: "no_Exception (translate_words tr ws acc)"
proof (induction ws arbitrary: acc)
  case Nil
  show ?case by (rule nxI) simp
next
  case (Cons w ws)
  show ?case unfolding translate_words_Cons
    by (rule nx_bind [OF nx_translate_word Cons])
qed

lemma nx_translate_analysed_words: "no_Exception (translate_analysed_words wa)"
proof (rule nx_pointwise)
  fix s
  show "\<exists>g. no_Exception g \<and> translate_analysed_words wa s = g s"
  proof (cases "wa \<noteq> [] \<and> translator s \<noteq> None")
    case True
    then have eq: "translate_analysed_words wa s = translate_words (the (translator s)) wa [] s"
      by (simp add: translate_analysed_words_def)
    show ?thesis
    proof (intro exI conjI)
      show "no_Exception (translate_words (the (translator s)) wa [])"
        by (rule nx_translate_words)
      show "translate_analysed_words wa s = translate_words (the (translator s)) wa [] s"
        by (rule eq)
    qed
  next
    case False
    then have eq: "translate_analysed_words wa s = return_m [] s"
      by (auto simp: translate_analysed_words_def)
    show ?thesis
    proof (intro exI conjI)
      show "no_Exception (return_m [] :: (ustring \<times> ustring) list m)" by (rule nx_return)
      show "translate_analysed_words wa s = return_m [] s" by (rule eq)
    qed
  qed
qed

lemma nx_enrich: "no_Exception (enrich text)"
  unfolding enrich_def
  by (intro nx_bind nx_case_prod nx_add_stress_marks nx_translate_russian
      nx_morphological_analysis nx_translate_analysed_words nx_assign nx_emit nx_return)

lemma translate_analysed_words_failing:
  assumes "translator s = Some (\<lambda>x. Raise (failure x))" "\<forall>x. is_Exception (failure x)"
  shows "translate_analysed_words wa s =
           (Return (map (\<lambda>w. (normal_form w, TRANSLATION_FAILED)) wa),
            s\<lparr>emitted := emitted s
                 @ map (\<lambda>w. log_signal (WordTranslationFailed (normal_form w)
                                          (failure (normal_form w))) Warning) wa\<rparr>)"
proof -
  have "\<forall>w \<in> set wa. \<forall>e. (\<lambda>x. Raise (failure x)) (normal_form w) = Raise e \<longrightarrow> is_Exception e"
    using assms(2) by auto
  from translate_analysed_words_caught [OF assms(1) this]
  show ?thesis by (simp add: word_pair_def word_log_def)
qed

lemma enrich_failing_translator:
  assumes tr: "translator s = Some (\<lambda>x. Raise (failure x))" "\<forall>x. is_Exception (failure x)"
    and st: "stress_mark_enabled s" "normalizer s = Some nz" "nz text = Return stressed"
    and mo: "morphology_enabled s" "morph_analyzer s = Some ma"
      "findall_russian_words text \<noteq> []"
      "analyse_words ma (findall_russian_words text) [] [] = Return (result_lines, word_analysis)"
  shows "enrich text s =
          (Return (stressed, True),
           s\<lparr>word_analysis_results := word_analysis,
             emitted := emitted s
               @ (if translation_enabled s
                  then [log_signal (TranslationFailed
                          (failure (if length text > 5000 then take 5000 text @ ELLIPSIS
                                    else text))) Warning]
                  else [])
               @ [result_signal text stressed [] (join NEWLINE result_lines)]
               @ map (\<lambda>w. log_signal (WordTranslationFailed (normal_form w)
                                        (failure (normal_form w))) Warning) word_analysis
               @ [word_analysis_signal
                    (map (\<lambda>w. (normal_form w, TRANSLATION_FAILED)) word_analysis)]\<rparr>)"
proof -
  have s1: "add_stress_marks text s = (Return (stressed, True), s)"
    using st by (simp add: add_stress_marks_def try_except_Exception_def bind_m_def lift_def
        return_m_def)
  define s2 where "s2 = s\<lparr>emitted := emitted s
               @ (if translation_enabled s
                  then [log_signal (TranslationFailed
                          (failure (if length text > 5000 then take 5000 text @ ELLIPSIS
                                    else text))) Warning]
                  else [])\<rparr>"
  have t2: "translate_russian text s = (Return ([], False), s2)"
    using tr by (simp add: translate_russian_def try_except_Exception_def bind_m_def lift_def
        return_m_def emit_def s2_def Let_def)
  have m3: "morphological_analysis text s2 = (Return (join NEWLINE result_lines, True, word_analysis), s2)"
    using mo by (simp add: morphological_analysis_def try_except_Exception_def bind_m_def lift_def
        return_m_def s2_def Let_def)
  define s4 where "s4 = s2\<lparr>emitted := emitted s2
        @ [result_signal text stressed [] (join NEWLINE result_lines)],
      word_analysis_results := word_analysis\<rparr>"
  have tr4: "translator s4 = Some (\<lambda>x. Raise (failure x))"
    using tr(1) by (simp add: s4_def s2_def)
  note w5 = translate_analysed_words_failing [OF tr4 tr(2), of word_analysis]
  have "enrich text s =
      (Return (stressed, True),
       s4\<lparr>emitted := emitted s4
            @ map (\<lambda>w. log_signal (WordTranslationFailed (normal_form w)
                                     (failure (normal_form w))) Warning) word_analysis
            @ [word_analysis_signal
                 (map (\<lambda>w. (normal_form w, TRANSLATION_FAILED)) word_analysis)]\<rparr>)"
    unfolding enrich_def
    by (simp add: bind_m_def s1 t2 m3 emit_def return_m_def s4_def [symmetric] w5)
  then show ?thesis by (simp add: s4_def s2_def)
qed

text \<open>
  C4. Whatever the tools do, neither the enrichment nor \<open>text_to_speech_russian\<close> as a
  whole raises an \<open>Exception\<close>. With a translator whose every call raises an \<open>Exception\<close>,
  a stress annotator that succeeds and a morphological analysis that succeeds, the
  enrichment returns, and the result signal it emits carries the stress-marked text and
  the report, with an empty translation; every analysed word is paired with the failure
  sentinel in the word signal.
\<close>

theorem enrichment_survives_failing_translator:
  "(\<forall>t e t'. enrich text t = (Raise e, t') \<longrightarrow> \<not> is_Exception e)
   \<and> (\<forall>env t e t'. text_to_speech_russian env text t = (Raise e, t') \<longrightarrow> \<not> is_Exception e)
   \<and> (translator s = Some (\<lambda>x. Raise (failure x)) \<and> (\<forall>x. is_Exception (failure x))
      \<and> stress_mark_enabled s \<and> normalizer s = Some nz \<and> nz text = Return stressed
      \<and> morphology_enabled s \<and> morph_analyzer s = Some ma
      \<and> findall_russian_words text \<noteq> []
      \<and> analyse_words ma (findall_russian_words text) [] [] = Return (result_lines, word_analysis)
      \<longrightarrow> enrich text s =
          (Return (stressed, True),
           s\<lparr>word_analysis_results := word_analysis,
             emitted := emitted s
               @ (if translation_enabled s
                  then [log_signal (TranslationFailed
                          (failure (if length text > 5000 then take 5000 text @ ELLIPSIS
                                    else text))) Warning]
                  else [])
               @ [result_signal text stressed [] (join NEWLINE result_lines)]
               @ map (\<lambda>w. log_signal (WordTranslationFailed (normal_form w)
                                        (failure (normal_form w))) Warning) word_analysis
               @ [word_analysis_signal
                    (map (\<lambda>w. (normal_form w, TRANSLATION_FAILED)) word_analysis)]\<rparr>))"
proof (intro conjI allI impI)
  fix t e t' assume "enrich text t = (Raise e, t')"
  then show "\<not> is_Exception e" by (rule nxD [OF nx_enrich])
next
  fix env t e t' assume "text_to_speech_russian env text t = (Raise e, t')"
  then show "\<not> is_Exception e" by (rule nxD [OF nx_text_to_speech_russian])
next
  assume "translator s = Some (\<lambda>x. Raise (failure x)) \<and> (\<forall>x. is_Exception (failure x))
      \<and> stress_mark_enabled s \<and> normalizer s = Some nz \<and> nz text = Return stressed
      \<and> morphology_enabled s \<and> morph_analyzer s = Some ma
      \<and> findall_russian_words text \<noteq> []
      \<and> analyse_words ma (findall_russian_words text) [] [] = Return (result_lines, word_analysis)"
  then show "enrich text s =
          (Return (stressed, True),
           s\<lparr>word_analysis_results := word_analysis,
             emitted := emitted s
               @ (if translation_enabled s
                  then [log_signal (TranslationFailed
                          (failure (if length text > 5000 then take 5000 text @ ELLIPSIS
                                    else text))) Warning]
                  else [])
               @ [result_signal text stressed [] (join NEWLINE result_lines)]
               @ map (\<lambda>w. log_signal (WordTranslationFailed (normal_form w)
                                        (failure (normal_form w))) Warning) word_analysis
               @ [word_analysis_signal
                    (map (\<lambda>w. (normal_form w, TRANSLATION_FAILED)) word_analysis)]\<rparr>)"
    by (intro enrich_failing_translator) blast+
qed

lemma findall_da: "findall_russian_words [0x434, 0x430] = [[0x434, 0x430]]"
  by (simp add: findall_russian_words_def is_russian_letter_def)

lemma noun_label: "gram_get [0x4E, 0x4F, 0x55, 0x4E] = [0x540D, 0x8BCD]"
  by (simp add: gram_get_def GRAM_MAP_def)

lemma analyse_word_da:
  "analyse_word demo_analyzer [0x434, 0x430] =
     Return ([0x434, 0x430, 0x28, 0x540D, 0x8BCD, 0x29, 0x20, 0x2192, 0x3010, 0x539F, 0x5F62,
               0x3011, 0x20, 0x434, 0x430],
             \<lparr> original = [0x434, 0x430], normal_form = [0x434, 0x430],
                tag_cn = [0x540D, 0x8BCD] \<rparr>)"
  by (simp add: analyse_word_def demo_analyzer_def tag_to_cn_def noun_label OPEN_PAREN_def
      ARROW_NORMAL_FORM_def WIDE_COMMA_def)

lemma analyse_da:
  "analyse_words demo_analyzer [[0x434, 0x430]] [] [] =
     Return ([[0x434, 0x430, 0x28, 0x540D, 0x8BCD, 0x29, 0x20, 0x2192, 0x3010, 0x539F, 0x5F62,
               0x3011, 0x20, 0x434, 0x430]],
             [\<lparr> original = [0x434, 0x430], normal_form = [0x434, 0x430],
                tag_cn = [0x540D, 0x8BCD] \<rparr>])"
  by (simp add: analyse_word_da)

theorem enrichment_survives_failing_translator_witness:
  "enrich [0x434, 0x430] tooled_worker =
     (Return ([0x434, 0x430, 0x301], True),
      tooled_worker
        \<lparr>word_analysis_results :=
           [\<lparr> original = [0x434, 0x430], normal_form = [0x434, 0x430],
              tag_cn = [0x540D, 0x8BCD] \<rparr>],
         emitted :=
           [log_signal (TranslationFailed (PyExn OtherException [0x434, 0x430])) Warning,
            result_signal [0x434, 0x430] [0x434, 0x430, 0x301] []
              [0x434, 0x430, 0x28, 0x540D, 0x8BCD, 0x29, 0x20, 0x2192, 0x3010, 0x539F, 0x5F62,
               0x3011, 0x20, 0x434, 0x430],
            log_signal (WordTranslationFailed [0x434, 0x430]
                          (PyExn OtherException [0x434, 0x430])) Warning,
            word_analysis_signal [([0x434, 0x430], TRANSLATION_FAILED)]]\<rparr>)"
proof -
  have h: "translator tooled_worker = Some (\<lambda>x. Raise (translator_failure x))
      \<and> (\<forall>x. is_Exception (translator_failure x))
      \<and> stress_mark_enabled tooled_worker \<and> normalizer tooled_worker = Some demo_normalizer
      \<and> demo_normalizer [0x434, 0x430] = Return [0x434, 0x430, 0x301]
      \<and> morphology_enabled tooled_worker \<and> morph_analyzer tooled_worker = Some demo_analyzer
      \<and> findall_russian_words [0x434, 0x430] \<noteq> []
      \<and> analyse_words demo_analyzer (findall_russian_words [0x434, 0x430]) [] [] =
          Return ([[0x434, 0x430, 0x28, 0x540D, 0x8BCD, 0x29, 0x20, 0x2192, 0x3010, 0x539F, 0x5F62,
               0x3011, 0x20, 0x434, 0x430]],
             [\<lparr> original = [0x434, 0x430], normal_form = [0x434, 0x430],
                tag_cn = [0x540D, 0x8BCD] \<rparr>])"
    by (simp add: tooled_worker_def plain_worker_def new_worker_def findall_da analyse_word_da
        demo_normalizer_def translator_failure_def is_Exception_def fun_eq_iff
        failing_translator_def)
  from enrichment_survives_failing_translator
    [of "[0x434, 0x430]" tooled_worker translator_failure demo_normalizer
      "[0x434, 0x430, 0x301]" demo_analyzer
      "[[0x434, 0x430, 0x28, 0x540D, 0x8BCD, 0x29, 0x20, 0x2192, 0x3010,
               0x539F, 0x5F62, 0x3011, 0x20, 0x434, 0x430]]"
      "[\<lparr> original = [0x434, 0x430], normal_form = [0x434, 0x430],
                tag_cn = [0x540D, 0x8BCD] \<rparr>]"] h
  have "enrich [0x434, 0x430] tooled_worker =
          (Return ([0x434, 0x430, 0x301], True),
           tooled_worker\<lparr>word_analysis_results := [\<lparr> original = [0x434, 0x430], normal_form = [0x434, 0x430],
                tag_cn = [0x540D, 0x8BCD] \<rparr>],
             emitted := emitted tooled_worker
               @ (if translation_enabled tooled_worker
                  then [log_signal (TranslationFailed
                          (translator_failure (if length [0x434, 0x430 :: nat] > 5000 then take 5000 [0x434, 0x430] @ ELLIPSIS
                                    else [0x434, 0x430]))) Warning]
                  else [])
               @ [result_signal [0x434, 0x430] [0x434, 0x430, 0x301] [] (join NEWLINE [[0x434, 0x430, 0x28, 0x540D, 0x8BCD, 0x29, 0x20, 0x2192, 0x3010,
               0x539F, 0x5F62, 0x3011, 0x20, 0x434, 0x430]])]
               @ map (\<lambda>w. log_signal (WordTranslationFailed (normal_form w)
                                        (translator_failure (normal_form w))) Warning) [\<lparr> original = [0x434, 0x430], normal_form = [0x434, 0x430],
                tag_cn = [0x540D, 0x8BCD] \<rparr>]
               @ [word_analysis_signal
                    (map (\<lambda>w. (normal_form w, TRANSLATION_FAILED)) [\<lparr> original = [0x434, 0x430], normal_form = [0x434, 0x430],
                tag_cn = [0x540D, 0x8BCD] \<rparr>])]\<rparr>)"
    by blast
  then show ?thesis
    by (simp add: tooled_worker_def plain_worker_def new_worker_def translator_failure_def)
qed

section \<open>Properties of the speech synthesis and its fallback\<close>

lemmas audio_defs =
  synthesize_enhanced_def gtts_save_def from_file_def apply_gain_def normalize_audio_def
  export_audio_def remove_if_exists_def bind_m_def

lemma synthesize_enhanced_steps:
  "(gtts_error env tws TEMP_PATH = Some e \<longrightarrow> synthesize_enhanced env tws s = (Raise e, s))
   \<and> (gtts_error env tws TEMP_PATH = None
        \<and> (from_file_error env TEMP_PATH = Some e
           \<or> from_file_error env TEMP_PATH = None
             \<and> (gain_error env (Speech tws) (audio_gain_db s) = Some e
                \<or> gain_error env (Speech tws) (audio_gain_db s) = None
                  \<and> normalize_error env (Gained (Speech tws) (audio_gain_db s)) = Some e))
      \<longrightarrow> synthesize_enhanced env tws s
            = (Raise e, s\<lparr>files := (files s)(TEMP_PATH \<mapsto> Speech tws)\<rparr>))
   \<and> (gtts_error env tws TEMP_PATH = None \<and> from_file_error env TEMP_PATH = None
        \<and> gain_error env (Speech tws) (audio_gain_db s) = None
        \<and> normalize_error env (Gained (Speech tws) (audio_gain_db s)) = None
        \<and> export_error env (Normalized (Gained (Speech tws) (audio_gain_db s))) AUDIO_FILE_PATH
            = None
        \<and> remove_error env TEMP_PATH = None
      \<longrightarrow> synthesize_enhanced env tws s
            = (Return (), s\<lparr>files := (files s)
                 (TEMP_PATH := None,
                  AUDIO_FILE_PATH \<mapsto> Normalized (Gained (Speech tws) (audio_gain_db s)))\<rparr>))"
  by (auto simp: audio_defs fun_upd_twist)

lemma synthesize_enhanced_silent:
  assumes "synthesize_enhanced env tws s = (r, s')"
  shows "emitted s' = emitted s"
proof -
  have "emits (\<lambda>_. False) (synthesize_enhanced env tws)"
    by (rule emits_synthesize_enhanced)
  from emitsD(2) [OF this assms] obtain new where
    "emitted s' = emitted s @ new" "list_all (\<lambda>_. False) new" by blast
  then show ?thesis by (cases new) simp_all
qed

lemma speech_after_enrichment:
  assumes en: "enrich text s = (Return (tws, sa), s1)"
  shows "(\<forall>s2. synthesize_enhanced env tws s1 = (Return (), s2) \<longrightarrow>
            text_to_speech_russian env text s = (Return (True, sa), s2))
         \<and> (\<forall>e s2. synthesize_enhanced env tws s1 = (Raise e, s2) \<and> is_Exception e \<longrightarrow>
              text_to_speech_russian env text s =
                (case gtts_error env text AUDIO_FILE_PATH of
                   None \<Rightarrow>
                     (Return (True, False),
                      s2\<lparr>files := (files s2)(AUDIO_FILE_PATH \<mapsto> Speech text),
                         emitted := emitted s2 @ [log_signal (EnhanceFallback e) Warning]\<rparr>)
                 | Some e' \<Rightarrow>
                     (Return (False, False),
                      s2\<lparr>emitted := emitted s2 @ [log_signal (EnhanceFallback e) Warning,
                                                   log_signal (SynthesisFailed e) Error]\<rparr>)))"
proof (intro conjI allI impI)
  fix s2 assume "synthesize_enhanced env tws s1 = (Return (), s2)"
  then show "text_to_speech_russian env text s = (Return (True, sa), s2)"
    by (simp add: text_to_speech_russian_def enrich_and_synthesize_def try_except_Exception_def
        bind_m_def en return_m_def)
next
  fix e s2 assume a: "synthesize_enhanced env tws s1 = (Raise e, s2) \<and> is_Exception e"
  then have "enrich_and_synthesize env text s = (Raise e, s2)"
    by (simp add: enrich_and_synthesize_def bind_m_def en)
  with a show "text_to_speech_russian env text s =
                (case gtts_error env text AUDIO_FILE_PATH of
                   None \<Rightarrow>
                     (Return (True, False),
                      s2\<lparr>files := (files s2)(AUDIO_FILE_PATH \<mapsto> Speech text),
                         emitted := emitted s2 @ [log_signal (EnhanceFallback e) Warning]\<rparr>)
                 | Some e' \<Rightarrow>
                     (Return (False, False),
                      s2\<lparr>emitted := emitted s2 @ [log_signal (EnhanceFallback e) Warning,
                                                   log_signal (SynthesisFailed e) Error]\<rparr>))"
    by (simp add: text_to_speech_russian_def try_except_Exception_def try_except_all_def
        bind_m_def emit_def gtts_save_def return_m_def split: option.splits)
qed

lemma enrich_no_error_level:
  assumes "enrich text s = (r, s1)"
  shows "list_all not_error (drop (length (emitted s)) (emitted s1))"
proof -
  from emitsD(2) [OF emits_enrich assms] obtain new where
    "emitted s1 = emitted s @ new" "list_all not_error new" by blast
  then show ?thesis by simp
qed

text \<open>
  C6. Once the enrichment has returned the text to speak, \<open>text_to_speech_russian\<close>
  reports success with the enhanced file when every step of the enhanced synthesis
  succeeds. When a step fails with an \<open>Exception\<close> (synthesis to the temporary file, loading,
  gain, normalisation, and also export or removal of the temporary file), the enhancement
  is abandoned: after a warning, speech for the original text is synthesised straight to
  the final path, and the method reports success without stress when that works; when
  the second synthesis fails too, it reports failure and emits the one error-level
  notification. The enrichment emits no error-level notification and the enhanced
  synthesis emits nothing, so that notification appears only when both attempts fail.
\<close>

theorem enhancement_failure_falls_back_to_plain_speech:
  "enrich text s = (Return (tws, sa), s1) \<longrightarrow>
     (\<forall>s2. synthesize_enhanced env tws s1 = (Return (), s2) \<longrightarrow>
            text_to_speech_russian env text s = (Return (True, sa), s2))
     \<and> (\<forall>e s2. synthesize_enhanced env tws s1 = (Raise e, s2) \<and> is_Exception e \<longrightarrow>
              text_to_speech_russian env text s =
                (case gtts_error env text AUDIO_FILE_PATH of
                   None \<Rightarrow>
                     (Return (True, False),
                      s2\<lparr>files := (files s2)(AUDIO_FILE_PATH \<mapsto> Speech text),
                         emitted := emitted s2 @ [log_signal (EnhanceFallback e) Warning]\<rparr>)
                 | Some e' \<Rightarrow>
                     (Return (False, False),
                      s2\<lparr>emitted := emitted s2 @ [log_signal (EnhanceFallback e) Warning,
                                                   log_signal (SynthesisFailed e) Error]\<rparr>)))
     \<and> (\<forall>e. gtts_error env tws TEMP_PATH = Some e \<longrightarrow>
            synthesize_enhanced env tws s1 = (Raise e, s1))
     \<and> (\<forall>e. gtts_error env tws TEMP_PATH = None
            \<and> (from_file_error env TEMP_PATH = Some e
               \<or> from_file_error env TEMP_PATH = None
                 \<and> (gain_error env (Speech tws) (audio_gain_db s1) = Some e
                    \<or> gain_error env (Speech tws) (audio_gain_db s1) = None
                      \<and> normalize_error env (Gained (Speech tws) (audio_gain_db s1)) = Some e))
          \<longrightarrow> synthesize_enhanced env tws s1
                = (Raise e, s1\<lparr>files := (files s1)(TEMP_PATH \<mapsto> Speech tws)\<rparr>))
     \<and> (gtts_error env tws TEMP_PATH = None \<and> from_file_error env TEMP_PATH = None
          \<and> gain_error env (Speech tws) (audio_gain_db s1) = None
          \<and> normalize_error env (Gained (Speech tws) (audio_gain_db s1)) = None
          \<and> export_error env (Normalized (Gained (Speech tws) (audio_gain_db s1))) AUDIO_FILE_PATH
              = None
          \<and> remove_error env TEMP_PATH = None
        \<longrightarrow> synthesize_enhanced env tws s1
              = (Return (), s1\<lparr>files := (files s1)
                   (TEMP_PATH := None,
                    AUDIO_FILE_PATH \<mapsto> Normalized (Gained (Speech tws) (audio_gain_db s1)))\<rparr>))
     \<and> (\<forall>r s2. synthesize_enhanced env tws s1 = (r, s2) \<longrightarrow> emitted s2 = emitted s1)
     \<and> list_all not_error (drop (length (emitted s)) (emitted s1))"
proof
  assume en: "enrich text s = (Return (tws, sa), s1)"
  note a = speech_after_enrichment [OF en, of env]
  note b = synthesize_enhanced_steps [of env tws _ s1]
  note c = synthesize_enhanced_silent [of env tws s1]
  note d = enrich_no_error_level [OF en]
  show "(\<forall>s2. synthesize_enhanced env tws s1 = (Return (), s2) \<longrightarrow>
            text_to_speech_russian env text s = (Return (True, sa), s2))
     \<and> (\<forall>e s2. synthesize_enhanced env tws s1 = (Raise e, s2) \<and> is_Exception e \<longrightarrow>
              text_to_speech_russian env text s =
                (case gtts_error env text AUDIO_FILE_PATH of
                   None \<Rightarrow>
                     (Return (True, False),
                      s2\<lparr>files := (files s2)(AUDIO_FILE_PATH \<mapsto> Speech text),
                         emitted := emitted s2 @ [log_signal (EnhanceFallback e) Warning]\<rparr>)
                 | Some e' \<Rightarrow>
                     (Return (False, False),
                      s2\<lparr>emitted := emitted s2 @ [log_signal (EnhanceFallback e) Warning,
                                                   log_signal (SynthesisFailed e) Error]\<rparr>)))
     \<and> (\<forall>e. gtts_error env tws TEMP_PATH = Some e \<longrightarrow>
            synthesize_enhanced env tws s1 = (Raise e, s1))
     \<and> (\<forall>e. gtts_error env tws TEMP_PATH = None
            \<and> (from_file_error env TEMP_PATH = Some e
               \<or> from_file_error env TEMP_PATH = None
                 \<and> (gain_error env (Speech tws) (audio_gain_db s1) = Some e
                    \<or> gain_error env (Speech tws) (audio_gain_db s1) = None
                      \<and> normalize_error env (Gained (Speech tws) (audio_gain_db s1)) = Some e))
          \<longrightarrow> synthesize_enhanced env tws s1
                = (Raise e, s1\<lparr>files := (files s1)(TEMP_PATH \<mapsto> Speech tws)\<rparr>))
     \<and> (gtts_error env tws TEMP_PATH = None \<and> from_file_error env TEMP_PATH = None
          \<and> gain_error env (Speech tws) (audio_gain_db s1) = None
          \<and> normalize_error env (Gained (Speech tws) (audio_gain_db s1)) = None
          \<and> export_error env (Normalized (Gained (Speech tws) (audio_gain_db s1))) AUDIO_FILE_PATH
              = None
          \<and> remove_error env TEMP_PATH = None
        \<longrightarrow> synthesize_enhanced env tws s1
              = (Return (), s1\<lparr>files := (files s1)
                   (TEMP_PATH := None,
                    AUDIO_FILE_PATH \<mapsto> Normalized (Gained (Speech tws) (audio_gain_db s1)))\<rparr>))
     \<and> (\<forall>r s2. synthesize_enhanced env tws s1 = (r, s2) \<longrightarrow> emitted s2 = emitted s1)
     \<and> list_all not_error (drop (length (emitted s)) (emitted s1))"
    using a b c d by (intro conjI allI) blast+
qed

theorem enhancement_failure_falls_back_to_plain_speech_witness:
  "text_to_speech_russian unreadable_env [0x434, 0x430] plain_worker =
     (Return (True, False),
      plain_worker
        \<lparr>files := [TEMP_PATH \<mapsto> Speech [0x434, 0x430], AUDIO_FILE_PATH \<mapsto> Speech [0x434, 0x430]],
         emitted := [result_signal [0x434, 0x430] [] [] [], word_analysis_signal [],
                     log_signal (EnhanceFallback load_failure) Warning]\<rparr>)
   \<and> text_to_speech_russian offline_env [0x434, 0x430] plain_worker =
     (Return (False, False),
      plain_worker
        \<lparr>emitted := [result_signal [0x434, 0x430] [] [] [], word_analysis_signal [],
                     log_signal (EnhanceFallback load_failure) Warning,
                     log_signal (SynthesisFailed load_failure) Error]\<rparr>)"
proof -
  define s1 where "s1 = plain_worker\<lparr>emitted := [result_signal [0x434, 0x430] [] [] [],
      word_analysis_signal []]\<rparr>"
  have en: "enrich [0x434, 0x430] plain_worker = (Return ([0x434, 0x430], False), s1)"
    by (simp add: eval_defs s1_def)
  have exc: "is_Exception load_failure"
    by (simp add: is_Exception_def load_failure_def)
  note U = enhancement_failure_falls_back_to_plain_speech
    [of "[0x434, 0x430]" plain_worker "[0x434, 0x430]" False s1 unreadable_env, THEN mp, OF en]
  have "gtts_error unreadable_env [0x434, 0x430] TEMP_PATH = None
      \<and> (from_file_error unreadable_env TEMP_PATH = Some load_failure
         \<or> from_file_error unreadable_env TEMP_PATH = None
           \<and> (gain_error unreadable_env (Speech [0x434, 0x430]) (audio_gain_db s1) = Some load_failure
              \<or> gain_error unreadable_env (Speech [0x434, 0x430]) (audio_gain_db s1) = None
                \<and> normalize_error unreadable_env (Gained (Speech [0x434, 0x430]) (audio_gain_db s1))
                    = Some load_failure))"
    by (simp add: unreadable_env_def quiet_env_def)
  with U have syn: "synthesize_enhanced unreadable_env [0x434, 0x430] s1
      = (Raise load_failure, s1\<lparr>files := (files s1)(TEMP_PATH \<mapsto> Speech [0x434, 0x430])\<rparr>)"
    by blast
  from U syn exc have
    "text_to_speech_russian unreadable_env [0x434, 0x430] plain_worker =
       (case gtts_error unreadable_env [0x434, 0x430] AUDIO_FILE_PATH of
          None \<Rightarrow>
            (Return (True, False),
             (s1\<lparr>files := (files s1)(TEMP_PATH \<mapsto> Speech [0x434, 0x430])\<rparr>)
               \<lparr>files := (files (s1\<lparr>files := (files s1)(TEMP_PATH \<mapsto> Speech [0x434, 0x430])\<rparr>))
                    (AUDIO_FILE_PATH \<mapsto> Speech [0x434, 0x430]),
                emitted := emitted (s1\<lparr>files := (files s1)(TEMP_PATH \<mapsto> Speech [0x434, 0x430])\<rparr>)
                    @ [log_signal (EnhanceFallback load_failure) Warning]\<rparr>)
        | Some e' \<Rightarrow>
            (Return (False, False),
             (s1\<lparr>files := (files s1)(TEMP_PATH \<mapsto> Speech [0x434, 0x430])\<rparr>)
               \<lparr>emitted := emitted (s1\<lparr>files := (files s1)(TEMP_PATH \<mapsto> Speech [0x434, 0x430])\<rparr>)
                    @ [log_signal (EnhanceFallback load_failure) Warning,
                       log_signal (SynthesisFailed load_failure) Error]\<rparr>))"
    by blast
  then have first: "text_to_speech_russian unreadable_env [0x434, 0x430] plain_worker =
     (Return (True, False),
      plain_worker
        \<lparr>files := [TEMP_PATH \<mapsto> Speech [0x434, 0x430], AUDIO_FILE_PATH \<mapsto> Speech [0x434, 0x430]],
         emitted := [result_signal [0x434, 0x430] [] [] [], word_analysis_signal [],
                     log_signal (EnhanceFallback load_failure) Warning]\<rparr>)"
    by (simp add: unreadable_env_def quiet_env_def s1_def plain_worker_def new_worker_def)
  note V = enhancement_failure_falls_back_to_plain_speech
    [of "[0x434, 0x430]" plain_worker "[0x434, 0x430]" False s1 offline_env, THEN mp, OF en]
  have "gtts_error offline_env [0x434, 0x430] TEMP_PATH = Some load_failure"
    by (simp add: offline_env_def quiet_env_def)
  with V have syn2: "synthesize_enhanced offline_env [0x434, 0x430] s1 = (Raise load_failure, s1)"
    by blast
  from V syn2 exc have
    "text_to_speech_russian offline_env [0x434, 0x430] plain_worker =
       (case gtts_error offline_env [0x434, 0x430] AUDIO_FILE_PATH of
          None \<Rightarrow>
            (Return (True, False),
             s1\<lparr>files := (files s1)(AUDIO_FILE_PATH \<mapsto> Speech [0x434, 0x430]),
                emitted := emitted s1 @ [log_signal (EnhanceFallback load_failure) Warning]\<rparr>)
        | Some e' \<Rightarrow>
            (Return (False, False),
             s1\<lparr>emitted := emitted s1 @ [log_signal (EnhanceFallback load_failure) Warning,
                                          log_signal (SynthesisFailed load_failure) Error]\<rparr>))"
    by blast
  then have second: "text_to_speech_russian offline_env [0x434, 0x430] plain_worker =
     (Return (False, False),
      plain_worker
        \<lparr>emitted := [result_signal [0x434, 0x430] [] [] [], word_analysis_signal [],
                     log_signal (EnhanceFallback load_failure) Warning,
                     log_signal (SynthesisFailed load_failure) Error]\<rparr>)"
    by (simp add: offline_env_def quiet_env_def s1_def)
  from first second show ?thesis by simp
qed

section \<open>Properties of the per-word translation\<close>

lemma translate_russian_disabled:
  "\<not> translation_enabled s \<Longrightarrow> translate_russian text s = (Return ([], False), s)"
  by (simp add: translate_russian_def return_m_def)

lemma translate_analysed_words_skipped:
  "wa = [] \<or> translator s = None \<Longrightarrow> translate_analysed_words wa s = (Return [], s)"
  by (auto simp: translate_analysed_words_def return_m_def)

lemma enrich_translation_disabled:
  assumes off: "\<not> translation_enabled s" and tr: "translator s = Some tr"
    and st: "add_stress_marks text s = (Return (tws, sa), s1)"
    and mo: "morphological_analysis text s1 = (Return (report, ok, wa), s2)"
    and ex: "\<forall>w \<in> set wa. \<forall>e. tr (normal_form w) = Raise e \<longrightarrow> is_Exception e"
  shows "enrich text s =
           (Return (tws, sa),
            s2\<lparr>word_analysis_results := wa,
               emitted := emitted s2
                 @ [result_signal text (if sa then tws else []) [] (if ok then report else [])]
                 @ map (word_log tr) wa
                 @ [word_analysis_signal (map (word_pair tr) wa)]\<rparr>)"
proof -
  note c1 = core_fields [OF emitsD(1) [OF emits_add_stress_marks st]]
  note c2 = core_fields [OF emitsD(1) [OF emits_morphological_analysis mo]]
  have t: "translate_russian text s1 = (Return ([], False), s1)"
    using off c1 by (simp add: translate_russian_disabled)
  define s3 where "s3 = s2\<lparr>emitted := emitted s2
        @ [result_signal text (if sa then tws else []) [] (if ok then report else [])],
      word_analysis_results := wa\<rparr>"
  have "translator s3 = Some tr"
    using tr c1 c2 by (simp add: s3_def)
  note w = translate_analysed_words_caught [OF this ex]
  have "enrich text s =
      (Return (tws, sa),
       s3\<lparr>emitted := emitted s3 @ map (word_log tr) wa
            @ [word_analysis_signal (map (word_pair tr) wa)]\<rparr>)"
    unfolding enrich_def
    by (simp add: bind_m_def st t mo emit_def return_m_def s3_def [symmetric] w)
  then show ?thesis by (simp add: s3_def)
qed

lemma init_tools_keeps_translator:
  assumes "init_tools libs s = (r, s')" "translator s = Some tr"
    "translation_enabled s \<longrightarrow> load_translator libs = Return tr"
  shows "translator s' = Some tr \<and> translation_enabled s' = translation_enabled s"
  using assms
  by (auto simp: init_tools_def bind_m_def try_except_Exception_def lift_def emit_def
      return_m_def split: if_splits res.splits prod.splits)

lemma init_tools_returns:
  assumes "\<forall>e. load_normalizer libs = Raise e \<longrightarrow> is_Exception e"
    "\<forall>e. load_translator libs = Raise e \<longrightarrow> is_Exception e"
    "\<forall>e. load_morph_analyzer libs = Raise e \<longrightarrow> is_Exception e"
  shows "\<exists>s'. init_tools libs s = (Return (), s')"
  using assms
  by (cases "load_normalizer libs"; cases "load_translator libs"; cases "load_morph_analyzer libs")
    (simp_all add: init_tools_def bind_m_def try_except_Exception_def lift_def emit_def
      return_m_def)

lemma init_tools_loads_translator:
  assumes "init_tools libs s = (Return (), s')" "translation_enabled s"
    "load_translator libs = Return tr"
  shows "translator s' = Some tr"
  using assms
  by (auto simp: init_tools_def bind_m_def try_except_Exception_def lift_def emit_def
      return_m_def split: if_splits res.splits prod.splits)

lemma translator_survives_disabling:
  assumes tr: "load_translator libs = Return tr"
    and nz: "\<forall>e. load_normalizer libs = Raise e \<longrightarrow> is_Exception e"
    and ma: "\<forall>e. load_morph_analyzer libs = Raise e \<longrightarrow> is_Exception e"
  shows "\<exists>s1 s2. init_worker libs fs = (Return (), s1)
           \<and> set_parameters libs reps pause poll cooldown gain se False me s1 = (Return (), s2)
           \<and> translator s2 = Some tr \<and> \<not> translation_enabled s2"
proof -
  have trx: "\<forall>e. load_translator libs = Raise e \<longrightarrow> is_Exception e" using tr by simp
  from init_tools_returns [OF nz trx ma] obtain s1 where
    1: "init_tools libs (new_worker fs) = (Return (), s1)" by blast
  have t1: "translator s1 = Some tr"
    by (rule init_tools_loads_translator [OF 1 _ tr]) (simp add: new_worker_def)
  define s1' where "s1' = s1\<lparr>play_times := reps, play_interval := pause, check_interval := poll,
      process_cooldown := cooldown, audio_gain_db := gain, stress_mark_enabled := se,
      translation_enabled := False, morphology_enabled := me\<rparr>"
  from init_tools_returns [OF nz trx ma] obtain s1'' where
    2: "init_tools libs s1' = (Return (), s1'')" by blast
  have "translator s1' = Some tr" "translation_enabled s1' \<longrightarrow> load_translator libs = Return tr"
    using t1 tr by (simp_all add: s1'_def)
  from init_tools_keeps_translator [OF 2 this]
  have t2: "translator s1'' = Some tr" "\<not> translation_enabled s1''"
    by (simp_all add: s1'_def)
  have "set_parameters libs reps pause poll cooldown gain se False me s1 =
      (Return (), s1''\<lparr>emitted := emitted s1'' @ [log_signal (ParametersUpdated reps pause) Info]\<rparr>)"
    using 2 by (simp add: set_parameters_def bind_m_def emit_def s1'_def)
  with 1 t2 show ?thesis by (simp add: init_worker_def)
qed

text \<open>
  C9. The per-word translation depends on two things only. With a translator object
  and a list of analysed words, every normal form is translated on its own and a word
  whose translation raises an \<open>Exception\<close> is paired with the failure sentinel; with no
  translator object or no analysed word the list of pairs is empty. The configuration
  flag is not consulted: when it is false the translation of the full text is skipped
  and the result signal carries an empty translation, while the enrichment still emits
  the word signal with every translated pair. Such a state arises in the program: the
  constructor loads the translator with the flag at its default, and \<open>set_parameters\<close>
  with the flag false leaves the translator object in place.
\<close>

theorem word_translation_ignores_translation_flag:
  "(translator s = Some tr
      \<and> (\<forall>w \<in> set wa. \<forall>e. tr (normal_form w) = Raise e \<longrightarrow> is_Exception e) \<longrightarrow>
      translate_analysed_words wa s =
        (Return (map (word_pair tr) wa), s\<lparr>emitted := emitted s @ map (word_log tr) wa\<rparr>))
   \<and> (wa = [] \<or> translator s = None \<longrightarrow> translate_analysed_words wa s = (Return [], s))
   \<and> (\<not> translation_enabled s \<longrightarrow> translate_russian text s = (Return ([], False), s))
   \<and> (\<not> translation_enabled s \<and> translator s = Some tr
        \<and> add_stress_marks text s = (Return (tws, sa), s1)
        \<and> morphological_analysis text s1 = (Return (report, ok, wa), s2)
        \<and> (\<forall>w \<in> set wa. \<forall>e. tr (normal_form w) = Raise e \<longrightarrow> is_Exception e) \<longrightarrow>
      enrich text s =
        (Return (tws, sa),
         s2\<lparr>word_analysis_results := wa,
            emitted := emitted s2
              @ [result_signal text (if sa then tws else []) [] (if ok then report else [])]
              @ map (word_log tr) wa
              @ [word_analysis_signal (map (word_pair tr) wa)]\<rparr>))
   \<and> (load_translator libs = Return tr
        \<and> (\<forall>e. load_normalizer libs = Raise e \<longrightarrow> is_Exception e)
        \<and> (\<forall>e. load_morph_analyzer libs = Raise e \<longrightarrow> is_Exception e) \<longrightarrow>
      (\<exists>t1 t2. init_worker libs fs = (Return (), t1)
         \<and> set_parameters libs reps pause poll cooldown gain se False me t1 = (Return (), t2)
         \<and> translator t2 = Some tr \<and> \<not> translation_enabled t2))"
proof (intro conjI impI)
  assume "translator s = Some tr
      \<and> (\<forall>w \<in> set wa. \<forall>e. tr (normal_form w) = Raise e \<longrightarrow> is_Exception e)"
  then show "translate_analysed_words wa s =
        (Return (map (word_pair tr) wa), s\<lparr>emitted := emitted s @ map (word_log tr) wa\<rparr>)"
    using translate_analysed_words_caught by blast
next
  assume "wa = [] \<or> translator s = None"
  then show "translate_analysed_words wa s = (Return [], s)"
    by (rule translate_analysed_words_skipped)
next
  assume "\<not> translation_enabled s"
  then show "translate_russian text s = (Return ([], False), s)"
    by (rule translate_russian_disabled)
next
  assume a: "\<not> translation_enabled s \<and> translator s = Some tr
        \<and> add_stress_marks text s = (Return (tws, sa), s1)
        \<and> morphological_analysis text s1 = (Return (report, ok, wa), s2)
        \<and> (\<forall>w \<in> set wa. \<forall>e. tr (normal_form w) = Raise e \<longrightarrow> is_Exception e)"
  show "enrich text s =
        (Return (tws, sa),
         s2\<lparr>word_analysis_results := wa,
            emitted := emitted s2
              @ [result_signal text (if sa then tws else []) [] (if ok then report else [])]
              @ map (word_log tr) wa
              @ [word_analysis_signal (map (word_pair tr) wa)]\<rparr>)"
    by (rule enrich_translation_disabled) (use a in blast)+
next
  assume "load_translator libs = Return tr
        \<and> (\<forall>e. load_normalizer libs = Raise e \<longrightarrow> is_Exception e)
        \<and> (\<forall>e. load_morph_analyzer libs = Raise e \<longrightarrow> is_Exception e)"
  then show "\<exists>t1 t2. init_worker libs fs = (Return (), t1)
         \<and> set_parameters libs reps pause poll cooldown gain se False me t1 = (Return (), t2)
         \<and> translator t2 = Some tr \<and> \<not> translation_enabled t2"
    using translator_survives_disabling by blast
qed

lemma configured_worker_tools:
  "stress_mark_enabled configured_worker" "normalizer configured_worker = Some demo_normalizer"
  "morphology_enabled configured_worker" "morph_analyzer configured_worker = Some demo_analyzer"
  by (simp_all add: configured_worker_def set_parameters_def init_worker_def init_tools_def
      new_worker_def demo_libs_def bind_m_def try_except_Exception_def lift_def emit_def
      return_m_def)

lemma analyse_word_demo:
  "analyse_word demo_analyzer word =
     Return (word @ [0x28, 0x540D, 0x8BCD, 0x29, 0x20, 0x2192, 0x3010, 0x539F, 0x5F62, 0x3011,
                     0x20] @ word,
             \<lparr> original = word, normal_form = word, tag_cn = [0x540D, 0x8BCD] \<rparr>)"
  by (simp add: analyse_word_def demo_analyzer_def tag_to_cn_def noun_label OPEN_PAREN_def
      ARROW_NORMAL_FORM_def WIDE_COMMA_def)

lemma findall_da_net:
  "findall_russian_words [0x434, 0x430, 0x20, 0x43D, 0x435, 0x442] = [[0x434, 0x430], [0x43D, 0x435, 0x442]]"
  by (simp add: findall_russian_words_def is_russian_letter_def)

theorem word_translation_ignores_translation_flag_witness:
  "translator configured_worker = Some picky_translator
   \<and> \<not> translation_enabled configured_worker
   \<and> enrich [0x434, 0x430, 0x20, 0x43D, 0x435, 0x442] configured_worker =
       (Return ([0x434, 0x430, 0x20, 0x43D, 0x435, 0x442, 0x301], True),
        configured_worker
          \<lparr>word_analysis_results :=
             [\<lparr> original = [0x434, 0x430], normal_form = [0x434, 0x430], tag_cn = [0x540D, 0x8BCD] \<rparr>,
       \<lparr> original = [0x43D, 0x435, 0x442], normal_form = [0x43D, 0x435, 0x442], tag_cn = [0x540D, 0x8BCD] \<rparr>],
           emitted := emitted configured_worker
             @ [result_signal [0x434, 0x430, 0x20, 0x43D, 0x435, 0x442] [0x434, 0x430, 0x20, 0x43D, 0x435, 0x442, 0x301] []
                  [0x434, 0x430, 0x28, 0x540D, 0x8BCD, 0x29, 0x20, 0x2192, 0x3010, 0x539F, 0x5F62, 0x3011, 0x20, 0x434, 0x430, 0xA, 0x43D, 0x435, 0x442, 0x28, 0x540D, 0x8BCD, 0x29, 0x20, 0x2192, 0x3010, 0x539F, 0x5F62, 0x3011, 0x20, 0x43D, 0x435, 0x442],
                log_signal (WordTranslation [0x434, 0x430] [0x434, 0x430] [0x662F]) Info,
                log_signal (WordTranslationFailed [0x43D, 0x435, 0x442]
                              (PyExn OtherException [0x43D, 0x435, 0x442])) Warning,
                word_analysis_signal
                  [([0x434, 0x430], [0x662F]), ([0x43D, 0x435, 0x442], TRANSLATION_FAILED)]]\<rparr>)"
proof -
  note T = word_translation_ignores_translation_flag
    [of configured_worker picky_translator
      "[\<lparr> original = [0x434, 0x430], normal_form = [0x434, 0x430], tag_cn = [0x540D, 0x8BCD] \<rparr>,
       \<lparr> original = [0x43D, 0x435, 0x442], normal_form = [0x43D, 0x435, 0x442], tag_cn = [0x540D, 0x8BCD] \<rparr>]"
      "[0x434, 0x430, 0x20, 0x43D, 0x435, 0x442]" "[0x434, 0x430, 0x20, 0x43D, 0x435, 0x442, 0x301]" True configured_worker
      "[0x434, 0x430, 0x28, 0x540D, 0x8BCD, 0x29, 0x20, 0x2192, 0x3010, 0x539F, 0x5F62, 0x3011, 0x20, 0x434, 0x430, 0xA, 0x43D, 0x435, 0x442, 0x28, 0x540D, 0x8BCD, 0x29, 0x20, 0x2192, 0x3010, 0x539F, 0x5F62, 0x3011, 0x20, 0x43D, 0x435, 0x442]"
      True configured_worker demo_libs Map.empty 1 "0.3" "0.5" 0 0 True True]
  have loads: "load_translator demo_libs = Return picky_translator
      \<and> (\<forall>e. load_normalizer demo_libs = Raise e \<longrightarrow> is_Exception e)
      \<and> (\<forall>e. load_morph_analyzer demo_libs = Raise e \<longrightarrow> is_Exception e)"
    by (simp add: demo_libs_def)
  with T obtain t1 t2 where t: "init_worker demo_libs Map.empty = (Return (), t1)"
    "set_parameters demo_libs 1 0.3 0.5 0 0 True False True t1 = (Return (), t2)"
    "translator t2 = Some picky_translator" "\<not> translation_enabled t2"
    by blast
  then have cw: "translator configured_worker = Some picky_translator"
    "\<not> translation_enabled configured_worker"
    by (simp_all add: configured_worker_def)
  have st: "add_stress_marks [0x434, 0x430, 0x20, 0x43D, 0x435, 0x442] configured_worker
      = (Return ([0x434, 0x430, 0x20, 0x43D, 0x435, 0x442, 0x301], True), configured_worker)"
    by (simp add: add_stress_marks_def configured_worker_tools try_except_Exception_def
        bind_m_def lift_def return_m_def demo_normalizer_def)
  have mo: "morphological_analysis [0x434, 0x430, 0x20, 0x43D, 0x435, 0x442] configured_worker
      = (Return ([0x434, 0x430, 0x28, 0x540D, 0x8BCD, 0x29, 0x20, 0x2192, 0x3010, 0x539F, 0x5F62, 0x3011, 0x20, 0x434, 0x430, 0xA, 0x43D, 0x435, 0x442, 0x28, 0x540D, 0x8BCD, 0x29, 0x20, 0x2192, 0x3010, 0x539F, 0x5F62, 0x3011, 0x20, 0x43D, 0x435, 0x442], True,
           [\<lparr> original = [0x434, 0x430], normal_form = [0x434, 0x430], tag_cn = [0x540D, 0x8BCD] \<rparr>,
       \<lparr> original = [0x43D, 0x435, 0x442], normal_form = [0x43D, 0x435, 0x442], tag_cn = [0x540D, 0x8BCD] \<rparr>]), configured_worker)"
    by (simp add: morphological_analysis_def configured_worker_tools try_except_Exception_def
        bind_m_def lift_def return_m_def findall_da_net analyse_word_demo NEWLINE_def)
  have ex: "\<forall>w \<in> set [\<lparr> original = [0x434, 0x430], normal_form = [0x434, 0x430], tag_cn = [0x540D, 0x8BCD] \<rparr>,
       \<lparr> original = [0x43D, 0x435, 0x442], normal_form = [0x43D, 0x435, 0x442], tag_cn = [0x540D, 0x8BCD] \<rparr>].
      \<forall>e. picky_translator (normal_form w) = Raise e \<longrightarrow> is_Exception e"
    by (simp add: picky_translator_def is_Exception_def)
  from T cw st mo ex have "enrich [0x434, 0x430, 0x20, 0x43D, 0x435, 0x442] configured_worker =
        (Return ([0x434, 0x430, 0x20, 0x43D, 0x435, 0x442, 0x301], True),
         configured_worker\<lparr>word_analysis_results := [\<lparr> original = [0x434, 0x430], normal_form = [0x434, 0x430], tag_cn = [0x540D, 0x8BCD] \<rparr>,
       \<lparr> original = [0x43D, 0x435, 0x442], normal_form = [0x43D, 0x435, 0x442], tag_cn = [0x540D, 0x8BCD] \<rparr>],
            emitted := emitted configured_worker
              @ [result_signal [0x434, 0x430, 0x20, 0x43D, 0x435, 0x442] (if True then [0x434, 0x430, 0x20, 0x43D, 0x435, 0x442, 0x301] else []) []
                   (if True then [0x434, 0x430, 0x28, 0x540D, 0x8BCD, 0x29, 0x20, 0x2192, 0x3010, 0x539F, 0x5F62, 0x3011, 0x20, 0x434, 0x430, 0xA, 0x43D, 0x435, 0x442, 0x28, 0x540D, 0x8BCD, 0x29, 0x20, 0x2192, 0x3010, 0x539F, 0x5F62, 0x3011, 0x20, 0x43D, 0x435, 0x442] else [])]
              @ map (word_log picky_translator) [\<lparr> original = [0x434, 0x430], normal_form = [0x434, 0x430], tag_cn = [0x540D, 0x8BCD] \<rparr>,
       \<lparr> original = [0x43D, 0x435, 0x442], normal_form = [0x43D, 0x435, 0x442], tag_cn = [0x540D, 0x8BCD] \<rparr>]
              @ [word_analysis_signal (map (word_pair picky_translator) [\<lparr> original = [0x434, 0x430], normal_form = [0x434, 0x430], tag_cn = [0x540D, 0x8BCD] \<rparr>,
       \<lparr> original = [0x43D, 0x435, 0x442], normal_form = [0x43D, 0x435, 0x442], tag_cn = [0x540D, 0x8BCD] \<rparr>])]\<rparr>)"
    by blast
  then have "enrich [0x434, 0x430, 0x20, 0x43D, 0x435, 0x442] configured_worker =
       (Return ([0x434, 0x430, 0x20, 0x43D, 0x435, 0x442, 0x301], True),
        configured_worker
          \<lparr>word_analysis_results :=
             [\<lparr> original = [0x434, 0x430], normal_form = [0x434, 0x430], tag_cn = [0x540D, 0x8BCD] \<rparr>,
       \<lparr> original = [0x43D, 0x435, 0x442], normal_form = [0x43D, 0x435, 0x442], tag_cn = [0x540D, 0x8BCD] \<rparr>],
           emitted := emitted configured_worker
             @ [result_signal [0x434, 0x430, 0x20, 0x43D, 0x435, 0x442] [0x434, 0x430, 0x20, 0x43D, 0x435, 0x442, 0x301] []
                  [0x434, 0x430, 0x28, 0x540D, 0x8BCD, 0x29, 0x20, 0x2192, 0x3010, 0x539F, 0x5F62, 0x3011, 0x20, 0x434, 0x430, 0xA, 0x43D, 0x435, 0x442, 0x28, 0x540D, 0x8BCD, 0x29, 0x20, 0x2192, 0x3010, 0x539F, 0x5F62, 0x3011, 0x20, 0x43D, 0x435, 0x442],
                log_signal (WordTranslation [0x434, 0x430] [0x434, 0x430] [0x662F]) Info,
                log_signal (WordTranslationFailed [0x43D, 0x435, 0x442]
                              (PyExn OtherException [0x43D, 0x435, 0x442])) Warning,
                word_analysis_signal
                  [([0x434, 0x430], [0x662F]), ([0x43D, 0x435, 0x442], TRANSLATION_FAILED)]]\<rparr>)"
    by (simp add: word_log_def word_pair_def picky_translator_def)
  with cw show ?thesis by simp
qed

section \<open>Properties of the word history\<close>

lemma setitem_keys:
  "map fst (setitem k v d) = (if k \<in> fst ` set d then map fst d else map fst d @ [k])"
  by (induction d) force+

lemma setitem_distinct:
  "distinct (map fst d) \<Longrightarrow> distinct (map fst (setitem k v d))"
  by (simp add: setitem_keys)

lemma setitem_others:
  "filter (\<lambda>p. fst p \<noteq> k) (setitem k v d) = filter (\<lambda>p. fst p \<noteq> k) d"
  by (induction d) auto

lemma filter_absent: "k \<notin> fst ` set d \<Longrightarrow> filter (\<lambda>p. fst p = k) d = []"
  by (induction d) auto

lemma setitem_single:
  "distinct (map fst d) \<Longrightarrow> filter (\<lambda>p. fst p = k) (setitem k v d) = [(k, v)]"
proof (induction d)
  case Nil
  then show ?case by simp
next
  case (Cons p d)
  obtain k' v' where p: "p = (k', v')" by (cases p)
  show ?case
  proof (cases "k' = k")
    case True
    with Cons.prems p have "k \<notin> fst ` set d" by auto
    with True p show ?thesis by (simp add: filter_absent)
  next
    case False
    with Cons p show ?thesis by simp
  qed
qed

lemma setitem_lookup: "map_of (setitem k v d) = (map_of d)(k \<mapsto> v)"
  by (induction d) (auto simp: fun_upd_twist)

lemma save_keeps_table: "word_history (snd (save_word_history io w)) = word_history w"
  by (auto simp: save_word_history_def try_except_Exception_def bind_m_def write_history_def
      log_message_def return_m_def split: option.splits prod.splits res.splits if_splits)

lemma save_writes_table:
  assumes "open_write_error io = None" "dump_error io = None"
  shows "history_file (snd (save_word_history io w)) = Some (pickle_dumps io (word_history w))"
    and "fst (save_word_history io w) = Return ()"
  using assms
  by (simp_all add: save_word_history_def try_except_Exception_def bind_m_def write_history_def
      log_message_def return_m_def)

lemma add_rejected:
  "word = [] \<or> translation = [] \<or> translation = TRANSLATION_FAILED \<Longrightarrow>
     add_word_to_history io word translation w = (Return (), w)"
  by (auto simp: add_word_to_history_def)

lemma add_accepted:
  assumes "word \<noteq> []" "translation \<noteq> []" "translation \<noteq> TRANSLATION_FAILED"
  shows "add_word_to_history io word translation w =
           save_word_history io (w\<lparr>word_history := setitem word translation (word_history w)\<rparr>)"
    and "word_history (snd (add_word_to_history io word translation w)) =
           setitem word translation (word_history w)"
    and "open_write_error io = None \<and> dump_error io = None \<longrightarrow>
           fst (add_word_to_history io word translation w) = Return ()
           \<and> history_file (snd (add_word_to_history io word translation w)) =
               Some (pickle_dumps io (setitem word translation (word_history w)))"
proof -
  show 1: "add_word_to_history io word translation w =
           save_word_history io (w\<lparr>word_history := setitem word translation (word_history w)\<rparr>)"
    using assms by (simp add: add_word_to_history_def)
  show "word_history (snd (add_word_to_history io word translation w)) =
           setitem word translation (word_history w)"
    unfolding 1 by (simp add: save_keeps_table)
  show "open_write_error io = None \<and> dump_error io = None \<longrightarrow>
           fst (add_word_to_history io word translation w) = Return ()
           \<and> history_file (snd (add_word_to_history io word translation w)) =
               Some (pickle_dumps io (setitem word translation (word_history w)))"
    unfolding 1 using save_writes_table [of io] by simp
qed

text \<open>
  C3. \<open>add_word_to_history\<close> does nothing when the word or the translation is empty or
  the translation is the failure sentinel. Otherwise it sets the entry of the word in
  the table and calls \<open>save_word_history\<close> at once, which writes the whole table to the
  file when the write succeeds. Setting an entry in a table with distinct keys keeps the
  keys distinct, leaves exactly one entry for the key, holding the new value, and leaves
  the other entries as they were; so two additions for the same word leave one entry
  with the later translation.
\<close>

theorem add_word_overwrites_and_persists:
  "(word = [] \<or> translation = [] \<or> translation = TRANSLATION_FAILED \<longrightarrow>
      add_word_to_history io word translation w = (Return (), w))
   \<and> (word \<noteq> [] \<and> translation \<noteq> [] \<and> translation \<noteq> TRANSLATION_FAILED \<longrightarrow>
        add_word_to_history io word translation w =
          save_word_history io (w\<lparr>word_history := setitem word translation (word_history w)\<rparr>)
        \<and> word_history (snd (add_word_to_history io word translation w)) =
            setitem word translation (word_history w)
        \<and> (open_write_error io = None \<and> dump_error io = None \<longrightarrow>
             fst (add_word_to_history io word translation w) = Return ()
             \<and> history_file (snd (add_word_to_history io word translation w)) =
                 Some (pickle_dumps io (setitem word translation (word_history w)))))
   \<and> (distinct (map fst d) \<longrightarrow>
        distinct (map fst (setitem k v d))
        \<and> filter (\<lambda>p. fst p = k) (setitem k v d) = [(k, v)]
        \<and> filter (\<lambda>p. fst p \<noteq> k) (setitem k v d) = filter (\<lambda>p. fst p \<noteq> k) d)
   \<and> (distinct (map fst (word_history w)) \<and> word \<noteq> []
        \<and> translation \<noteq> [] \<and> translation \<noteq> TRANSLATION_FAILED
        \<and> later \<noteq> [] \<and> later \<noteq> TRANSLATION_FAILED \<longrightarrow>
        filter (\<lambda>p. fst p = word)
          (word_history (snd (add_word_to_history io word later
                                (snd (add_word_to_history io word translation w)))))
          = [(word, later)])"
proof (intro conjI impI)
  assume "word = [] \<or> translation = [] \<or> translation = TRANSLATION_FAILED"
  then show "add_word_to_history io word translation w = (Return (), w)"
    by (rule add_rejected)
next
  assume a: "word \<noteq> [] \<and> translation \<noteq> [] \<and> translation \<noteq> TRANSLATION_FAILED"
  then have b: "word \<noteq> []" "translation \<noteq> []" "translation \<noteq> TRANSLATION_FAILED"
    by simp_all
  show "add_word_to_history io word translation w =
          save_word_history io (w\<lparr>word_history := setitem word translation (word_history w)\<rparr>)"
    by (rule add_accepted(1) [OF b])
  show "word_history (snd (add_word_to_history io word translation w)) =
            setitem word translation (word_history w)"
    by (rule add_accepted(2) [OF b])
  assume "open_write_error io = None \<and> dump_error io = None"
  with add_accepted(3) [OF b, of io w]
  show "fst (add_word_to_history io word translation w) = Return ()"
    and "history_file (snd (add_word_to_history io word translation w)) =
                 Some (pickle_dumps io (setitem word translation (word_history w)))"
    by simp_all
next
  assume d: "distinct (map fst d)"
  show "distinct (map fst (setitem k v d))" by (rule setitem_distinct [OF d])
  show "filter (\<lambda>p. fst p = k) (setitem k v d) = [(k, v)]" by (rule setitem_single [OF d])
  show "filter (\<lambda>p. fst p \<noteq> k) (setitem k v d) = filter (\<lambda>p. fst p \<noteq> k) d"
    by (rule setitem_others)
next
  assume a: "distinct (map fst (word_history w)) \<and> word \<noteq> []
        \<and> translation \<noteq> [] \<and> translation \<noteq> TRANSLATION_FAILED
        \<and> later \<noteq> [] \<and> later \<noteq> TRANSLATION_FAILED"
  let ?w1 = "snd (add_word_to_history io word translation w)"
  from a have b: "word \<noteq> []" "translation \<noteq> []" "translation \<noteq> TRANSLATION_FAILED"
    and c: "later \<noteq> []" "later \<noteq> TRANSLATION_FAILED"
    and d: "distinct (map fst (word_history w))" by simp_all
  have 1: "word_history ?w1 = setitem word translation (word_history w)"
    by (rule add_accepted(2) [OF b])
  have 2: "word_history (snd (add_word_to_history io word later ?w1))
      = setitem word later (word_history ?w1)"
    by (rule add_accepted(2) [OF b(1) c])
  have "distinct (map fst (word_history ?w1))"
    unfolding 1 by (rule setitem_distinct [OF d])
  then show "filter (\<lambda>p. fst p = word)
          (word_history (snd (add_word_to_history io word later ?w1))) = [(word, later)]"
    unfolding 2 by (rule setitem_single)
qed

theorem add_word_overwrites_and_persists_witness:
  "add_word_to_history toy_pickle slovo TRANSLATION_FAILED empty_window = (Return (), empty_window)
   \<and> word_history (snd (add_word_to_history toy_pickle slovo [0x77, 0x6F, 0x72, 0x64] empty_window))
       = [(slovo, [0x77, 0x6F, 0x72, 0x64])]
   \<and> history_file (snd (add_word_to_history toy_pickle slovo [0x77, 0x6F, 0x72, 0x64] empty_window))
       = Some [(slovo, [0x77, 0x6F, 0x72, 0x64])]
   \<and> filter (\<lambda>p. fst p = slovo)
        (word_history (snd (add_word_to_history toy_pickle slovo [0x74, 0x32]
           (snd (add_word_to_history toy_pickle slovo [0x77, 0x6F, 0x72, 0x64] empty_window)))))
       = [(slovo, [0x74, 0x32])]
   \<and> setitem slovo [0x74, 0x32] (word_history small_window)
       = [(slovo, [0x74, 0x32]), ([0x434, 0x430], [0x662F])]"
proof -
  have ne: "slovo \<noteq> []" "[0x77, 0x6F, 0x72, 0x64] \<noteq> TRANSLATION_FAILED"
    "[0x74, 0x32] \<noteq> TRANSLATION_FAILED"
    by (simp_all add: slovo_def TRANSLATION_FAILED_def)
  have io: "open_write_error toy_pickle = None \<and> dump_error toy_pickle = None"
    "pickle_dumps toy_pickle = rev"
    by (simp_all add: toy_pickle_def)
  have d: "distinct (map fst (word_history empty_window))" "word_history empty_window = []"
    by (simp_all add: empty_window_def)
  note A = add_word_overwrites_and_persists
    [of slovo TRANSLATION_FAILED toy_pickle empty_window "[]" slovo "[0x74, 0x32]" "[0x74, 0x32]"]
  note B = add_word_overwrites_and_persists
    [of slovo "[0x77, 0x6F, 0x72, 0x64]" toy_pickle empty_window "[]" slovo "[0x74, 0x32]"
      "[0x74, 0x32]"]
  from A have 1: "add_word_to_history toy_pickle slovo TRANSLATION_FAILED empty_window
      = (Return (), empty_window)" by simp
  have ne2: "[0x77, 0x6F, 0x72, 0x64] \<noteq> ([] :: ustring)" "[0x74, 0x32] \<noteq> ([] :: ustring)"
    by simp_all
  from B ne ne2 io(1) d(1) have raw:
    "word_history (snd (add_word_to_history toy_pickle slovo [0x77, 0x6F, 0x72, 0x64] empty_window))
       = setitem slovo [0x77, 0x6F, 0x72, 0x64] (word_history empty_window)"
    "history_file (snd (add_word_to_history toy_pickle slovo [0x77, 0x6F, 0x72, 0x64] empty_window))
       = Some (pickle_dumps toy_pickle
           (setitem slovo [0x77, 0x6F, 0x72, 0x64] (word_history empty_window)))"
    "filter (\<lambda>p. fst p = slovo)
        (word_history (snd (add_word_to_history toy_pickle slovo [0x74, 0x32]
           (snd (add_word_to_history toy_pickle slovo [0x77, 0x6F, 0x72, 0x64] empty_window)))))
       = [(slovo, [0x74, 0x32])]"
    by blast+
  have 2:
    "word_history (snd (add_word_to_history toy_pickle slovo [0x77, 0x6F, 0x72, 0x64] empty_window))
       = [(slovo, [0x77, 0x6F, 0x72, 0x64])]"
    "history_file (snd (add_word_to_history toy_pickle slovo [0x77, 0x6F, 0x72, 0x64] empty_window))
       = Some [(slovo, [0x77, 0x6F, 0x72, 0x64])]"
    "filter (\<lambda>p. fst p = slovo)
        (word_history (snd (add_word_to_history toy_pickle slovo [0x74, 0x32]
           (snd (add_word_to_history toy_pickle slovo [0x77, 0x6F, 0x72, 0x64] empty_window)))))
       = [(slovo, [0x74, 0x32])]"
    unfolding raw by (simp_all add: d(2) io(2))
  have 3: "setitem slovo [0x74, 0x32] (word_history small_window)
       = [(slovo, [0x74, 0x32]), ([0x434, 0x430], [0x662F])]"
    by (simp add: small_window_def empty_window_def)
  from 1 2 3 show ?thesis by simp
qed

lemma load_reads_file:
  assumes f: "history_file w' = Some bytes"
    and pk: "pickle_loads io bytes = Return d"
    and rd: "open_read_error io = None"
  shows "word_history (snd (load_word_history io w')) = d"
    and "history_file (snd (load_word_history io w')) = Some bytes"
    and "has_log_text w' \<longrightarrow>
           load_word_history io w' =
             (Return (),
              w'\<lparr>word_history := d,
                 log_messages := log_messages w' @ [(HistoryLoaded (length d), Success)]\<rparr>)"
  using f pk rd
  by (cases "has_log_text w'";
      simp add: load_word_history_def try_except_Exception_def bind_m_def read_history_def
        set_word_count_label_def log_message_def is_Exception_def)+

lemma save_leaves_widgets: "has_log_text (snd (save_word_history io w)) = has_log_text w"
  by (auto simp: save_word_history_def try_except_Exception_def bind_m_def write_history_def
      log_message_def return_m_def split: option.splits prod.splits res.splits if_splits)

text \<open>
  C8. For every table, the empty one included: when \<open>pickle\<close> reads back what it wrote
  for this table and the file can be written and read, \<open>save_word_history\<close> returns,
  leaves the table in memory as it is and writes its serialisation to the file; and
  \<open>load_word_history\<close>, run in any window that finds this file (whatever table the window
  holds in memory: the window that saved, or a new one after a restart), leaves the
  window with the table that was saved and the file as it is. In a window whose widgets
  exist the load returns, and changes nothing but the table and the log, which gets the
  notification with the number of words.
\<close>

theorem save_then_load_restores_table:
  "pickle_loads io (pickle_dumps io (word_history w)) = Return (word_history w)
     \<and> open_write_error io = None \<and> dump_error io = None \<and> open_read_error io = None
     \<and> history_file w' = history_file (snd (save_word_history io w))
   \<longrightarrow>
   fst (save_word_history io w) = Return ()
   \<and> word_history (snd (save_word_history io w)) = word_history w
   \<and> has_log_text (snd (save_word_history io w)) = has_log_text w
   \<and> history_file (snd (save_word_history io w)) = Some (pickle_dumps io (word_history w))
   \<and> word_history (snd (load_word_history io w')) = word_history w
   \<and> history_file (snd (load_word_history io w')) = Some (pickle_dumps io (word_history w))
   \<and> (has_log_text w' \<longrightarrow>
        load_word_history io w' =
          (Return (),
           w'\<lparr>word_history := word_history w,
              log_messages :=
                log_messages w' @ [(HistoryLoaded (length (word_history w)), Success)]\<rparr>))"
proof
  assume a: "pickle_loads io (pickle_dumps io (word_history w)) = Return (word_history w)
     \<and> open_write_error io = None \<and> dump_error io = None \<and> open_read_error io = None
     \<and> history_file w' = history_file (snd (save_word_history io w))"
  then have pk: "pickle_loads io (pickle_dumps io (word_history w)) = Return (word_history w)"
    and wr: "open_write_error io = None" "dump_error io = None"
    and rd: "open_read_error io = None"
    and same: "history_file w' = history_file (snd (save_word_history io w))"
    by simp_all
  have written: "history_file (snd (save_word_history io w))
      = Some (pickle_dumps io (word_history w))"
    by (rule save_writes_table(1) [OF wr])
  have f: "history_file w' = Some (pickle_dumps io (word_history w))"
    using same written by simp
  note l = load_reads_file [OF f pk rd]
  show "fst (save_word_history io w) = Return ()
   \<and> word_history (snd (save_word_history io w)) = word_history w
   \<and> has_log_text (snd (save_word_history io w)) = has_log_text w
   \<and> history_file (snd (save_word_history io w)) = Some (pickle_dumps io (word_history w))
   \<and> word_history (snd (load_word_history io w')) = word_history w
   \<and> history_file (snd (load_word_history io w')) = Some (pickle_dumps io (word_history w))
   \<and> (has_log_text w' \<longrightarrow>
        load_word_history io w' =
          (Return (),
           w'\<lparr>word_history := word_history w,
              log_messages :=
                log_messages w' @ [(HistoryLoaded (length (word_history w)), Success)]\<rparr>))"
  proof (intro conjI)
    show "fst (save_word_history io w) = Return ()" by (rule save_writes_table(2) [OF wr])
    show "word_history (snd (save_word_history io w)) = word_history w"
      by (rule save_keeps_table)
    show "has_log_text (snd (save_word_history io w)) = has_log_text w"
      by (rule save_leaves_widgets)
    show "history_file (snd (save_word_history io w)) = Some (pickle_dumps io (word_history w))"
      by (rule written)
    show "word_history (snd (load_word_history io w')) = word_history w" by (rule l(1))
    show "history_file (snd (load_word_history io w')) = Some (pickle_dumps io (word_history w))"
      by (rule l(2))
    show "has_log_text w' \<longrightarrow>
        load_word_history io w' =
          (Return (),
           w'\<lparr>word_history := word_history w,
              log_messages :=
                log_messages w' @ [(HistoryLoaded (length (word_history w)), Success)]\<rparr>)"
      by (rule l(3))
  qed
qed

theorem save_then_load_restores_table_witness:
  "word_history (empty_window\<lparr>history_file :=
       history_file (snd (save_word_history toy_pickle small_window))\<rparr>) = []
   \<and> history_file (snd (save_word_history toy_pickle small_window))
     = Some [([0x434, 0x430], [0x662F]), (slovo, [0x77, 0x6F, 0x72, 0x64])]
   \<and> load_word_history toy_pickle
       (empty_window\<lparr>history_file :=
          history_file (snd (save_word_history toy_pickle small_window))\<rparr>)
     = (Return (),
        \<lparr> word_translations = [],
          word_history = [(slovo, [0x77, 0x6F, 0x72, 0x64]), ([0x434, 0x430], [0x662F])],
          log_messages = [(HistoryLoaded 2, Success)],
          has_log_text = True,
          history_file = Some [([0x434, 0x430], [0x662F]), (slovo, [0x77, 0x6F, 0x72, 0x64])] \<rparr>)
   \<and> word_history (small_window\<lparr>history_file :=
       history_file (snd (save_word_history toy_pickle empty_window))\<rparr>)
     = [(slovo, [0x77, 0x6F, 0x72, 0x64]), ([0x434, 0x430], [0x662F])]
   \<and> word_history (snd (load_word_history toy_pickle
       (small_window\<lparr>history_file :=
          history_file (snd (save_word_history toy_pickle empty_window))\<rparr>))) = []
   \<and> word_history (snd (load_word_history toy_pickle
       (snd (save_word_history toy_pickle small_window))))
     = [(slovo, [0x77, 0x6F, 0x72, 0x64]), ([0x434, 0x430], [0x662F])]
   \<and> fst (load_word_history toy_pickle (snd (save_word_history toy_pickle small_window)))
     = Return ()"
proof -
  define fresh where "fresh = empty_window\<lparr>history_file :=
       history_file (snd (save_word_history toy_pickle small_window))\<rparr>"
  define stale where "stale = small_window\<lparr>history_file :=
       history_file (snd (save_word_history toy_pickle empty_window))\<rparr>"
  define saved where "saved = snd (save_word_history toy_pickle small_window)"
  have h: "pickle_loads toy_pickle (pickle_dumps toy_pickle d) = Return d
     \<and> open_write_error toy_pickle = None \<and> dump_error toy_pickle = None
     \<and> open_read_error toy_pickle = None" for d
    by (simp add: toy_pickle_def)
  have t: "word_history small_window
      = [(slovo, [0x77, 0x6F, 0x72, 0x64]), ([0x434, 0x430], [0x662F])]"
    "word_history empty_window = []" "has_log_text small_window"
    "pickle_dumps toy_pickle (word_history small_window)
      = [([0x434, 0x430], [0x662F]), (slovo, [0x77, 0x6F, 0x72, 0x64])]"
    by (simp_all add: small_window_def empty_window_def toy_pickle_def)
  have fr: "history_file fresh = history_file (snd (save_word_history toy_pickle small_window))"
    "has_log_text fresh" "word_history fresh = []" "log_messages fresh = []"
    by (simp_all add: fresh_def empty_window_def)
  have st: "history_file stale = history_file (snd (save_word_history toy_pickle empty_window))"
    "word_history stale = word_history small_window"
    by (simp_all add: stale_def)
  have sv: "history_file saved = history_file (snd (save_word_history toy_pickle small_window))"
    by (simp add: saved_def)
  note A = save_then_load_restores_table [of toy_pickle small_window fresh]
  note B = save_then_load_restores_table [of toy_pickle empty_window stale]
  note C = save_then_load_restores_table [of toy_pickle small_window saved]
  from A h fr(1,2) have a:
    "history_file (snd (save_word_history toy_pickle small_window))
       = Some (pickle_dumps toy_pickle (word_history small_window))"
    "load_word_history toy_pickle fresh =
       (Return (),
        fresh\<lparr>word_history := word_history small_window,
              log_messages := log_messages fresh
                @ [(HistoryLoaded (length (word_history small_window)), Success)]\<rparr>)"
    by simp_all
  from B h st(1) have b: "word_history (snd (load_word_history toy_pickle stale))
      = word_history empty_window"
    by simp
  from C h sv have c0: "word_history (snd (load_word_history toy_pickle saved))
      = word_history small_window"
    "has_log_text (snd (save_word_history toy_pickle small_window))
      = has_log_text small_window"
    "has_log_text saved \<longrightarrow> fst (load_word_history toy_pickle saved) = Return ()"
    by simp_all
  from c0(2) t(3) have ui: "has_log_text saved" by (simp add: saved_def)
  from c0 ui have c: "word_history (snd (load_word_history toy_pickle saved))
      = word_history small_window"
    "fst (load_word_history toy_pickle saved) = Return ()"
    by simp_all
  have a1: "history_file (snd (save_word_history toy_pickle small_window))
       = Some [([0x434, 0x430], [0x662F]), (slovo, [0x77, 0x6F, 0x72, 0x64])]"
    using a(1) unfolding t(4) .
  have a2: "load_word_history toy_pickle fresh
     = (Return (),
        \<lparr> word_translations = [],
          word_history = [(slovo, [0x77, 0x6F, 0x72, 0x64]), ([0x434, 0x430], [0x662F])],
          log_messages = [(HistoryLoaded 2, Success)],
          has_log_text = True,
          history_file = Some [([0x434, 0x430], [0x662F]), (slovo, [0x77, 0x6F, 0x72, 0x64])] \<rparr>)"
    unfolding a(2) by (simp add: fresh_def a1 t(1) empty_window_def)
  show ?thesis
    using a1 a2 b c fr(3) st(2) t(1,2)
    unfolding fresh_def stale_def saved_def
    by simp
qed

end
